theory Spec2Isabelle
  imports Complex_Main "HOL-Library.Word"
begin

unbundle bit_operations_syntax

section \<open>Strings\<close>

text \<open>
  \<open>TString\<close> is a sequence of bytes; it is modelled as \<open>string\<close> (a list of 8-bit
  \<open>char\<close>). \<open>operator==\<close> compares sizes and bytes, which is list equality.
  Character tests of the source compare \<open>char\<close> values against ASCII literals; with
  the byte read through \<open>of_char\<close> a non-ASCII byte (negative as a signed \<open>char\<close>,
  above 127 here) fails every such range test in both readings.
\<close>

definition ToLowerChar :: "char \<Rightarrow> char" where
  "ToLowerChar c =
     (if 65 \<le> (of_char c :: nat) \<and> (of_char c :: nat) \<le> 90
      then char_of ((of_char c :: nat) + 32) else c)"

definition ToLower :: "string \<Rightarrow> string" where
  "ToLower str = map ToLowerChar str"

text \<open>\<open>TString::Hash\<close>: 64-bit FNV-1a over the bytes (\<open>size_t\<close> arithmetic wraps).\<close>

definition Hash :: "string \<Rightarrow> 64 word" where
  "Hash str = foldl (\<lambda>hash c. (hash XOR of_char c) * 1099511628211) 14695981039346656037 str"

section \<open>Porter stemmer (\<open>TPorterStemmer\<close>)\<close>

fun IsConsonant :: "string \<Rightarrow> nat \<Rightarrow> bool" where
  "IsConsonant str i =
     (let c = str ! i in
      if c = CHR ''a'' \<or> c = CHR ''e'' \<or> c = CHR ''i'' \<or> c = CHR ''o'' \<or> c = CHR ''u'' then False
      else if c = CHR ''y'' then (if i = 0 then True else \<not> IsConsonant str (i - 1))
      else True)"

declare IsConsonant.simps [simp del]

text \<open>The three inner \<open>while\<close> loops of \<open>MeasureM\<close>, each advancing the index \<open>i\<close>.\<close>

function skip_vowels :: "string \<Rightarrow> nat \<Rightarrow> nat" where
  "skip_vowels str i =
     (if i < length str \<and> \<not> IsConsonant str i then skip_vowels str (i + 1) else i)"
  by pat_completeness auto
termination
  by (relation "measure (\<lambda>(str, i). length str - i)") auto

declare skip_vowels.simps [simp del]

function skip_consonants :: "string \<Rightarrow> nat \<Rightarrow> nat" where
  "skip_consonants str i =
     (if i < length str \<and> IsConsonant str i then skip_consonants str (i + 1) else i)"
  by pat_completeness auto
termination
  by (relation "measure (\<lambda>(str, i). length str - i)") auto

declare skip_consonants.simps [simp del]

lemma skip_vowels_ge: "i \<le> skip_vowels str i"
proof (induction str i rule: skip_vowels.induct)
  case (1 str i)
  show ?case
  proof (cases "i < length str \<and> \<not> IsConsonant str i")
    case True
    with 1 have "i + 1 \<le> skip_vowels str (i + 1)" by simp
    with True show ?thesis by (subst skip_vowels.simps) simp
  next
    case False
    then show ?thesis by (subst skip_vowels.simps) auto
  qed
qed

lemma skip_vowels_gt:
  "i < length str \<Longrightarrow> \<not> IsConsonant str i \<Longrightarrow> i < skip_vowels str i"
  using skip_vowels_ge [of "i + 1" str] by (subst skip_vowels.simps) simp

lemma skip_consonants_ge: "i \<le> skip_consonants str i"
proof (induction str i rule: skip_consonants.induct)
  case (1 str i)
  show ?case
  proof (cases "i < length str \<and> IsConsonant str i")
    case True
    with 1 have "i + 1 \<le> skip_consonants str (i + 1)" by simp
    with True show ?thesis by (subst skip_consonants.simps) simp
  next
    case False
    then show ?thesis by (subst skip_consonants.simps) auto
  qed
qed

lemma skip_consonants_stop:
  "skip_consonants str i < length str \<Longrightarrow> \<not> IsConsonant str (skip_consonants str i)"
proof (induction str i rule: skip_consonants.induct)
  case (1 str i)
  show ?case
  proof (cases "i < length str \<and> IsConsonant str i")
    case True
    then have eq: "skip_consonants str i = skip_consonants str (i + 1)"
      by (subst skip_consonants.simps) simp
    with 1 True show ?thesis by simp
  next
    case False
    then have eq: "skip_consonants str i = i"
      by (subst skip_consonants.simps) auto
    with 1(2) False show ?thesis by simp
  qed
qed

text \<open>
  The outer loop of \<open>MeasureM\<close>: skip a run of consonants, stop at the end of the
  string, otherwise count one and skip the following run of vowels.
\<close>

function MeasureM_loop :: "string \<Rightarrow> nat \<Rightarrow> nat \<Rightarrow> nat" where
  "MeasureM_loop str i n =
     (if i < length str then
        (let i1 = skip_consonants str i in
         if i1 \<ge> length str then n
         else MeasureM_loop str (skip_vowels str i1) (n + 1))
      else n)"
  by pat_completeness auto
termination
proof (relation "measure (\<lambda>(str, i, n). length str - i)")
  show "wf (measure (\<lambda>(str, i, n). length str - i))" by simp
next
  fix str :: string and i n x :: nat
  assume a: "i < length str" "x = skip_consonants str i" "\<not> length str \<le> x"
  then have "\<not> IsConsonant str x" using skip_consonants_stop [of str i] by simp
  with a have "x < skip_vowels str x" using skip_vowels_gt [of x str] by simp
  moreover have "i \<le> x" using a skip_consonants_ge [of i str] by simp
  ultimately show "((str, skip_vowels str x, n + 1), (str, i, n)) \<in> measure (\<lambda>(str, i, n). length str - i)"
    using a by simp
qed

declare MeasureM_loop.simps [simp del]

definition MeasureM :: "string \<Rightarrow> nat" where
  "MeasureM str = MeasureM_loop str (skip_vowels str 0) 0"

definition HasVowel :: "string \<Rightarrow> bool" where
  "HasVowel str = (\<exists>i \<in> set [0 ..< length str]. \<not> IsConsonant str i)"

definition EndsWithDoubleConsonant :: "string \<Rightarrow> bool" where
  "EndsWithDoubleConsonant str =
     (let len = length str in
      if len < 2 then False
      else if str ! (len - 1) \<noteq> str ! (len - 2) then False
      else IsConsonant str (len - 1))"

definition EndsCVC :: "string \<Rightarrow> bool" where
  "EndsCVC str =
     (let len = length str in
      if len < 3 then False
      else if \<not> IsConsonant str (len - 1) then False
      else if IsConsonant str (len - 2) then False
      else if \<not> IsConsonant str (len - 3) then False
      else (let c = str ! (len - 1) in
            if c = CHR ''w'' \<or> c = CHR ''x'' \<or> c = CHR ''y'' then False else True))"

text \<open>
  \<open>EndsWith\<close> compares the last \<open>slen\<close> bytes of \<open>str\<close> with the suffix, after
  checking that \<open>str\<close> is long enough.
\<close>

definition EndsWith :: "string \<Rightarrow> string \<Rightarrow> bool" where
  "EndsWith str suffix =
     (if length str < length suffix then False
      else drop (length str - length suffix) str = suffix)"

definition RemoveSuffix :: "string \<Rightarrow> nat \<Rightarrow> string" where
  "RemoveSuffix str len = (if length str \<le> len then [] else take (length str - len) str)"

definition ReplaceSuffix :: "string \<Rightarrow> nat \<Rightarrow> string \<Rightarrow> string" where
  "ReplaceSuffix str removeLen add = RemoveSuffix str removeLen @ add"

definition Step1a :: "string \<Rightarrow> string" where
  "Step1a str =
     (if EndsWith str ''sses'' then ReplaceSuffix str 4 ''ss''
      else if EndsWith str ''ies'' then ReplaceSuffix str 3 ''i''
      else if EndsWith str ''ss'' then str
      else if EndsWith str ''s'' then RemoveSuffix str 1
      else str)"

definition Step1b_post :: "string \<Rightarrow> string" where
  "Step1b_post result =
     (if EndsWith result ''at'' then ReplaceSuffix result 2 ''ate''
      else if EndsWith result ''bl'' then ReplaceSuffix result 2 ''ble''
      else if EndsWith result ''iz'' then ReplaceSuffix result 2 ''ize''
      else if EndsWithDoubleConsonant result
              \<and> (let c = result ! (length result - 1) in
                   c \<noteq> CHR ''l'' \<and> c \<noteq> CHR ''s'' \<and> c \<noteq> CHR ''z'')
           then RemoveSuffix result 1
      else if MeasureM result = 1 \<and> EndsCVC result then result @ ''e''
      else result)"

definition Step1b :: "string \<Rightarrow> string" where
  "Step1b str =
     (if EndsWith str ''eed'' then
        (if MeasureM (RemoveSuffix str 3) > 0 then ReplaceSuffix str 3 ''ee'' else str)
      else if EndsWith str ''ed'' then
        (let stem = RemoveSuffix str 2 in
         if HasVowel stem then Step1b_post stem else str)
      else if EndsWith str ''ing'' then
        (let stem = RemoveSuffix str 3 in
         if HasVowel stem then Step1b_post stem else str)
      else str)"

definition Step1c :: "string \<Rightarrow> string" where
  "Step1c str =
     (if EndsWith str ''y'' \<and> HasVowel (RemoveSuffix str 1)
      then ReplaceSuffix str 1 ''i'' else str)"

text \<open>The suffix tables of \<open>stemmer_const.h\<close> (\<open>TSuffixRule\<close>: \<open>From\<close>, \<open>To\<close>, \<open>Len\<close>).\<close>

definition Step2_SUFFIXES :: "(string \<times> string \<times> nat) list" where
  "Step2_SUFFIXES =
     [(''ational'', ''ate'', 7), (''tional'', ''tion'', 6), (''enci'', ''ence'', 4),
      (''anci'', ''ance'', 4), (''izer'', ''ize'', 4), (''abli'', ''able'', 4),
      (''alli'', ''al'', 4), (''entli'', ''ent'', 5), (''eli'', ''e'', 3),
      (''ousli'', ''ous'', 5), (''ization'', ''ize'', 7), (''ation'', ''ate'', 5),
      (''ator'', ''ate'', 4), (''alism'', ''al'', 5), (''iveness'', ''ive'', 7),
      (''fulness'', ''ful'', 7), (''ousness'', ''ous'', 7), (''aliti'', ''al'', 5),
      (''iviti'', ''ive'', 5), (''biliti'', ''ble'', 6), (''logi'', ''log'', 4),
      (''fulli'', ''ful'', 5), (''lessli'', ''less'', 6)]"

definition Step3_SUFFIXES :: "(string \<times> string \<times> nat) list" where
  "Step3_SUFFIXES =
     [(''icate'', ''ic'', 5), (''ative'', '''', 5), (''alize'', ''al'', 5),
      (''iciti'', ''ic'', 5), (''ical'', ''ic'', 4), (''ful'', '''', 3), (''ness'', '''', 4)]"

definition Step4_SUFFIXES :: "string list" where
  "Step4_SUFFIXES =
     [''ement'', ''ance'', ''ence'', ''able'', ''ible'', ''ment'', ''ant'', ''ent'', ''ion'',
      ''ism'', ''ate'', ''iti'', ''ous'', ''ive'', ''ize'', ''al'', ''er'', ''ic'', ''ou'']"

text \<open>
  The loop shared by \<open>Step2\<close> and \<open>Step3\<close>: at the first rule whose \<open>From\<close> is a
  suffix of the word the function returns, rewritten when the guard holds and unchanged
  otherwise.
\<close>

fun Step23_loop :: "string \<Rightarrow> (string \<times> string \<times> nat) list \<Rightarrow> string" where
  "Step23_loop str [] = str"
| "Step23_loop str ((from, to, len) # rules) =
     (if EndsWith str from then
        (if MeasureM (RemoveSuffix str len) > 0 then ReplaceSuffix str len to else str)
      else Step23_loop str rules)"

definition Step2 :: "string \<Rightarrow> string" where
  "Step2 str = Step23_loop str Step2_SUFFIXES"

definition Step3 :: "string \<Rightarrow> string" where
  "Step3 str = Step23_loop str Step3_SUFFIXES"

text \<open>
  The loop of \<open>Step4\<close>. A matching suffix whose guard fails has no \<open>return\<close>: the
  \<open>for\<close> loop goes on to the next table entry.
\<close>

fun Step4_loop :: "string \<Rightarrow> string list \<Rightarrow> string" where
  "Step4_loop str [] = str"
| "Step4_loop str (suffix # rest) =
     (if EndsWith str suffix then
        (let stem = RemoveSuffix str (length suffix) in
         if suffix = ''ion'' then
           (if length stem > 0
               \<and> (let c = stem ! (length stem - 1) in
                    (c = CHR ''s'' \<or> c = CHR ''t'') \<and> MeasureM stem > 1)
            then stem else Step4_loop str rest)
         else (if MeasureM stem > 1 then stem else Step4_loop str rest))
      else Step4_loop str rest)"

definition Step4 :: "string \<Rightarrow> string" where
  "Step4 str = Step4_loop str Step4_SUFFIXES"

definition Step5a :: "string \<Rightarrow> string" where
  "Step5a str =
     (if EndsWith str ''e'' then
        (let stem = RemoveSuffix str 1 in
         if MeasureM stem > 1 then stem
         else if MeasureM stem = 1 \<and> \<not> EndsCVC stem then stem
         else str)
      else str)"

definition Step5b :: "string \<Rightarrow> string" where
  "Step5b str =
     (if MeasureM str > 1 \<and> EndsWithDoubleConsonant str \<and> EndsWith str ''l''
      then RemoveSuffix str 1 else str)"

definition Stem :: "string \<Rightarrow> string" where
  "Stem word =
     (if length word < 3 then word
      else Step5b (Step5a (Step4 (Step3 (Step2 (Step1c (Step1b (Step1a (ToLower word)))))))))"

section \<open>Lemmatizer (\<open>TLemmatizer\<close>)\<close>

text \<open>
  The tables of irregular forms of \<open>stemmer_const.h\<close>, each up to its \<open>nullptr\<close>
  sentinel, in the order in which \<open>InitDictionary\<close> reads them.
\<close>

definition BE_FORMS :: "(string \<times> string) list" where
  "BE_FORMS =
     [(''am'', ''be''), (''are'', ''be''), (''is'', ''be''), (''was'', ''be''), (''were'',
      ''be''), (''been'', ''be''), (''being'', ''be'')]"

definition HAVE_FORMS :: "(string \<times> string) list" where
  "HAVE_FORMS =
     [(''have'', ''have''), (''has'', ''have''), (''had'', ''have''), (''having'',
      ''have'')]"

definition DO_FORMS :: "(string \<times> string) list" where
  "DO_FORMS =
     [(''do'', ''do''), (''does'', ''do''), (''did'', ''do''), (''doing'', ''do''),
      (''done'', ''do'')]"

definition GO_FORMS :: "(string \<times> string) list" where
  "GO_FORMS =
     [(''go'', ''go''), (''goes'', ''go''), (''went'', ''go''), (''going'', ''go''),
      (''gone'', ''go''), (''undergo'', ''undergo''), (''underwent'', ''undergo''),
      (''undergone'', ''undergo''), (''forgo'', ''forgo''), (''forwent'', ''forgo''),
      (''forgone'', ''forgo'')]"

definition RUN_FORMS :: "(string \<times> string) list" where
  "RUN_FORMS =
     [(''ran'', ''run''), (''running'', ''run''), (''runs'', ''run''), (''overran'',
      ''overrun''), (''overrun'', ''overrun''), (''reran'', ''rerun''), (''rerun'',
      ''rerun'')]"

definition TAKE_FORMS :: "(string \<times> string) list" where
  "TAKE_FORMS =
     [(''took'', ''take''), (''taken'', ''take''), (''taking'', ''take''), (''takes'',
      ''take''), (''undertook'', ''undertake''), (''undertaken'', ''undertake''),
      (''mistook'', ''mistake''), (''mistaken'', ''mistake''), (''overtook'', ''overtake''),
      (''overtaken'', ''overtake''), (''retook'', ''retake''), (''retaken'', ''retake'')]"

definition GIVE_FORMS :: "(string \<times> string) list" where
  "GIVE_FORMS =
     [(''gave'', ''give''), (''given'', ''give''), (''giving'', ''give''), (''gives'',
      ''give''), (''forgave'', ''forgive''), (''forgiven'', ''forgive'')]"

definition SEE_FORMS :: "(string \<times> string) list" where
  "SEE_FORMS =
     [(''saw'', ''see''), (''seen'', ''see''), (''seeing'', ''see''), (''sees'', ''see''),
      (''foresee'', ''foresee''), (''foresaw'', ''foresee''), (''foreseen'', ''foresee''),
      (''oversee'', ''oversee''), (''oversaw'', ''oversee''), (''overseen'', ''oversee'')]"

definition COME_FORMS :: "(string \<times> string) list" where
  "COME_FORMS =
     [(''came'', ''come''), (''coming'', ''come''), (''comes'', ''come''), (''become'',
      ''become''), (''became'', ''become''), (''overcome'', ''overcome''), (''overcame'',
      ''overcome'')]"

definition KNOW_FORMS :: "(string \<times> string) list" where
  "KNOW_FORMS =
     [(''knew'', ''know''), (''known'', ''know''), (''knowing'', ''know''), (''knows'',
      ''know'')]"

definition MAKE_FORMS :: "(string \<times> string) list" where
  "MAKE_FORMS =
     [(''made'', ''make''), (''making'', ''make''), (''makes'', ''make''), (''remake'',
      ''remake''), (''remade'', ''remake''), (''unmake'', ''unmake''), (''unmade'',
      ''unmake'')]"

definition SAY_FORMS :: "(string \<times> string) list" where
  "SAY_FORMS =
     [(''said'', ''say''), (''saying'', ''say''), (''says'', ''say'')]"

definition TELL_FORMS :: "(string \<times> string) list" where
  "TELL_FORMS =
     [(''told'', ''tell''), (''telling'', ''tell''), (''tells'', ''tell''), (''retell'',
      ''retell''), (''retold'', ''retell''), (''foretell'', ''foretell''), (''foretold'',
      ''foretell'')]"

definition THINK_FORMS :: "(string \<times> string) list" where
  "THINK_FORMS =
     [(''thought'', ''think''), (''thinking'', ''think''), (''thinks'', ''think''),
      (''rethought'', ''rethink'')]"

definition FIND_FORMS :: "(string \<times> string) list" where
  "FIND_FORMS =
     [(''found'', ''find''), (''finding'', ''find''), (''finds'', ''find'')]"

definition GET_FORMS :: "(string \<times> string) list" where
  "GET_FORMS =
     [(''got'', ''get''), (''gotten'', ''get''), (''getting'', ''get''), (''gets'',
      ''get''), (''forget'', ''forget''), (''forgot'', ''forget''), (''forgotten'',
      ''forget''), (''beget'', ''beget''), (''begot'', ''beget''), (''begotten'',
      ''beget'')]"

definition LEAVE_FORMS :: "(string \<times> string) list" where
  "LEAVE_FORMS =
     [(''left'', ''leave''), (''leaving'', ''leave''), (''leaves'', ''leave'')]"

definition FEEL_FORMS :: "(string \<times> string) list" where
  "FEEL_FORMS =
     [(''felt'', ''feel''), (''feeling'', ''feel''), (''feels'', ''feel'')]"

definition BRING_FORMS :: "(string \<times> string) list" where
  "BRING_FORMS =
     [(''brought'', ''bring''), (''bringing'', ''bring''), (''brings'', ''bring'')]"

definition BUY_FORMS :: "(string \<times> string) list" where
  "BUY_FORMS =
     [(''bought'', ''buy''), (''buying'', ''buy''), (''buys'', ''buy'')]"

definition CATCH_FORMS :: "(string \<times> string) list" where
  "CATCH_FORMS =
     [(''caught'', ''catch''), (''catching'', ''catch''), (''catches'', ''catch'')]"

definition TEACH_FORMS :: "(string \<times> string) list" where
  "TEACH_FORMS =
     [(''taught'', ''teach''), (''teaching'', ''teach''), (''teaches'', ''teach'')]"

definition SEEK_FORMS :: "(string \<times> string) list" where
  "SEEK_FORMS =
     [(''sought'', ''seek''), (''seeking'', ''seek''), (''seeks'', ''seek'')]"

definition WRITE_FORMS :: "(string \<times> string) list" where
  "WRITE_FORMS =
     [(''wrote'', ''write''), (''written'', ''write''), (''writing'', ''write''),
      (''writes'', ''write''), (''rewrite'', ''rewrite''), (''rewrote'', ''rewrite''),
      (''rewritten'', ''rewrite''), (''overwrite'', ''overwrite''), (''overwrote'',
      ''overwrite''), (''overwritten'', ''overwrite'')]"

definition SPEAK_FORMS :: "(string \<times> string) list" where
  "SPEAK_FORMS =
     [(''spoke'', ''speak''), (''spoken'', ''speak''), (''speaking'', ''speak''),
      (''speaks'', ''speak'')]"

definition BREAK_FORMS :: "(string \<times> string) list" where
  "BREAK_FORMS =
     [(''broke'', ''break''), (''broken'', ''break''), (''breaking'', ''break''),
      (''breaks'', ''break''), (''outbreak'', ''outbreak''), (''outbroke'', ''outbreak''),
      (''outbroken'', ''outbreak'')]"

definition CHOOSE_FORMS :: "(string \<times> string) list" where
  "CHOOSE_FORMS =
     [(''chose'', ''choose''), (''chosen'', ''choose''), (''choosing'', ''choose''),
      (''chooses'', ''choose'')]"

definition DRIVE_FORMS :: "(string \<times> string) list" where
  "DRIVE_FORMS =
     [(''drove'', ''drive''), (''driven'', ''drive''), (''driving'', ''drive''),
      (''drives'', ''drive''), (''overdrive'', ''overdrive''), (''overdrove'',
      ''overdrive''), (''overdriven'', ''overdrive'')]"

definition RIDE_FORMS :: "(string \<times> string) list" where
  "RIDE_FORMS =
     [(''rode'', ''ride''), (''ridden'', ''ride''), (''riding'', ''ride''), (''rides'',
      ''ride''), (''override'', ''override''), (''overrode'', ''override''),
      (''overridden'', ''override'')]"

definition RISE_FORMS :: "(string \<times> string) list" where
  "RISE_FORMS =
     [(''rose'', ''rise''), (''risen'', ''rise''), (''rising'', ''rise''), (''rises'',
      ''rise''), (''arise'', ''arise''), (''arose'', ''arise''), (''arisen'', ''arise'')]"

definition FLY_FORMS :: "(string \<times> string) list" where
  "FLY_FORMS =
     [(''flew'', ''fly''), (''flown'', ''fly''), (''flying'', ''fly''), (''flies'',
      ''fly''), (''overfly'', ''overfly''), (''overflew'', ''overfly''), (''overflown'',
      ''overfly'')]"

definition GROW_FORMS :: "(string \<times> string) list" where
  "GROW_FORMS =
     [(''grew'', ''grow''), (''grown'', ''grow''), (''growing'', ''grow''), (''grows'',
      ''grow''), (''outgrow'', ''outgrow''), (''outgrew'', ''outgrow''), (''outgrown'',
      ''outgrow'')]"

definition THROW_FORMS :: "(string \<times> string) list" where
  "THROW_FORMS =
     [(''threw'', ''throw''), (''thrown'', ''throw''), (''throwing'', ''throw''),
      (''throws'', ''throw''), (''overthrow'', ''overthrow''), (''overthrew'',
      ''overthrow''), (''overthrown'', ''overthrow'')]"

definition DRAW_FORMS :: "(string \<times> string) list" where
  "DRAW_FORMS =
     [(''drew'', ''draw''), (''drawn'', ''draw''), (''drawing'', ''draw''), (''draws'',
      ''draw''), (''withdraw'', ''withdraw''), (''withdrew'', ''withdraw''), (''withdrawn'',
      ''withdraw'')]"

definition SING_FORMS :: "(string \<times> string) list" where
  "SING_FORMS =
     [(''sang'', ''sing''), (''sung'', ''sing''), (''singing'', ''sing''), (''sings'',
      ''sing'')]"

definition SWIM_FORMS :: "(string \<times> string) list" where
  "SWIM_FORMS =
     [(''swam'', ''swim''), (''swum'', ''swim''), (''swimming'', ''swim''), (''swims'',
      ''swim'')]"

definition BEGIN_FORMS :: "(string \<times> string) list" where
  "BEGIN_FORMS =
     [(''began'', ''begin''), (''begun'', ''begin''), (''beginning'', ''begin''),
      (''begins'', ''begin'')]"

definition DRINK_FORMS :: "(string \<times> string) list" where
  "DRINK_FORMS =
     [(''drank'', ''drink''), (''drunk'', ''drink''), (''drinking'', ''drink''),
      (''drinks'', ''drink'')]"

definition RING_FORMS :: "(string \<times> string) list" where
  "RING_FORMS =
     [(''rang'', ''ring''), (''rung'', ''ring''), (''ringing'', ''ring''), (''rings'',
      ''ring'')]"

definition SIT_FORMS :: "(string \<times> string) list" where
  "SIT_FORMS =
     [(''sat'', ''sit''), (''sitting'', ''sit''), (''sits'', ''sit''), (''babysit'',
      ''babysit''), (''babysat'', ''babysit'')]"

definition STAND_FORMS :: "(string \<times> string) list" where
  "STAND_FORMS =
     [(''stood'', ''stand''), (''standing'', ''stand''), (''stands'', ''stand''),
      (''understand'', ''understand''), (''understood'', ''understand''), (''withstand'',
      ''withstand''), (''withstood'', ''withstand'')]"

definition HOLD_FORMS :: "(string \<times> string) list" where
  "HOLD_FORMS =
     [(''held'', ''hold''), (''holding'', ''hold''), (''holds'', ''hold''), (''behold'',
      ''behold''), (''beheld'', ''behold''), (''withhold'', ''withhold''), (''withheld'',
      ''withhold''), (''uphold'', ''uphold''), (''upheld'', ''uphold'')]"

definition READ_FORMS :: "(string \<times> string) list" where
  "READ_FORMS =
     [(''read'', ''read''), (''reading'', ''read''), (''reads'', ''read'')]"

definition LEAD_FORMS :: "(string \<times> string) list" where
  "LEAD_FORMS =
     [(''led'', ''lead''), (''leading'', ''lead''), (''leads'', ''lead''), (''mislead'',
      ''mislead''), (''misled'', ''mislead'')]"

definition MEET_FORMS :: "(string \<times> string) list" where
  "MEET_FORMS =
     [(''met'', ''meet''), (''meeting'', ''meet''), (''meets'', ''meet'')]"

definition PAY_FORMS :: "(string \<times> string) list" where
  "PAY_FORMS =
     [(''paid'', ''pay''), (''paying'', ''pay''), (''pays'', ''pay''), (''repay'',
      ''repay''), (''repaid'', ''repay''), (''overpay'', ''overpay''), (''overpaid'',
      ''overpay'')]"

definition SEND_FORMS :: "(string \<times> string) list" where
  "SEND_FORMS =
     [(''sent'', ''send''), (''sending'', ''send''), (''sends'', ''send'')]"

definition SPEND_FORMS :: "(string \<times> string) list" where
  "SPEND_FORMS =
     [(''spent'', ''spend''), (''spending'', ''spend''), (''spends'', ''spend''),
      (''overspend'', ''overspend''), (''overspent'', ''overspend'')]"

definition BUILD_FORMS :: "(string \<times> string) list" where
  "BUILD_FORMS =
     [(''built'', ''build''), (''building'', ''build''), (''builds'', ''build''),
      (''rebuild'', ''rebuild''), (''rebuilt'', ''rebuild'')]"

definition LOSE_FORMS :: "(string \<times> string) list" where
  "LOSE_FORMS =
     [(''lost'', ''lose''), (''losing'', ''lose''), (''loses'', ''lose'')]"

definition KEEP_FORMS :: "(string \<times> string) list" where
  "KEEP_FORMS =
     [(''kept'', ''keep''), (''keeping'', ''keep''), (''keeps'', ''keep'')]"

definition SLEEP_FORMS :: "(string \<times> string) list" where
  "SLEEP_FORMS =
     [(''slept'', ''sleep''), (''sleeping'', ''sleep''), (''sleeps'', ''sleep''),
      (''oversleep'', ''oversleep''), (''overslept'', ''oversleep'')]"

definition WIN_FORMS :: "(string \<times> string) list" where
  "WIN_FORMS =
     [(''won'', ''win''), (''winning'', ''win''), (''wins'', ''win'')]"

definition WEAR_FORMS :: "(string \<times> string) list" where
  "WEAR_FORMS =
     [(''wore'', ''wear''), (''worn'', ''wear''), (''wearing'', ''wear''), (''wears'',
      ''wear'')]"

definition BEAT_FORMS :: "(string \<times> string) list" where
  "BEAT_FORMS =
     [(''beat'', ''beat''), (''beaten'', ''beat''), (''beating'', ''beat''), (''beats'',
      ''beat'')]"

definition BITE_FORMS :: "(string \<times> string) list" where
  "BITE_FORMS =
     [(''bit'', ''bite''), (''bitten'', ''bite''), (''biting'', ''bite''), (''bites'',
      ''bite'')]"

definition BIND_FORMS :: "(string \<times> string) list" where
  "BIND_FORMS =
     [(''bound'', ''bind''), (''binding'', ''bind''), (''binds'', ''bind''), (''unbind'',
      ''unbind''), (''unbound'', ''unbind''), (''rebind'', ''rebind''), (''rebound'',
      ''rebind'')]"

definition BLEED_FORMS :: "(string \<times> string) list" where
  "BLEED_FORMS =
     [(''bled'', ''bleed''), (''bleeding'', ''bleed''), (''bleeds'', ''bleed'')]"

definition BLOW_FORMS :: "(string \<times> string) list" where
  "BLOW_FORMS =
     [(''blew'', ''blow''), (''blown'', ''blow''), (''blowing'', ''blow''), (''blows'',
      ''blow''), (''overblow'', ''overblow''), (''overblew'', ''overblow''), (''overblown'',
      ''overblow'')]"

definition BEAR_FORMS :: "(string \<times> string) list" where
  "BEAR_FORMS =
     [(''bore'', ''bear''), (''born'', ''bear''), (''borne'', ''bear''), (''bearing'',
      ''bear''), (''bears'', ''bear'')]"

definition EAT_FORMS :: "(string \<times> string) list" where
  "EAT_FORMS =
     [(''ate'', ''eat''), (''eaten'', ''eat''), (''eating'', ''eat''), (''eats'', ''eat''),
      (''overeat'', ''overeat''), (''overate'', ''overeat''), (''overeaten'', ''overeat'')]"

definition FALL_FORMS :: "(string \<times> string) list" where
  "FALL_FORMS =
     [(''fell'', ''fall''), (''fallen'', ''fall''), (''falling'', ''fall''), (''falls'',
      ''fall''), (''befall'', ''befall''), (''befell'', ''befall''), (''befallen'',
      ''befall'')]"

definition HIDE_FORMS :: "(string \<times> string) list" where
  "HIDE_FORMS =
     [(''hid'', ''hide''), (''hidden'', ''hide''), (''hiding'', ''hide''), (''hides'',
      ''hide'')]"

definition SHAKE_FORMS :: "(string \<times> string) list" where
  "SHAKE_FORMS =
     [(''shook'', ''shake''), (''shaken'', ''shake''), (''shaking'', ''shake''),
      (''shakes'', ''shake'')]"

definition FREEZE_FORMS :: "(string \<times> string) list" where
  "FREEZE_FORMS =
     [(''froze'', ''freeze''), (''frozen'', ''freeze''), (''freezing'', ''freeze''),
      (''freezes'', ''freeze'')]"

definition STEAL_FORMS :: "(string \<times> string) list" where
  "STEAL_FORMS =
     [(''stole'', ''steal''), (''stolen'', ''steal''), (''stealing'', ''steal''),
      (''steals'', ''steal'')]"

definition TEAR_FORMS :: "(string \<times> string) list" where
  "TEAR_FORMS =
     [(''tore'', ''tear''), (''torn'', ''tear''), (''tearing'', ''tear''), (''tears'',
      ''tear'')]"

definition WEAVE_FORMS :: "(string \<times> string) list" where
  "WEAVE_FORMS =
     [(''wove'', ''weave''), (''woven'', ''weave''), (''weaving'', ''weave''), (''weaves'',
      ''weave'')]"

definition FORBID_FORMS :: "(string \<times> string) list" where
  "FORBID_FORMS =
     [(''forbade'', ''forbid''), (''forbidden'', ''forbid''), (''forbidding'', ''forbid''),
      (''forbids'', ''forbid'')]"

definition FORGIVE_FORMS :: "(string \<times> string) list" where
  "FORGIVE_FORMS =
     [(''forgave'', ''forgive''), (''forgiven'', ''forgive''), (''forgiving'', ''forgive''),
      (''forgives'', ''forgive'')]"

definition LIE_FORMS :: "(string \<times> string) list" where
  "LIE_FORMS =
     [(''lay'', ''lie''), (''lain'', ''lie''), (''lying'', ''lie''), (''lies'', ''lie'')]"

definition LAY_FORMS :: "(string \<times> string) list" where
  "LAY_FORMS =
     [(''laid'', ''lay''), (''laying'', ''lay''), (''lays'', ''lay'')]"

definition SHINE_FORMS :: "(string \<times> string) list" where
  "SHINE_FORMS =
     [(''shone'', ''shine''), (''shined'', ''shine''), (''shining'', ''shine''),
      (''shines'', ''shine'')]"

definition SHOOT_FORMS :: "(string \<times> string) list" where
  "SHOOT_FORMS =
     [(''shot'', ''shoot''), (''shooting'', ''shoot''), (''shoots'', ''shoot''),
      (''overshoot'', ''overshoot''), (''overshot'', ''overshoot'')]"

definition SHOW_FORMS :: "(string \<times> string) list" where
  "SHOW_FORMS =
     [(''showed'', ''show''), (''shown'', ''show''), (''showing'', ''show''), (''shows'',
      ''show'')]"

definition SHRINK_FORMS :: "(string \<times> string) list" where
  "SHRINK_FORMS =
     [(''shrank'', ''shrink''), (''shrunk'', ''shrink''), (''shrinking'', ''shrink''),
      (''shrinks'', ''shrink'')]"

definition SHUT_FORMS :: "(string \<times> string) list" where
  "SHUT_FORMS =
     [(''shut'', ''shut''), (''shutting'', ''shut''), (''shuts'', ''shut'')]"

definition SLAY_FORMS :: "(string \<times> string) list" where
  "SLAY_FORMS =
     [(''slew'', ''slay''), (''slain'', ''slay''), (''slaying'', ''slay''), (''slays'',
      ''slay'')]"

definition SLIDE_FORMS :: "(string \<times> string) list" where
  "SLIDE_FORMS =
     [(''slid'', ''slide''), (''sliding'', ''slide''), (''slides'', ''slide'')]"

definition SLING_FORMS :: "(string \<times> string) list" where
  "SLING_FORMS =
     [(''slung'', ''sling''), (''slinging'', ''sling''), (''slings'', ''sling'')]"

definition SLIT_FORMS :: "(string \<times> string) list" where
  "SLIT_FORMS =
     [(''slit'', ''slit''), (''slitting'', ''slit''), (''slits'', ''slit'')]"

definition SMITE_FORMS :: "(string \<times> string) list" where
  "SMITE_FORMS =
     [(''smote'', ''smite''), (''smitten'', ''smite''), (''smiting'', ''smite''),
      (''smites'', ''smite'')]"

definition SOW_FORMS :: "(string \<times> string) list" where
  "SOW_FORMS =
     [(''sowed'', ''sow''), (''sown'', ''sow''), (''sowing'', ''sow''), (''sows'', ''sow'')]"

definition SPIN_FORMS :: "(string \<times> string) list" where
  "SPIN_FORMS =
     [(''spun'', ''spin''), (''spinning'', ''spin''), (''spins'', ''spin'')]"

definition SPIT_FORMS :: "(string \<times> string) list" where
  "SPIT_FORMS =
     [(''spat'', ''spit''), (''spit'', ''spit''), (''spitting'', ''spit''), (''spits'',
      ''spit'')]"

definition SPLIT_FORMS :: "(string \<times> string) list" where
  "SPLIT_FORMS =
     [(''split'', ''split''), (''splitting'', ''split''), (''splits'', ''split'')]"

definition SPREAD_FORMS :: "(string \<times> string) list" where
  "SPREAD_FORMS =
     [(''spread'', ''spread''), (''spreading'', ''spread''), (''spreads'', ''spread'')]"

definition SPRING_FORMS :: "(string \<times> string) list" where
  "SPRING_FORMS =
     [(''sprang'', ''spring''), (''sprung'', ''spring''), (''springing'', ''spring''),
      (''springs'', ''spring'')]"

definition STICK_FORMS :: "(string \<times> string) list" where
  "STICK_FORMS =
     [(''stuck'', ''stick''), (''sticking'', ''stick''), (''sticks'', ''stick'')]"

definition STING_FORMS :: "(string \<times> string) list" where
  "STING_FORMS =
     [(''stung'', ''sting''), (''stinging'', ''sting''), (''stings'', ''sting'')]"

definition STINK_FORMS :: "(string \<times> string) list" where
  "STINK_FORMS =
     [(''stank'', ''stink''), (''stunk'', ''stink''), (''stinking'', ''stink''),
      (''stinks'', ''stink'')]"

definition STRIDE_FORMS :: "(string \<times> string) list" where
  "STRIDE_FORMS =
     [(''strode'', ''stride''), (''stridden'', ''stride''), (''striding'', ''stride''),
      (''strides'', ''stride'')]"

definition STRIKE_FORMS :: "(string \<times> string) list" where
  "STRIKE_FORMS =
     [(''struck'', ''strike''), (''stricken'', ''strike''), (''striking'', ''strike''),
      (''strikes'', ''strike'')]"

definition STRING_FORMS :: "(string \<times> string) list" where
  "STRING_FORMS =
     [(''strung'', ''string''), (''stringing'', ''string''), (''strings'', ''string'')]"

definition STRIVE_FORMS :: "(string \<times> string) list" where
  "STRIVE_FORMS =
     [(''strove'', ''strive''), (''striven'', ''strive''), (''striving'', ''strive''),
      (''strives'', ''strive'')]"

definition SWEAR_FORMS :: "(string \<times> string) list" where
  "SWEAR_FORMS =
     [(''swore'', ''swear''), (''sworn'', ''swear''), (''swearing'', ''swear''),
      (''swears'', ''swear'')]"

definition SWEEP_FORMS :: "(string \<times> string) list" where
  "SWEEP_FORMS =
     [(''swept'', ''sweep''), (''sweeping'', ''sweep''), (''sweeps'', ''sweep'')]"

definition SWELL_FORMS :: "(string \<times> string) list" where
  "SWELL_FORMS =
     [(''swelled'', ''swell''), (''swollen'', ''swell''), (''swelling'', ''swell''),
      (''swells'', ''swell'')]"

definition SWING_FORMS :: "(string \<times> string) list" where
  "SWING_FORMS =
     [(''swung'', ''swing''), (''swinging'', ''swing''), (''swings'', ''swing'')]"

definition TREAD_FORMS :: "(string \<times> string) list" where
  "TREAD_FORMS =
     [(''trod'', ''tread''), (''trodden'', ''tread''), (''treading'', ''tread''),
      (''treads'', ''tread'')]"

definition WAKE_FORMS :: "(string \<times> string) list" where
  "WAKE_FORMS =
     [(''woke'', ''wake''), (''woken'', ''wake''), (''waking'', ''wake''), (''wakes'',
      ''wake''), (''awake'', ''awake''), (''awoke'', ''awake''), (''awoken'', ''awake'')]"

definition WIND_FORMS :: "(string \<times> string) list" where
  "WIND_FORMS =
     [(''wound'', ''wind''), (''winding'', ''wind''), (''winds'', ''wind''), (''unwind'',
      ''unwind''), (''unwound'', ''unwind''), (''rewind'', ''rewind''), (''rewound'',
      ''rewind'')]"

definition WRING_FORMS :: "(string \<times> string) list" where
  "WRING_FORMS =
     [(''wrung'', ''wring''), (''wringing'', ''wring''), (''wrings'', ''wring'')]"

definition LIGHT_FORMS :: "(string \<times> string) list" where
  "LIGHT_FORMS =
     [(''lit'', ''light''), (''lighted'', ''light''), (''lighting'', ''light''),
      (''lights'', ''light'')]"

definition QUIT_FORMS :: "(string \<times> string) list" where
  "QUIT_FORMS =
     [(''quit'', ''quit''), (''quitting'', ''quit''), (''quits'', ''quit'')]"

definition SET_FORMS :: "(string \<times> string) list" where
  "SET_FORMS =
     [(''set'', ''set''), (''setting'', ''set''), (''sets'', ''set''), (''upset'',
      ''upset''), (''reset'', ''reset''), (''offset'', ''offset'')]"

definition CUT_FORMS :: "(string \<times> string) list" where
  "CUT_FORMS =
     [(''cut'', ''cut''), (''cutting'', ''cut''), (''cuts'', ''cut''), (''undercut'',
      ''undercut'')]"

definition HIT_FORMS :: "(string \<times> string) list" where
  "HIT_FORMS =
     [(''hit'', ''hit''), (''hitting'', ''hit''), (''hits'', ''hit'')]"

definition PUT_FORMS :: "(string \<times> string) list" where
  "PUT_FORMS =
     [(''put'', ''put''), (''putting'', ''put''), (''puts'', ''put''), (''input'',
      ''input''), (''output'', ''output'')]"

definition LET_FORMS :: "(string \<times> string) list" where
  "LET_FORMS =
     [(''let'', ''let''), (''letting'', ''let''), (''lets'', ''let'')]"

definition COST_FORMS :: "(string \<times> string) list" where
  "COST_FORMS =
     [(''cost'', ''cost''), (''costing'', ''cost''), (''costs'', ''cost'')]"

definition CAST_FORMS :: "(string \<times> string) list" where
  "CAST_FORMS =
     [(''cast'', ''cast''), (''casting'', ''cast''), (''casts'', ''cast''), (''broadcast'',
      ''broadcast''), (''forecast'', ''forecast''), (''overcast'', ''overcast'')]"

definition BURST_FORMS :: "(string \<times> string) list" where
  "BURST_FORMS =
     [(''burst'', ''burst''), (''bursting'', ''burst''), (''bursts'', ''burst'')]"

definition HURT_FORMS :: "(string \<times> string) list" where
  "HURT_FORMS =
     [(''hurt'', ''hurt''), (''hurting'', ''hurt''), (''hurts'', ''hurt'')]"

definition BET_FORMS :: "(string \<times> string) list" where
  "BET_FORMS =
     [(''bet'', ''bet''), (''betting'', ''bet''), (''bets'', ''bet'')]"

definition BEND_FORMS :: "(string \<times> string) list" where
  "BEND_FORMS =
     [(''bent'', ''bend''), (''bending'', ''bend''), (''bends'', ''bend'')]"

definition LEND_FORMS :: "(string \<times> string) list" where
  "LEND_FORMS =
     [(''lent'', ''lend''), (''lending'', ''lend''), (''lends'', ''lend'')]"

definition FEED_FORMS :: "(string \<times> string) list" where
  "FEED_FORMS =
     [(''fed'', ''feed''), (''feeding'', ''feed''), (''feeds'', ''feed''), (''overfeed'',
      ''overfeed''), (''overfed'', ''overfeed'')]"

definition BREED_FORMS :: "(string \<times> string) list" where
  "BREED_FORMS =
     [(''bred'', ''breed''), (''breeding'', ''breed''), (''breeds'', ''breed''),
      (''crossbreed'', ''crossbreed''), (''crossbred'', ''crossbreed'')]"

definition SPEED_FORMS :: "(string \<times> string) list" where
  "SPEED_FORMS =
     [(''sped'', ''speed''), (''speeding'', ''speed''), (''speeds'', ''speed'')]"

definition FLEE_FORMS :: "(string \<times> string) list" where
  "FLEE_FORMS =
     [(''fled'', ''flee''), (''fleeing'', ''flee''), (''flees'', ''flee'')]"

definition DEAL_FORMS :: "(string \<times> string) list" where
  "DEAL_FORMS =
     [(''dealt'', ''deal''), (''dealing'', ''deal''), (''deals'', ''deal'')]"

definition MEAN_FORMS :: "(string \<times> string) list" where
  "MEAN_FORMS =
     [(''meant'', ''mean''), (''meaning'', ''mean''), (''means'', ''mean'')]"

definition LEAN_FORMS :: "(string \<times> string) list" where
  "LEAN_FORMS =
     [(''leant'', ''lean''), (''leaned'', ''lean''), (''leaning'', ''lean''), (''leans'',
      ''lean'')]"

definition LEAP_FORMS :: "(string \<times> string) list" where
  "LEAP_FORMS =
     [(''leapt'', ''leap''), (''leaped'', ''leap''), (''leaping'', ''leap''), (''leaps'',
      ''leap''), (''overleap'', ''overleap''), (''overleapt'', ''overleap'')]"

definition LEARN_FORMS :: "(string \<times> string) list" where
  "LEARN_FORMS =
     [(''learnt'', ''learn''), (''learned'', ''learn''), (''learning'', ''learn''),
      (''learns'', ''learn'')]"

definition BURN_FORMS :: "(string \<times> string) list" where
  "BURN_FORMS =
     [(''burnt'', ''burn''), (''burned'', ''burn''), (''burning'', ''burn''), (''burns'',
      ''burn'')]"

definition SMELL_FORMS :: "(string \<times> string) list" where
  "SMELL_FORMS =
     [(''smelt'', ''smell''), (''smelled'', ''smell''), (''smelling'', ''smell''),
      (''smells'', ''smell'')]"

definition SPELL_FORMS :: "(string \<times> string) list" where
  "SPELL_FORMS =
     [(''spelt'', ''spell''), (''spelled'', ''spell''), (''spelling'', ''spell''),
      (''spells'', ''spell''), (''misspell'', ''misspell''), (''misspelt'', ''misspell'')]"

definition SPILL_FORMS :: "(string \<times> string) list" where
  "SPILL_FORMS =
     [(''spilt'', ''spill''), (''spilled'', ''spill''), (''spilling'', ''spill''),
      (''spills'', ''spill'')]"

definition SPOIL_FORMS :: "(string \<times> string) list" where
  "SPOIL_FORMS =
     [(''spoilt'', ''spoil''), (''spoiled'', ''spoil''), (''spoiling'', ''spoil''),
      (''spoils'', ''spoil'')]"

definition DREAM_FORMS :: "(string \<times> string) list" where
  "DREAM_FORMS =
     [(''dreamt'', ''dream''), (''dreamed'', ''dream''), (''dreaming'', ''dream''),
      (''dreams'', ''dream'')]"

definition DWELL_FORMS :: "(string \<times> string) list" where
  "DWELL_FORMS =
     [(''dwelt'', ''dwell''), (''dwelled'', ''dwell''), (''dwelling'', ''dwell''),
      (''dwells'', ''dwell'')]"

definition HANG_FORMS :: "(string \<times> string) list" where
  "HANG_FORMS =
     [(''hung'', ''hang''), (''hanged'', ''hang''), (''hanging'', ''hang''), (''hangs'',
      ''hang''), (''overhang'', ''overhang''), (''overhung'', ''overhang'')]"

definition DIG_FORMS :: "(string \<times> string) list" where
  "DIG_FORMS =
     [(''dug'', ''dig''), (''digging'', ''dig''), (''digs'', ''dig'')]"

definition CLING_FORMS :: "(string \<times> string) list" where
  "CLING_FORMS =
     [(''clung'', ''cling''), (''clinging'', ''cling''), (''clings'', ''cling'')]"

definition FLING_FORMS :: "(string \<times> string) list" where
  "FLING_FORMS =
     [(''flung'', ''fling''), (''flinging'', ''fling''), (''flings'', ''fling'')]"

definition ADVERBS :: "(string \<times> string) list" where
  "ADVERBS =
     [(''worse'', ''badly''), (''worst'', ''badly''), (''better'', ''well''), (''best'',
      ''well''), (''more'', ''much''), (''most'', ''much''), (''less'', ''little''),
      (''least'', ''little''), (''farther'', ''far''), (''farthest'', ''far''),
      (''further'', ''far''), (''furthest'', ''far'')]"

definition NOUNS :: "(string \<times> string) list" where
  "NOUNS =
     [(''children'', ''child''), (''men'', ''man''), (''women'', ''woman''), (''feet'',
      ''foot''), (''teeth'', ''tooth''), (''mice'', ''mouse''), (''geese'', ''goose''),
      (''people'', ''person''), (''lice'', ''louse''), (''oxen'', ''ox''), (''deer'',
      ''deer''), (''sheep'', ''sheep''), (''fish'', ''fish''), (''moose'', ''moose''),
      (''series'', ''series''), (''species'', ''species''), (''aircraft'', ''aircraft''),
      (''spacecraft'', ''spacecraft''), (''salmon'', ''salmon''), (''trout'', ''trout''),
      (''swine'', ''swine''), (''bison'', ''bison''), (''buffalo'', ''buffalo''),
      (''shrimp'', ''shrimp''), (''cod'', ''cod''), (''squid'', ''squid''), (''cacti'',
      ''cactus''), (''cactuses'', ''cactus''), (''fungi'', ''fungus''), (''funguses'',
      ''fungus''), (''nuclei'', ''nucleus''), (''syllabi'', ''syllabus''), (''syllabuses'',
      ''syllabus''), (''alumni'', ''alumnus''), (''foci'', ''focus''), (''focuses'',
      ''focus''), (''radii'', ''radius''), (''stimuli'', ''stimulus''), (''termini'',
      ''terminus''), (''terminuses'', ''terminus''), (''cacti'', ''cactus''), (''analyses'',
      ''analysis''), (''axes'', ''axis''), (''bases'', ''basis''), (''crises'', ''crisis''),
      (''diagnoses'', ''diagnosis''), (''ellipses'', ''ellipsis''), (''hypotheses'',
      ''hypothesis''), (''oases'', ''oasis''), (''parentheses'', ''parenthesis''),
      (''synopses'', ''synopsis''), (''syntheses'', ''synthesis''), (''theses'',
      ''thesis''), (''phenomena'', ''phenomenon''), (''criteria'', ''criterion''),
      (''data'', ''datum''), (''errata'', ''erratum''), (''strata'', ''stratum''),
      (''addenda'', ''addendum''), (''bacteria'', ''bacterium''), (''curricula'',
      ''curriculum''), (''memoranda'', ''memorandum''), (''media'', ''medium''),
      (''millennia'', ''millennium''), (''ova'', ''ovum''), (''spectra'', ''spectrum''),
      (''symposia'', ''symposium''), (''algae'', ''alga''), (''antennae'', ''antenna''),
      (''antennas'', ''antenna''), (''formulae'', ''formula''), (''formulas'', ''formula''),
      (''larvae'', ''larva''), (''nebulae'', ''nebula''), (''vertebrae'', ''vertebra''),
      (''vitae'', ''vita''), (''appendices'', ''appendix''), (''appendixes'', ''appendix''),
      (''codices'', ''codex''), (''indices'', ''index''), (''indexes'', ''index''),
      (''matrices'', ''matrix''), (''matrixes'', ''matrix''), (''vertices'', ''vertex''),
      (''vortices'', ''vortex''), (''vortexes'', ''vortex''), (''apices'', ''apex''),
      (''apexes'', ''apex''), (''cortices'', ''cortex''), (''helices'', ''helix''),
      (''loci'', ''locus''), (''fungi'', ''fungus''), (''octopi'', ''octopus''),
      (''octopuses'', ''octopus''), (''platypuses'', ''platypus''), (''platypi'',
      ''platypus''), (''cacti'', ''cactus''), (''genii'', ''genius''), (''geniuses'',
      ''genius''), (''styli'', ''stylus''), (''styluses'', ''stylus''), (''abscissae'',
      ''abscissa''), (''amoebae'', ''amoeba''), (''amoebas'', ''amoeba''), (''antitheses'',
      ''antithesis''), (''aphides'', ''aphis''), (''apices'', ''apex''), (''automata'',
      ''automaton''), (''automatons'', ''automaton''), (''cervices'', ''cervix''),
      (''crania'', ''cranium''), (''equilibria'', ''equilibrium''), (''ganglia'',
      ''ganglion''), (''genera'', ''genus''), (''gymnasia'', ''gymnasium''), (''loci'',
      ''locus''), (''penumbrae'', ''penumbra''), (''phyla'', ''phylum''), (''quanta'',
      ''quantum''), (''rostra'', ''rostrum''), (''septa'', ''septum''), (''solaria'',
      ''solarium''), (''stamina'', ''stamen''), (''thoraces'', ''thorax''), (''ultimata'',
      ''ultimatum''), (''umbrae'', ''umbra''), (''uteri'', ''uterus''), (''viscera'',
      ''viscus''), (''aquaria'', ''aquarium''), (''aquariums'', ''aquarium''),
      (''consortia'', ''consortium''), (''crania'', ''cranium''), (''craniums'',
      ''cranium''), (''emporium'', ''emporium''), (''emporia'', ''emporium''),
      (''equilibria'', ''equilibrium''), (''equilibriums'', ''equilibrium''), (''ganglia'',
      ''ganglion''), (''ganglions'', ''ganglion''), (''gymnasia'', ''gymnasium''),
      (''gymnasiums'', ''gymnasium''), (''honoraria'', ''honorarium''), (''honorariums'',
      ''honorarium''), (''mausolea'', ''mausoleum''), (''mausoleums'', ''mausoleum''),
      (''moratorium'', ''moratorium''), (''moratoria'', ''moratorium''), (''planetaria'',
      ''planetarium''), (''planetariums'', ''planetarium''), (''podiums'', ''podium''),
      (''podia'', ''podium''), (''referenda'', ''referendum''), (''referendums'',
      ''referendum''), (''rostra'', ''rostrum''), (''rostrums'', ''rostrum''),
      (''sanatoriums'', ''sanatorium''), (''sanatoria'', ''sanatorium''), (''stadiums'',
      ''stadium''), (''stadia'', ''stadium''), (''symposiums'', ''symposium''),
      (''symposia'', ''symposium''), (''terrariums'', ''terrarium''), (''terraria'',
      ''terrarium''), (''ultimatums'', ''ultimatum''), (''ultimata'', ''ultimatum''),
      (''vivariums'', ''vivarium''), (''vivaria'', ''vivarium''), (''atria'', ''atrium''),
      (''bacilli'', ''bacillus''), (''bronchi'', ''bronchus''), (''cilia'', ''cilium''),
      (''flagella'', ''flagellum''), (''ganglia'', ''ganglion''), (''mitochondria'',
      ''mitochondrion''), (''mycelia'', ''mycelium''), (''ova'', ''ovum''), (''protozoa'',
      ''protozoan''), (''septa'', ''septum''), (''spermatozoa'', ''spermatozoon''),
      (''venae'', ''vena''), (''abscissae'', ''abscissa''), (''abscissas'', ''abscissa''),
      (''apices'', ''apex''), (''asymptotes'', ''asymptote''), (''axes'', ''axis''),
      (''binomials'', ''binomial''), (''corollaries'', ''corollary''), (''loci'',
      ''locus''), (''maxima'', ''maximum''), (''maximums'', ''maximum''), (''minima'',
      ''minimum''), (''minimums'', ''minimum''), (''optima'', ''optimum''), (''optimums'',
      ''optimum''), (''polyhedra'', ''polyhedron''), (''polyhedrons'', ''polyhedron''),
      (''quanta'', ''quantum''), (''radices'', ''radix''), (''simplices'', ''simplex''),
      (''vertices'', ''vertex''), (''corpora'', ''corpus''), (''genera'', ''genus''),
      (''lemmas'', ''lemma''), (''lemmata'', ''lemma''), (''lexica'', ''lexicon''),
      (''lexicons'', ''lexicon''), (''parentheses'', ''parenthesis''), (''schemata'',
      ''schema''), (''schemas'', ''schema''), (''amoebae'', ''amoeba''), (''antennae'',
      ''antenna''), (''larvae'', ''larva''), (''pupae'', ''pupa''), (''chrysalises'',
      ''chrysalis''), (''chrysalides'', ''chrysalis''), (''addenda'', ''addendum''),
      (''addendums'', ''addendum''), (''agenda'', ''agendum''), (''algae'', ''alga''),
      (''alumni'', ''alumnus''), (''alumnae'', ''alumna''), (''automata'', ''automaton''),
      (''automatons'', ''automaton''), (''candelabra'', ''candelabrum''), (''corrigenda'',
      ''corrigendum''), (''desiderata'', ''desideratum''), (''dicta'', ''dictum''),
      (''effluvia'', ''effluvium''), (''errata'', ''erratum''), (''insignia'', ''insigne''),
      (''memoranda'', ''memorandum''), (''millennia'', ''millennium''), (''millenniums'',
      ''millennium''), (''minima'', ''minimum''), (''phyla'', ''phylum''), (''quanta'',
      ''quantum''), (''spectra'', ''spectrum''), (''spectrums'', ''spectrum''), (''strata'',
      ''stratum''), (''symposia'', ''symposium''), (''vaccinia'', ''vaccinium'')]"

definition ADJECTIVES :: "(string \<times> string) list" where
  "ADJECTIVES =
     [(''better'', ''good''), (''best'', ''good''), (''worse'', ''bad''), (''worst'',
      ''bad''), (''more'', ''much''), (''most'', ''much''), (''less'', ''little''),
      (''least'', ''little''), (''farther'', ''far''), (''farthest'', ''far''),
      (''further'', ''far''), (''furthest'', ''far''), (''older'', ''old''), (''oldest'',
      ''old''), (''elder'', ''old''), (''eldest'', ''old'')]"

definition InitDictionary_words :: "(string \<times> string) list" where
  "InitDictionary_words =
     BE_FORMS @ HAVE_FORMS @ DO_FORMS @ GO_FORMS @ RUN_FORMS @ TAKE_FORMS @ GIVE_FORMS @
     SEE_FORMS @ COME_FORMS @ KNOW_FORMS @ MAKE_FORMS @ SAY_FORMS @ TELL_FORMS @ THINK_FORMS
     @ FIND_FORMS @ GET_FORMS @ LEAVE_FORMS @ FEEL_FORMS @ BRING_FORMS @ BUY_FORMS @
     CATCH_FORMS @ TEACH_FORMS @ SEEK_FORMS @ WRITE_FORMS @ SPEAK_FORMS @ BREAK_FORMS @
     CHOOSE_FORMS @ DRIVE_FORMS @ RIDE_FORMS @ RISE_FORMS @ FLY_FORMS @ GROW_FORMS @
     THROW_FORMS @ DRAW_FORMS @ SING_FORMS @ SWIM_FORMS @ BEGIN_FORMS @ DRINK_FORMS @
     RING_FORMS @ SIT_FORMS @ STAND_FORMS @ HOLD_FORMS @ READ_FORMS @ LEAD_FORMS @
     MEET_FORMS @ PAY_FORMS @ SEND_FORMS @ SPEND_FORMS @ BUILD_FORMS @ LOSE_FORMS @
     KEEP_FORMS @ SLEEP_FORMS @ WIN_FORMS @ WEAR_FORMS @ BEAT_FORMS @ BITE_FORMS @
     BIND_FORMS @ BLEED_FORMS @ BLOW_FORMS @ BEAR_FORMS @ EAT_FORMS @ FALL_FORMS @
     HIDE_FORMS @ SHAKE_FORMS @ FREEZE_FORMS @ STEAL_FORMS @ TEAR_FORMS @ WEAVE_FORMS @
     FORBID_FORMS @ FORGIVE_FORMS @ LIE_FORMS @ LAY_FORMS @ SHINE_FORMS @ SHOOT_FORMS @
     SHOW_FORMS @ SHRINK_FORMS @ SHUT_FORMS @ SLAY_FORMS @ SLIDE_FORMS @ SLING_FORMS @
     SLIT_FORMS @ SMITE_FORMS @ SOW_FORMS @ SPIN_FORMS @ SPIT_FORMS @ SPLIT_FORMS @
     SPREAD_FORMS @ SPRING_FORMS @ STICK_FORMS @ STING_FORMS @ STINK_FORMS @ STRIDE_FORMS @
     STRIKE_FORMS @ STRING_FORMS @ STRIVE_FORMS @ SWEAR_FORMS @ SWEEP_FORMS @ SWELL_FORMS @
     SWING_FORMS @ TREAD_FORMS @ WAKE_FORMS @ WIND_FORMS @ WRING_FORMS @ LIGHT_FORMS @
     QUIT_FORMS @ SET_FORMS @ CUT_FORMS @ HIT_FORMS @ PUT_FORMS @ LET_FORMS @ COST_FORMS @
     CAST_FORMS @ BURST_FORMS @ HURT_FORMS @ BET_FORMS @ BEND_FORMS @ LEND_FORMS @
     FEED_FORMS @ BREED_FORMS @ SPEED_FORMS @ FLEE_FORMS @ DEAL_FORMS @ MEAN_FORMS @
     LEAN_FORMS @ LEAP_FORMS @ LEARN_FORMS @ BURN_FORMS @ SMELL_FORMS @ SPELL_FORMS @
     SPILL_FORMS @ SPOIL_FORMS @ DREAM_FORMS @ DWELL_FORMS @ HANG_FORMS @ DIG_FORMS @
     CLING_FORMS @ FLING_FORMS @ ADVERBS @ NOUNS @ ADJECTIVES"

text \<open>
  \<open>Dictionary_\<close> is a \<open>TUnorderedMap<size_t, TString>\<close> keyed by the hash of the
  lowercase form, modelled as a map from 64-bit hashes to lemmas. \<open>Insert\<close> on a key
  that is present overwrites its value, so that a form listed twice keeps its last lemma.
\<close>

type_synonym dictionary = "64 word \<rightharpoonup> string"

definition AddWord :: "dictionary \<Rightarrow> string \<Rightarrow> string \<Rightarrow> dictionary" where
  "AddWord dict word lemma = dict(Hash (ToLower word) \<mapsto> lemma)"

definition InitDictionary :: dictionary where
  "InitDictionary = foldl (\<lambda>dict (word, lemma). AddWord dict word lemma) Map.empty InitDictionary_words"

definition GetLemma :: "dictionary \<Rightarrow> string \<Rightarrow> string" where
  "GetLemma dict word = (case dict (Hash word) of Some lemma \<Rightarrow> lemma | None \<Rightarrow> word)"

definition Lemmatize :: "dictionary \<Rightarrow> string \<Rightarrow> string" where
  "Lemmatize dict word =
     (let lower = ToLower word in
      if dict (Hash lower) \<noteq> None then GetLemma dict lower else Stem lower)"

section \<open>Tokenizer (\<open>TTokenizer\<close>)\<close>

record TToken =
  Text :: string
  Position :: nat
  Length :: nat

record tokenizer_options =
  tokLowerCase :: bool
  tokSkipWhitespace :: bool
  tokSkipPunctuation :: bool
  tokSkipNumbers :: bool
  tokMinTokenLength :: nat
  tokMaxTokenLength :: nat

datatype ETokenType = Word | Number | Punctuation | Whitespace

definition IsAlpha :: "char \<Rightarrow> bool" where
  "IsAlpha c = ((97 \<le> (of_char c :: nat) \<and> (of_char c :: nat) \<le> 122)
               \<or> (65 \<le> (of_char c :: nat) \<and> (of_char c :: nat) \<le> 90))"

definition IsDigit :: "char \<Rightarrow> bool" where
  "IsDigit c = (48 \<le> (of_char c :: nat) \<and> (of_char c :: nat) \<le> 57)"

definition IsWhitespace :: "char \<Rightarrow> bool" where
  "IsWhitespace c = (c = CHR '' '' \<or> c = CHR 0x09 \<or> c = CHR 0x0A \<or> c = CHR 0x0D)"

definition GetCharType :: "char \<Rightarrow> ETokenType" where
  "GetCharType c =
     (if IsAlpha c then Word else if IsDigit c then Number
      else if IsWhitespace c then Whitespace else Punctuation)"

definition IsWordChar :: "char \<Rightarrow> bool" where
  "IsWordChar c = (IsAlpha c \<or> IsDigit c \<or> c = CHR ''_'' \<or> c = CHR ''-'')"

definition IsNumberChar :: "char \<Rightarrow> bool" where
  "IsNumberChar c = (IsDigit c \<or> c = CHR ''.'' \<or> c = CHR '','')"

text \<open>\<open>while (pos < len && P(text[pos])) ++pos;\<close> returns the position where it stops.\<close>

function scan :: "(char \<Rightarrow> bool) \<Rightarrow> string \<Rightarrow> nat \<Rightarrow> nat" where
  "scan P text pos = (if pos < length text \<and> P (text ! pos) then scan P text (pos + 1) else pos)"
  by pat_completeness auto
termination
  by (relation "measure (\<lambda>(P, text, pos). length text - pos)") auto

declare scan.simps [simp del]

lemma scan_ge: "pos \<le> scan P text pos"
proof (induction P "text" pos rule: scan.induct)
  case (1 P t pos)
  show ?case
  proof (cases "pos < length t \<and> P (t ! pos)")
    case True
    with 1 have "pos + 1 \<le> scan P t (pos + 1)" by simp
    with True show ?thesis by (subst scan.simps) simp
  next
    case False
    then show ?thesis by (subst scan.simps) auto
  qed
qed

lemma scan_gt: "pos < length text \<Longrightarrow> P (text ! pos) \<Longrightarrow> pos < scan P text pos"
  using scan_ge [of "pos + 1" P "text"] by (subst scan.simps) simp

lemma scan_stop: "scan P text pos < length text \<Longrightarrow> \<not> P (text ! scan P text pos)"
proof (induction P "text" pos rule: scan.induct)
  case (1 P t pos)
  show ?case
  proof (cases "pos < length t \<and> P (t ! pos)")
    case True
    then have "scan P t pos = scan P t (pos + 1)" by (subst scan.simps) simp
    with 1 True show ?thesis by simp
  next
    case False
    then have "scan P t pos = pos" by (subst scan.simps) auto
    with 1(2) False show ?thesis by simp
  qed
qed

definition SubStr :: "string \<Rightarrow> nat \<Rightarrow> nat \<Rightarrow> string" where
  "SubStr text pos count = (if pos \<ge> length text then [] else take count (drop pos text))"

text \<open>
  One round of the outer loop of \<open>Tokenize\<close> from position \<open>pos\<close>: the whitespace
  run (one token when whitespace is kept), then one span chosen by the type of its first
  character. The result is the tokens pushed and the position reached.
\<close>

definition Tokenize_span :: "tokenizer_options \<Rightarrow> string \<Rightarrow> nat \<Rightarrow> TToken list \<times> nat" where
  "Tokenize_span opts text start =
     (case GetCharType (text ! start) of
        Word \<Rightarrow>
          (let pos = scan IsWordChar text start;
               raw = SubStr text start (pos - start);
               tokenText = (if tokLowerCase opts then ToLower raw else raw)
           in (if tokMinTokenLength opts \<le> length tokenText \<and> length tokenText \<le> tokMaxTokenLength opts
               then [\<lparr>Text = tokenText, Position = start, Length = pos - start\<rparr>] else [], pos))
      | Number \<Rightarrow>
          (let pos = scan IsNumberChar text start
           in (if \<not> tokSkipNumbers opts
               then [\<lparr>Text = SubStr text start (pos - start), Position = start, Length = pos - start\<rparr>]
               else [], pos))
      | Punctuation \<Rightarrow>
          (if \<not> tokSkipPunctuation opts
           then [\<lparr>Text = SubStr text start 1, Position = start, Length = 1\<rparr>] else [], start + 1)
      | Whitespace \<Rightarrow> ([], start + 1))"

lemma Tokenize_span_advances:
  "start < length text \<Longrightarrow> start < snd (Tokenize_span opts text start)"
proof (cases "GetCharType (text ! start)")
  case Word
  assume lt: "start < length text"
  from Word have "IsAlpha (text ! start)"
    by (auto simp: GetCharType_def split: if_splits)
  then have "IsWordChar (text ! start)" by (simp add: IsWordChar_def)
  with lt have "start < scan IsWordChar text start" by (rule scan_gt)
  with Word show ?thesis by (simp add: Tokenize_span_def Let_def)
next
  case Number
  assume lt: "start < length text"
  from Number have "IsDigit (text ! start)"
    by (auto simp: GetCharType_def split: if_splits)
  then have "IsNumberChar (text ! start)" by (simp add: IsNumberChar_def)
  with lt have "start < scan IsNumberChar text start" by (rule scan_gt)
  with Number show ?thesis by (simp add: Tokenize_span_def Let_def)
next
  case Punctuation
  then show ?thesis by (simp add: Tokenize_span_def)
next
  case Whitespace
  then show ?thesis by (simp add: Tokenize_span_def)
qed

function Tokenize_loop :: "tokenizer_options \<Rightarrow> string \<Rightarrow> nat \<Rightarrow> TToken list" where
  "Tokenize_loop opts text pos =
     (if pos < length text then
        (let p1 = scan IsWhitespace text pos;
             ws = (if \<not> tokSkipWhitespace opts \<and> pos < p1
                   then [\<lparr>Text = SubStr text pos (p1 - pos), Position = pos, Length = p1 - pos\<rparr>]
                   else [])
         in if p1 \<ge> length text then ws
            else ws @ fst (Tokenize_span opts text p1)
                 @ Tokenize_loop opts text (snd (Tokenize_span opts text p1)))
      else [])"
  by pat_completeness auto
termination
proof (relation "measure (\<lambda>(opts, text, pos). length text - pos)")
  show "wf (measure (\<lambda>(opts, text, pos). length text - pos))" by simp
next
  fix opts :: tokenizer_options and t :: string and pos x xa :: nat and ws :: "TToken list"
  assume a: "pos < length t" "x = scan IsWhitespace t pos" "\<not> length t \<le> x"
  have "pos \<le> x" using a scan_ge [of pos IsWhitespace t] by simp
  moreover have "x < snd (Tokenize_span opts t x)"
    using a Tokenize_span_advances [of x t opts] by simp
  ultimately show "((opts, t, snd (Tokenize_span opts t x)), (opts, t, pos))
      \<in> measure (\<lambda>(opts, text, pos). length text - pos)"
    using a by simp
qed

declare Tokenize_loop.simps [simp del]

definition Tokenize :: "tokenizer_options \<Rightarrow> string \<Rightarrow> TToken list" where
  "Tokenize opts text = Tokenize_loop opts text 0"

definition TokenizeToStrings :: "tokenizer_options \<Rightarrow> string \<Rightarrow> string list" where
  "TokenizeToStrings opts text = map Text (Tokenize opts text)"

section \<open>Text pipeline (\<open>TTextPipeline\<close>)\<close>

record pipeline_options =
  LowerCase :: bool
  UseStemming :: bool
  UseLemmatization :: bool
  SkipPunctuation :: bool
  SkipNumbers :: bool
  MinTokenLength :: nat
  MaxTokenLength :: nat

definition default_pipeline_options :: pipeline_options where
  "default_pipeline_options =
     \<lparr>LowerCase = True, UseStemming = True, UseLemmatization = False,
      SkipPunctuation = True, SkipNumbers = True, MinTokenLength = 2, MaxTokenLength = 100\<rparr>"

text \<open>\<open>NormalizeTerm\<close> constructs a fresh \<open>TLemmatizer\<close>, whose dictionary is \<open>InitDictionary\<close>.\<close>

definition NormalizeTerm :: "pipeline_options \<Rightarrow> string \<Rightarrow> string" where
  "NormalizeTerm opts term =
     (let result = (if LowerCase opts then ToLower term else term) in
      if UseLemmatization opts then Lemmatize InitDictionary result
      else if UseStemming opts then Stem result
      else result)"

definition StemAll :: "string list \<Rightarrow> string list" where
  "StemAll words = map Stem words"

definition LemmatizeAll :: "dictionary \<Rightarrow> string list \<Rightarrow> string list" where
  "LemmatizeAll dict words = map (Lemmatize dict) words"

text \<open>
  \<open>Process\<close> copies five of its options into a default-constructed
  \<open>TTokenizer::TOptions\<close>, whose \<open>SkipWhitespace\<close> stays \<open>true\<close>.
\<close>

definition pipeline_tokOpts :: "pipeline_options \<Rightarrow> tokenizer_options" where
  "pipeline_tokOpts opts =
     \<lparr>tokLowerCase = LowerCase opts, tokSkipWhitespace = True,
      tokSkipPunctuation = SkipPunctuation opts, tokSkipNumbers = SkipNumbers opts,
      tokMinTokenLength = MinTokenLength opts, tokMaxTokenLength = MaxTokenLength opts\<rparr>"

definition Process :: "pipeline_options \<Rightarrow> string \<Rightarrow> string list" where
  "Process opts text =
     (let tokens = TokenizeToStrings (pipeline_tokOpts opts) text in
      if UseLemmatization opts then LemmatizeAll InitDictionary tokens
      else if UseStemming opts then StemAll tokens
      else tokens)"

section \<open>Inverted index (\<open>TInvertedIndex\<close>)\<close>

text \<open>
  Document ids (\<open>TDocId = size_t\<close>) and counts are natural numbers: the counter
  \<open>NextDocId_\<close> and the frequencies only grow by one per call and cannot reach
  \<open>2 ^ 64\<close>. Each \<open>TUnorderedMap\<close> member is used through \<open>Find\<close> and \<open>Insert\<close> only and
  is modelled as a map; \<open>Insert\<close> on a present key replaces the value.
\<close>

record inverted_index =
  Index :: "string \<rightharpoonup> nat list"
  Documents :: "nat \<rightharpoonup> string"
  TermFrequencies :: "nat \<rightharpoonup> (string \<rightharpoonup> nat)"
  DocTermCounts :: "nat \<rightharpoonup> nat"
  NextDocId :: nat

definition empty_index :: inverted_index where
  "empty_index =
     \<lparr>Index = Map.empty, Documents = Map.empty, TermFrequencies = Map.empty,
      DocTermCounts = Map.empty, NextDocId = 0\<rparr>"

definition AddTermToIndex :: "inverted_index \<Rightarrow> string \<Rightarrow> nat \<Rightarrow> inverted_index" where
  "AddTermToIndex idx term docId =
     (case Index idx term of
        Some list \<Rightarrow>
          (if list = [] \<or> last list \<noteq> docId
           then idx\<lparr>Index := (Index idx)(term \<mapsto> list @ [docId])\<rparr>
           else idx)
      | None \<Rightarrow> idx\<lparr>Index := (Index idx)(term \<mapsto> [docId])\<rparr>)"

definition IncrementTermFrequency :: "inverted_index \<Rightarrow> nat \<Rightarrow> string \<Rightarrow> inverted_index" where
  "IncrementTermFrequency idx docId term =
     (case TermFrequencies idx docId of
        None \<Rightarrow> idx\<lparr>TermFrequencies := (TermFrequencies idx)(docId \<mapsto> [term \<mapsto> 1])\<rparr>
      | Some termMap \<Rightarrow>
          (case termMap term of
             None \<Rightarrow> idx\<lparr>TermFrequencies := (TermFrequencies idx)(docId \<mapsto> termMap(term \<mapsto> 1))\<rparr>
           | Some n \<Rightarrow> idx\<lparr>TermFrequencies := (TermFrequencies idx)(docId \<mapsto> termMap(term \<mapsto> n + 1))\<rparr>))"

fun AddDocument_loop :: "inverted_index \<Rightarrow> nat \<Rightarrow> string list \<Rightarrow> nat \<Rightarrow> inverted_index \<times> nat" where
  "AddDocument_loop idx docId [] termCount = (idx, termCount)"
| "AddDocument_loop idx docId (term # rest) termCount =
     AddDocument_loop (IncrementTermFrequency (AddTermToIndex idx term docId) docId term)
       docId rest (termCount + 1)"

definition AddDocument :: "inverted_index \<Rightarrow> string list \<Rightarrow> nat \<times> inverted_index" where
  "AddDocument idx terms =
     (let docId = NextDocId idx;
          (idx', termCount) = AddDocument_loop (idx\<lparr>NextDocId := docId + 1\<rparr>) docId terms 0
      in (docId, idx'\<lparr>DocTermCounts := (DocTermCounts idx')(docId \<mapsto> termCount)\<rparr>))"

definition AddDocumentRaw :: "inverted_index \<Rightarrow> string list \<Rightarrow> string \<Rightarrow> nat \<times> inverted_index" where
  "AddDocumentRaw idx terms rawContent =
     (let (docId, idx') = AddDocument idx terms
      in (docId, idx'\<lparr>Documents := (Documents idx')(docId \<mapsto> rawContent)\<rparr>))"

definition ClearIndex :: "inverted_index \<Rightarrow> inverted_index" where
  "ClearIndex idx = empty_index"

definition GetPostingList :: "inverted_index \<Rightarrow> string \<Rightarrow> nat list" where
  "GetPostingList idx term = (case Index idx term of Some list \<Rightarrow> list | None \<Rightarrow> [])"

definition GetDocumentFrequency :: "inverted_index \<Rightarrow> string \<Rightarrow> nat" where
  "GetDocumentFrequency idx term = (case Index idx term of Some list \<Rightarrow> length list | None \<Rightarrow> 0)"

definition GetTermFrequency :: "inverted_index \<Rightarrow> nat \<Rightarrow> string \<Rightarrow> nat" where
  "GetTermFrequency idx docId term =
     (case TermFrequencies idx docId of
        None \<Rightarrow> 0
      | Some termMap \<Rightarrow> (case termMap term of None \<Rightarrow> 0 | Some n \<Rightarrow> n))"

definition GetDocumentLength :: "inverted_index \<Rightarrow> nat \<Rightarrow> nat" where
  "GetDocumentLength idx docId = (case DocTermCounts idx docId of Some n \<Rightarrow> n | None \<Rightarrow> 0)"

definition GetDocumentCount :: "inverted_index \<Rightarrow> nat" where
  "GetDocumentCount idx = NextDocId idx"

definition IndexGetDocument :: "inverted_index \<Rightarrow> nat \<Rightarrow> string" where
  "IndexGetDocument idx docId = (case Documents idx docId of Some text \<Rightarrow> text | None \<Rightarrow> [])"

text \<open>
  The states of an index: a fresh one, and what \<open>AddDocument\<close> (either overload) and
  \<open>Clear\<close> make of a state.
\<close>

inductive reachable_index :: "inverted_index \<Rightarrow> bool" where
  fresh: "reachable_index empty_index"
| add: "reachable_index idx \<Longrightarrow> reachable_index (snd (AddDocument idx terms))"
| add_raw: "reachable_index idx \<Longrightarrow> reachable_index (snd (AddDocumentRaw idx terms rawContent))"
| clear: "reachable_index idx \<Longrightarrow> reachable_index (ClearIndex idx)"

subsection \<open>Invariants of the index\<close>

definition index_wf :: "inverted_index \<Rightarrow> bool" where
  "index_wf idx \<longleftrightarrow>
     (\<forall>t l. Index idx t = Some l \<longrightarrow> sorted_wrt (<) l \<and> (\<forall>d \<in> set l. d < NextDocId idx)) \<and>
     (\<forall>d m. TermFrequencies idx d = Some m \<longrightarrow> finite (dom m) \<and> (\<forall>t n. m t = Some n \<longrightarrow> 0 < n)) \<and>
     (\<forall>d t. (0 < GetTermFrequency idx d t) = (d \<in> set (GetPostingList idx t)))"

definition doc_sum :: "inverted_index \<Rightarrow> nat \<Rightarrow> nat" where
  "doc_sum idx d = (\<Sum>t | 0 < GetTermFrequency idx d t. GetTermFrequency idx d t)"

lemma finite_support:
  assumes "index_wf idx"
  shows "finite {t. 0 < GetTermFrequency idx d t}"
proof (cases "TermFrequencies idx d")
  case None
  then show ?thesis by (simp add: GetTermFrequency_def)
next
  case (Some m)
  with assms have "finite (dom m)" by (auto simp: index_wf_def)
  moreover have "{t. 0 < GetTermFrequency idx d t} \<subseteq> dom m"
    using Some by (auto simp: GetTermFrequency_def split: option.splits)
  ultimately show ?thesis by (rule rev_finite_subset)
qed

definition add_term_step :: "inverted_index \<Rightarrow> nat \<Rightarrow> string \<Rightarrow> inverted_index" where
  "add_term_step idx docId term = IncrementTermFrequency (AddTermToIndex idx term docId) docId term"

lemma step_tf:
  "GetTermFrequency (add_term_step idx docId term) d t =
     (if d = docId \<and> t = term then GetTermFrequency idx d t + 1 else GetTermFrequency idx d t)"
  by (auto simp: add_term_step_def IncrementTermFrequency_def AddTermToIndex_def GetTermFrequency_def
      split: option.splits)

lemma step_next: "NextDocId (add_term_step idx docId term) = NextDocId idx"
  by (auto simp: add_term_step_def IncrementTermFrequency_def AddTermToIndex_def split: option.splits)

lemma step_counts: "DocTermCounts (add_term_step idx docId term) = DocTermCounts idx"
  by (auto simp: add_term_step_def IncrementTermFrequency_def AddTermToIndex_def split: option.splits)

lemma sorted_last_max:
  "sorted_wrt (<) (l :: nat list) \<Longrightarrow> \<forall>d \<in> set l. d \<le> m \<Longrightarrow> l \<noteq> [] \<Longrightarrow> last l \<noteq> m \<Longrightarrow> \<forall>d \<in> set l. d < m"
proof (induction l)
  case Nil
  then show ?case by simp
next
  case (Cons a l)
  show ?case
  proof (cases "l = []")
    case True
    with Cons.prems show ?thesis by auto
  next
    case False
    with Cons have "\<forall>d \<in> set l. d < m" by auto
    moreover from False obtain b where "b \<in> set l" by (cases l) auto
    ultimately show ?thesis using Cons.prems(1) by force
  qed
qed

lemma last_ne_iff:
  assumes "index_wf idx" "NextDocId idx = docId + 1" "Index idx term = Some l"
  shows "(l = [] \<or> last l \<noteq> docId) = (docId \<notin> set l)"
proof -
  from assms have srt: "sorted_wrt (<) l" and bnd: "\<forall>d \<in> set l. d \<le> docId"
    by (auto simp: index_wf_def) fastforce
  show ?thesis
  proof (cases "l = []")
    case True
    then show ?thesis by simp
  next
    case False
    show ?thesis
    proof (cases "last l = docId")
      case True
      with False show ?thesis using last_in_set [of l] by auto
    next
      case False
      with \<open>l \<noteq> []\<close> srt bnd have "\<forall>d \<in> set l. d < docId" by (rule_tac sorted_last_max) auto
      with False show ?thesis by auto
    qed
  qed
qed

lemma step_index:
  assumes "index_wf idx" "NextDocId idx = docId + 1"
  shows "Index (add_term_step idx docId term) t =
     (if t = term \<and> docId \<notin> set (GetPostingList idx term)
      then Some (GetPostingList idx term @ [docId]) else Index idx t)"
proof (cases "Index idx term")
  case None
  then show ?thesis
    by (auto simp: add_term_step_def IncrementTermFrequency_def AddTermToIndex_def GetPostingList_def
        split: option.splits)
next
  case (Some l)
  with assms have "(l = [] \<or> last l \<noteq> docId) = (docId \<notin> set l)" by (rule last_ne_iff)
  with Some show ?thesis
    by (auto simp: add_term_step_def IncrementTermFrequency_def AddTermToIndex_def GetPostingList_def
        split: option.splits)
qed

lemma step_posting:
  assumes "index_wf idx" "NextDocId idx = docId + 1"
  shows "GetPostingList (add_term_step idx docId term) t =
     (if t = term \<and> docId \<notin> set (GetPostingList idx term)
      then GetPostingList idx term @ [docId] else GetPostingList idx t)"
  by (simp add: GetPostingList_def [of "add_term_step idx docId term"] step_index [OF assms])
     (simp add: GetPostingList_def)

lemma step_wf:
  assumes wf: "index_wf idx" and nx: "NextDocId idx = docId + 1"
  shows "index_wf (add_term_step idx docId term)"
proof -
  let ?idx' = "add_term_step idx docId term"
  have a: "\<forall>t l. Index ?idx' t = Some l \<longrightarrow> sorted_wrt (<) l \<and> (\<forall>d \<in> set l. d < NextDocId ?idx')"
  proof (intro allI impI)
    fix t l
    assume l: "Index ?idx' t = Some l"
    then have gl: "GetPostingList ?idx' t = l" by (simp add: GetPostingList_def)
    show "sorted_wrt (<) l \<and> (\<forall>d \<in> set l. d < NextDocId ?idx')"
    proof (cases "t = term \<and> docId \<notin> set (GetPostingList idx term)")
      case True
      then have l_eq: "l = GetPostingList idx term @ [docId]"
        using gl step_posting [OF wf nx, of "term" t] by simp
      have old: "sorted_wrt (<) (GetPostingList idx term) \<and> (\<forall>d \<in> set (GetPostingList idx term). d < docId + 1)"
        using wf nx by (auto simp: index_wf_def GetPostingList_def split: option.splits)
      with True have "\<forall>d \<in> set (GetPostingList idx term). d < docId"
        by (metis less_Suc_eq Suc_eq_plus1)
      with old show ?thesis by (auto simp: l_eq sorted_wrt_append step_next nx)
    next
      case False
      then have "Index idx t = Some l" using l step_index [OF wf nx, of "term" t] by auto
      with wf show ?thesis by (auto simp: index_wf_def step_next)
    qed
  qed
  have b: "\<forall>d m. TermFrequencies ?idx' d = Some m \<longrightarrow> finite (dom m) \<and> (\<forall>t n. m t = Some n \<longrightarrow> 0 < n)"
    using wf
    by (auto simp: index_wf_def add_term_step_def IncrementTermFrequency_def AddTermToIndex_def
        split: option.splits if_splits)
  have c: "\<forall>d t. (0 < GetTermFrequency ?idx' d t) = (d \<in> set (GetPostingList ?idx' t))"
  proof (intro allI)
    fix d t
    have old: "(0 < GetTermFrequency idx d t) = (d \<in> set (GetPostingList idx t))"
      using wf by (simp add: index_wf_def)
    show "(0 < GetTermFrequency ?idx' d t) = (d \<in> set (GetPostingList ?idx' t))"
      using old by (auto simp: step_tf step_posting [OF wf nx])
  qed
  from a b c show ?thesis by (simp add: index_wf_def)
qed

lemma step_sum:
  assumes wf: "index_wf idx"
  shows "doc_sum (add_term_step idx docId term) d = (if d = docId then doc_sum idx d + 1 else doc_sum idx d)"
proof (cases "d = docId")
  case False
  then show ?thesis by (simp add: doc_sum_def step_tf)
next
  case True
  let ?S = "{t. 0 < GetTermFrequency idx docId t}"
  let ?f = "GetTermFrequency idx docId"
  let ?f' = "GetTermFrequency (add_term_step idx docId term) docId"
  have fin: "finite ?S" using wf by (rule finite_support)
  have S': "{t. 0 < ?f' t} = insert term ?S" by (auto simp: step_tf)
  have "sum ?f' (insert term ?S) = ?f' term + sum ?f' (?S - {term})"
    using fin by (simp add: sum.insert_remove)
  also have "sum ?f' (?S - {term}) = sum ?f (?S - {term})"
    by (rule sum.cong) (auto simp: step_tf)
  also have "?f' term = ?f term + 1" by (simp add: step_tf)
  also have "?f term + 1 + sum ?f (?S - {term}) = sum ?f ?S + 1"
  proof (cases "term \<in> ?S")
    case True
    with fin show ?thesis by (simp add: sum.remove)
  next
    case False
    then show ?thesis by simp
  qed
  finally show ?thesis using True by (simp add: doc_sum_def S')
qed

lemma loop_inv:
  assumes "index_wf idx" "NextDocId idx = docId + 1"
  shows "index_wf (fst (AddDocument_loop idx docId terms c))
       \<and> NextDocId (fst (AddDocument_loop idx docId terms c)) = docId + 1
       \<and> DocTermCounts (fst (AddDocument_loop idx docId terms c)) = DocTermCounts idx
       \<and> doc_sum (fst (AddDocument_loop idx docId terms c)) docId = doc_sum idx docId + length terms
       \<and> (\<forall>d. d \<noteq> docId \<longrightarrow> doc_sum (fst (AddDocument_loop idx docId terms c)) d = doc_sum idx d)
       \<and> snd (AddDocument_loop idx docId terms c) = c + length terms"
  using assms
proof (induction terms arbitrary: idx c)
  case Nil
  then show ?case by simp
next
  case (Cons t ts)
  let ?idx1 = "add_term_step idx docId t"
  have wf1: "index_wf ?idx1" using Cons.prems by (rule step_wf)
  have nx1: "NextDocId ?idx1 = docId + 1" using Cons.prems by (simp add: step_next)
  from Cons.IH [OF wf1 nx1, of "c + 1"] show ?case
    using Cons.prems(1) by (simp add: add_term_step_def [symmetric] step_counts step_sum)
qed

definition index_inv :: "inverted_index \<Rightarrow> bool" where
  "index_inv idx \<longleftrightarrow> index_wf idx \<and> (\<forall>d. doc_sum idx d = GetDocumentLength idx d)"

lemma wf_bump: "index_wf idx \<Longrightarrow> index_wf (idx\<lparr>NextDocId := NextDocId idx + 1\<rparr>)"
  by (auto simp: index_wf_def GetTermFrequency_def GetPostingList_def) fastforce

lemma doc_sum_fresh:
  assumes "index_wf idx" "NextDocId idx \<le> d"
  shows "doc_sum idx d = 0"
proof -
  have "\<forall>t. GetTermFrequency idx d t = 0"
  proof
    fix t
    have "\<forall>e \<in> set (GetPostingList idx t). e < NextDocId idx"
      using assms(1) by (cases "Index idx t") (auto simp: index_wf_def GetPostingList_def)
    with assms(2) have "d \<notin> set (GetPostingList idx t)" by auto
    with assms(1) show "GetTermFrequency idx d t = 0" by (auto simp: index_wf_def)
  qed
  then show ?thesis by (simp add: doc_sum_def)
qed

lemma AddDocument_inv:
  assumes "index_inv idx"
  shows "index_inv (snd (AddDocument idx terms))"
proof -
  let ?docId = "NextDocId idx"
  let ?idx1 = "idx\<lparr>NextDocId := ?docId + 1\<rparr>"
  let ?r = "AddDocument_loop ?idx1 ?docId terms 0"
  have wf: "index_wf idx" and len: "\<forall>d. doc_sum idx d = GetDocumentLength idx d"
    using assms by (auto simp: index_inv_def)
  have wf1: "index_wf ?idx1" using wf by (rule wf_bump)
  have nx1: "NextDocId ?idx1 = ?docId + 1" by simp
  note L = loop_inv [OF wf1 nx1, of terms 0]
  have s1: "\<And>d. doc_sum ?idx1 d = doc_sum idx d" by (simp add: doc_sum_def GetTermFrequency_def)
  have z: "doc_sum idx ?docId = 0" using wf by (rule doc_sum_fresh) simp
  let ?res = "(fst ?r)\<lparr>DocTermCounts := (DocTermCounts (fst ?r))(?docId \<mapsto> snd ?r)\<rparr>"
  have res: "snd (AddDocument idx terms) = ?res"
    by (simp add: AddDocument_def Let_def split: prod.splits)
  have wfr: "index_wf ?res"
    using L by (auto simp: index_wf_def GetTermFrequency_def GetPostingList_def)
  have sr: "\<And>d. doc_sum ?res d = doc_sum (fst ?r) d" by (simp add: doc_sum_def GetTermFrequency_def)
  have Lsum: "doc_sum (fst ?r) ?docId = doc_sum ?idx1 ?docId + length terms"
    and Lother: "\<forall>d. d \<noteq> ?docId \<longrightarrow> doc_sum (fst ?r) d = doc_sum ?idx1 d"
    and Lcounts: "DocTermCounts (fst ?r) = DocTermCounts idx"
    and Lsnd: "snd ?r = 0 + length terms"
    using L by simp_all
  have "\<forall>d. doc_sum ?res d = GetDocumentLength ?res d"
  proof
    fix d
    show "doc_sum ?res d = GetDocumentLength ?res d"
    proof (cases "d = ?docId")
      case True
      have "doc_sum ?res d = length terms" using True Lsum z unfolding sr s1 by simp
      moreover have "GetDocumentLength ?res d = length terms"
        using True Lsnd by (simp add: GetDocumentLength_def)
      ultimately show ?thesis by simp
    next
      case False
      have "doc_sum ?res d = doc_sum idx d" using False Lother unfolding sr s1 by simp
      moreover have "GetDocumentLength ?res d = GetDocumentLength idx d"
        using False Lcounts by (simp add: GetDocumentLength_def)
      ultimately show ?thesis using len by simp
    qed
  qed
  with wfr show ?thesis by (simp add: res index_inv_def)
qed

lemma index_inv_cong:
  assumes "Index a = Index b" "TermFrequencies a = TermFrequencies b"
    "DocTermCounts a = DocTermCounts b" "NextDocId a = NextDocId b"
  shows "index_inv a = index_inv b"
  unfolding index_inv_def index_wf_def doc_sum_def GetTermFrequency_def GetPostingList_def
    GetDocumentLength_def assms ..

lemma index_inv_Documents: "index_inv idx \<Longrightarrow> index_inv (idx\<lparr>Documents := docs\<rparr>)"
  using index_inv_cong [of "idx\<lparr>Documents := docs\<rparr>" idx] by simp

lemma snd_AddDocumentRaw:
  "snd (AddDocumentRaw idx terms rawContent) =
     (snd (AddDocument idx terms))\<lparr>Documents :=
        (Documents (snd (AddDocument idx terms)))(fst (AddDocument idx terms) \<mapsto> rawContent)\<rparr>"
  by (simp add: AddDocumentRaw_def split: prod.splits)

lemma empty_index_inv: "index_inv empty_index"
  by (simp add: index_inv_def index_wf_def doc_sum_def empty_index_def GetTermFrequency_def
      GetPostingList_def GetDocumentLength_def)

lemma reachable_index_inv: "reachable_index idx \<Longrightarrow> index_inv idx"
proof (induction rule: reachable_index.induct)
  case fresh
  show ?case by (rule empty_index_inv)
next
  case (add idx terms)
  then show ?case by (simp add: AddDocument_inv)
next
  case (add_raw idx terms rawContent)
  have "index_inv (snd (AddDocument idx terms))" using add_raw by (simp add: AddDocument_inv)
  then show ?case by (simp only: snd_AddDocumentRaw index_inv_Documents)
next
  case (clear idx)
  show ?case by (simp add: ClearIndex_def empty_index_inv)
qed


text \<open>
  Claim C2. In every state of the index reached from a fresh or cleared index by calls of
  \<open>AddDocument\<close>, for every term \<open>t\<close> and document id \<open>d\<close>: the posting list of \<open>t\<close>
  is strictly increasing; the term frequency of \<open>t\<close> in \<open>d\<close> is positive exactly when \<open>d\<close>
  is in the posting list of \<open>t\<close>; and the term frequencies of \<open>d\<close>, which are non-zero
  for finitely many terms only, add up to the document length of \<open>d\<close>.
\<close>

theorem index_invariants:
  "reachable_index idx \<Longrightarrow>
     sorted_wrt (<) (GetPostingList idx t)
     \<and> ((0 < GetTermFrequency idx d t) = (d \<in> set (GetPostingList idx t)))
     \<and> finite {t. 0 < GetTermFrequency idx d t}
     \<and> (\<Sum>t | 0 < GetTermFrequency idx d t. GetTermFrequency idx d t) = GetDocumentLength idx d"
proof -
  assume "reachable_index idx"
  then have inv: "index_inv idx" by (rule reachable_index_inv)
  then have wf: "index_wf idx" by (simp add: index_inv_def)
  have "sorted_wrt (<) (GetPostingList idx t)"
    using wf by (auto simp: index_wf_def GetPostingList_def split: option.splits)
  moreover have "(0 < GetTermFrequency idx d t) = (d \<in> set (GetPostingList idx t))"
    using wf by (simp add: index_wf_def)
  moreover have "finite {t. 0 < GetTermFrequency idx d t}" using wf by (rule finite_support)
  moreover have "(\<Sum>t | 0 < GetTermFrequency idx d t. GetTermFrequency idx d t) = GetDocumentLength idx d"
    using inv by (simp add: index_inv_def doc_sum_def)
  ultimately show ?thesis by blast
qed

theorem index_invariants_witness:
  "reachable_index (snd (AddDocument (snd (AddDocument empty_index [''a'', ''b'', ''a''])) [''b'']))
   \<and> sorted_wrt (<) (GetPostingList (snd (AddDocument (snd (AddDocument empty_index [''a'', ''b'', ''a''])) [''b''])) ''b'')
   \<and> ((0 < GetTermFrequency (snd (AddDocument (snd (AddDocument empty_index [''a'', ''b'', ''a''])) [''b''])) 0 ''b'')
        = (0 \<in> set (GetPostingList (snd (AddDocument (snd (AddDocument empty_index [''a'', ''b'', ''a''])) [''b''])) ''b'')))
   \<and> finite {t. 0 < GetTermFrequency (snd (AddDocument (snd (AddDocument empty_index [''a'', ''b'', ''a''])) [''b''])) 0 t}
   \<and> (\<Sum>t | 0 < GetTermFrequency (snd (AddDocument (snd (AddDocument empty_index [''a'', ''b'', ''a''])) [''b''])) 0 t.
         GetTermFrequency (snd (AddDocument (snd (AddDocument empty_index [''a'', ''b'', ''a''])) [''b''])) 0 t)
       = GetDocumentLength (snd (AddDocument (snd (AddDocument empty_index [''a'', ''b'', ''a''])) [''b''])) 0"
proof -
  have r: "reachable_index (snd (AddDocument (snd (AddDocument empty_index [''a'', ''b'', ''a''])) [''b'']))"
    by (intro reachable_index.intros)
  from index_invariants [OF r, of "''b''" 0] r show ?thesis by blast
qed

section \<open>Claims about the stemmer\<close>

text \<open>
  Claim C6 says that in Step 4 the first suffix of the table that matches the word decides:
  when its guard fails the word is left unchanged. \<open>Step2\<close> and \<open>Step3\<close> do return
  the word there; \<open>Step4\<close> does not, its loop goes on to shorter suffixes of the table.
  On \<open>movement\<close> the first matching suffix is \<open>ement\<close> (it is the first entry of
  the table), the stem \<open>mov\<close> has measure 1, so the guard \<open>m > 1\<close> fails, and \<open>Step4\<close>
  then removes the later entry \<open>ment\<close> and returns \<open>move\<close> instead of \<open>movement\<close>.
  The example of the claim, \<open>element\<close>, is left unchanged.
\<close>

theorem Step4_tries_later_suffix:
  "hd Step4_SUFFIXES = ''ement'' \<and> EndsWith ''movement'' ''ement''
   \<and> MeasureM (RemoveSuffix ''movement'' 5) = 1
   \<and> Step4 ''movement'' = ''move''
   \<and> Step4 ''element'' = ''element''"
  by code_simp


section \<open>LZW codec (\<open>TLzw\<close>)\<close>

text \<open>
  The codec with the options of a default-constructed \<open>TLzw\<close> (the only way the
  database constructs one): \<open>EndCode = 4095\<close>, \<open>FirstFreeCode = 256\<close>,
  \<open>CodeBits = 12\<close>; \<open>MaxCode\<close> is never read. Codes (\<open>unsigned short\<close>) and the bit
  buffer (\<open>unsigned int\<close>) are natural numbers: a code is at most 4095, and the buffer
  holds fewer than 20 bits (at most 7 pending bits plus a code when packing, at most 11
  plus a byte when unpacking), so no operation wraps. Bytes are 8-bit words.
\<close>

type_synonym byte = "8 word"

definition EndCode :: nat where "EndCode = 4095"
definition FirstFreeCode :: nat where "FirstFreeCode = 256"
definition CodeBits :: nat where "CodeBits = 12"

function pack_drain :: "nat \<Rightarrow> nat \<Rightarrow> byte list \<Rightarrow> nat \<times> nat \<times> byte list" where
  "pack_drain buffer bits out =
     (if bits \<ge> 8 then pack_drain (drop_bit 8 buffer) (bits - 8) (out @ [of_nat (buffer AND 255)])
      else (buffer, bits, out))"
  by pat_completeness auto
termination
  by (relation "measure (\<lambda>(buffer, bits, out). bits)") auto

declare pack_drain.simps [simp del]

fun PackCodes_loop :: "nat list \<Rightarrow> nat \<Rightarrow> nat \<Rightarrow> byte list \<Rightarrow> byte list" where
  "PackCodes_loop [] buffer bits out = (if bits > 0 then out @ [of_nat (buffer AND 255)] else out)"
| "PackCodes_loop (c # cs) buffer bits out =
     (let code = c AND (push_bit CodeBits 1 - 1);
          (buffer', bits', out') = pack_drain (buffer OR push_bit bits code) (bits + CodeBits) out
      in PackCodes_loop cs buffer' bits' out')"

definition PackCodes :: "nat list \<Rightarrow> byte list" where
  "PackCodes codes = PackCodes_loop codes 0 0 []"

function unpack_drain :: "nat \<Rightarrow> nat \<Rightarrow> nat list \<Rightarrow> nat \<times> nat \<times> nat list" where
  "unpack_drain buffer bits codes =
     (if bits \<ge> CodeBits
      then unpack_drain (drop_bit CodeBits buffer) (bits - CodeBits)
             (codes @ [buffer AND (push_bit CodeBits 1 - 1)])
      else (buffer, bits, codes))"
  by pat_completeness auto
termination
  by (relation "measure (\<lambda>(buffer, bits, codes). bits)") (auto simp: CodeBits_def)

declare unpack_drain.simps [simp del]

fun UnpackCodes_loop :: "byte list \<Rightarrow> nat \<Rightarrow> nat \<Rightarrow> nat list \<Rightarrow> nat list" where
  "UnpackCodes_loop [] buffer bits codes = codes"
| "UnpackCodes_loop (byte # rest) buffer bits codes =
     (let (buffer', bits', codes') = unpack_drain (buffer OR push_bit bits (unat byte)) (bits + 8) codes
      in UnpackCodes_loop rest buffer' bits' codes')"

definition UnpackCodes :: "byte list \<Rightarrow> nat list" where
  "UnpackCodes data = UnpackCodes_loop data 0 0 []"


subsection \<open>Packing and unpacking 12-bit codes\<close>

lemma mask12: "push_bit CodeBits (1::nat) - 1 = mask 12"
  by (simp add: CodeBits_def mask_eq_exp_minus_1)

lemma m255: "(255::nat) = mask 8" by (simp add: mask_eq_exp_minus_1)

lemma pack_drain_4: "pack_drain b 4 out = (b, 4, out)"
  by (subst pack_drain.simps) simp
lemma pack_drain_0: "pack_drain b 0 out = (b, 0, out)"
  by (subst pack_drain.simps) simp
lemma pack_drain_12: "pack_drain b 12 out = (drop_bit 8 b, 4, out @ [of_nat (b AND 255)])"
  by (subst pack_drain.simps) (simp add: pack_drain_4)
lemma pack_drain_16: "pack_drain b 16 out = (drop_bit 16 b, 0, out @ [of_nat (b AND 255), of_nat (drop_bit 8 b AND 255)])"
  by (subst pack_drain.simps, simp, subst pack_drain.simps, simp add: pack_drain_0 drop_bit_drop_bit)

lemma unpack_drain_8: "unpack_drain b 8 cs = (b, 8, cs)"
  by (subst unpack_drain.simps) (simp add: CodeBits_def)
lemma unpack_drain_4: "unpack_drain b 4 cs = (b, 4, cs)"
  by (subst unpack_drain.simps) (simp add: CodeBits_def)
lemma unpack_drain_0: "unpack_drain b 0 cs = (b, 0, cs)"
  by (subst unpack_drain.simps) (simp add: CodeBits_def)
lemma and4095: "b AND 4095 = take_bit 12 (b::nat)"
  by (simp add: take_bit_eq_mask mask_eq_exp_minus_1)
lemma and255: "b AND 255 = take_bit 8 (b::nat)"
  by (simp add: take_bit_eq_mask mask_eq_exp_minus_1)
lemma unpack_drain_16: "unpack_drain b 16 cs = (drop_bit 12 b, 4, cs @ [take_bit 12 b])"
  by (subst unpack_drain.simps) (simp add: CodeBits_def unpack_drain_4 and4095)
lemma unpack_drain_12: "unpack_drain b 12 cs = (drop_bit 12 b, 0, cs @ [take_bit 12 b])"
  by (subst unpack_drain.simps) (simp add: CodeBits_def unpack_drain_0 and4095)

lemma byte_unat: "unat (of_nat (x AND 255) :: byte) = take_bit 8 x"
  by (simp add: and255 unat_of_nat take_bit_eq_mod)

lemma pack_drain_acc:
  "pack_drain b n (o1 @ o2) = (case pack_drain b n o2 of (b', n', o') \<Rightarrow> (b', n', o1 @ o'))"
proof (induction b n o2 rule: pack_drain.induct)
  case (1 buffer bits out)
  show ?case
  proof (cases "bits \<ge> 8")
    case True
    with 1 show ?thesis
      by (subst pack_drain.simps, subst (2) pack_drain.simps) simp
  next
    case False
    then show ?thesis by (subst pack_drain.simps, subst (2) pack_drain.simps) simp
  qed
qed

lemma PackCodes_loop_acc:
  "PackCodes_loop codes b n (o1 @ o2) = o1 @ PackCodes_loop codes b n o2"
proof (induction codes arbitrary: b n o2)
  case Nil
  then show ?case by simp
next
  case (Cons c cs)
  show ?case
    by (simp add: Let_def pack_drain_acc [of _ _ o1 o2] Cons split: prod.splits)
qed

definition pack_byte1 :: "nat \<Rightarrow> byte" where "pack_byte1 c = of_nat (take_bit 12 c AND 255)"
definition pack_byte2 :: "nat \<Rightarrow> nat \<Rightarrow> byte" where
  "pack_byte2 c d = of_nat ((drop_bit 8 (take_bit 12 c) OR push_bit 4 (take_bit 12 d)) AND 255)"
definition pack_byte3 :: "nat \<Rightarrow> byte" where
  "pack_byte3 d = of_nat (drop_bit 4 (take_bit 12 d) AND 255)"
definition pack_byte2_last :: "nat \<Rightarrow> byte" where
  "pack_byte2_last c = of_nat (drop_bit 8 (take_bit 12 c) AND 255)"

lemma pack_one: "PackCodes_loop [c] 0 0 out = out @ [pack_byte1 c, pack_byte2_last c]"
  by (simp add: CodeBits_def Let_def pack_drain_12 and4095 pack_byte1_def pack_byte2_last_def)

lemma P_cong:
  "x = a \<Longrightarrow> y = b \<Longrightarrow> z = c \<Longrightarrow> v = 0 \<Longrightarrow>
   PackCodes_loop cs v 0 (out @ [of_nat x, of_nat y, of_nat z])
     = PackCodes_loop cs 0 0 (out @ [of_nat a, of_nat b, of_nat c])"
  by simp

lemma pack_two: "PackCodes_loop (c # d # cs) 0 0 out = PackCodes_loop cs 0 0 (out @ [pack_byte1 c, pack_byte2 c d, pack_byte3 d])"
  apply (simp add: CodeBits_def Let_def pack_drain_12 pack_drain_16 pack_byte1_def pack_byte2_def pack_byte3_def and4095 and255)
  apply (rule P_cong)
     apply (auto simp: bit_eq_iff bit_simps)
  done

lemma U_cong:
  "x = 0 \<Longrightarrow> y = a \<Longrightarrow> z = b \<Longrightarrow>
   UnpackCodes_loop rest x 0 (cs @ [y, z]) = UnpackCodes_loop rest 0 0 (cs @ [a, b])"
  by simp

lemma unpack_three:
  "UnpackCodes_loop (pack_byte1 c # pack_byte2 c d # pack_byte3 d # rest) 0 0 cs = UnpackCodes_loop rest 0 0 (cs @ [take_bit 12 c, take_bit 12 d])"
  apply (simp add: pack_byte1_def pack_byte2_def pack_byte3_def byte_unat unpack_drain_8 unpack_drain_16 unpack_drain_12)
  apply (rule U_cong)
    apply (auto simp: bit_eq_iff bit_simps)
  done

lemma unpack_two_last:
  "UnpackCodes_loop [pack_byte1 c, pack_byte2_last c] 0 0 cs = cs @ [take_bit 12 c]"
  apply (simp add: pack_byte1_def pack_byte2_last_def byte_unat unpack_drain_8 unpack_drain_16)
  apply (auto simp: bit_eq_iff bit_simps)
  done

lemma unpack_pack_loop:
  "UnpackCodes_loop (PackCodes_loop codes 0 0 []) 0 0 cs = cs @ map (take_bit 12) codes"
proof (induction codes arbitrary: cs rule: induct_list012)
  case 1
  then show ?case by simp
next
  case (2 c)
  show ?case by (simp only: pack_one append_Nil unpack_two_last) simp
next
  case (3 c d rest)
  have "PackCodes_loop (c # d # rest) 0 0 [] = [pack_byte1 c, pack_byte2 c d, pack_byte3 d] @ PackCodes_loop rest 0 0 []"
    using PackCodes_loop_acc [of rest 0 0 "[pack_byte1 c, pack_byte2 c d, pack_byte3 d]" "[]"] unfolding pack_two by simp
  then show ?case by (simp only: append_Cons append_Nil unpack_three 3) simp
qed

lemma UnpackCodes_PackCodes: "UnpackCodes (PackCodes codes) = map (\<lambda>c. c AND 4095) codes"
  by (simp add: UnpackCodes_def PackCodes_def unpack_pack_loop and4095)

text \<open>
  The encoder's dictionary is a hash map from strings to codes, used through \<open>Find\<close> and
  \<open>Insert\<close>; it starts with the 256 one-byte strings. The decoder's dictionary is a
  vector of strings indexed by code.
\<close>

definition InitialDict :: "string \<rightharpoonup> nat" where
  "InitialDict s = (case s of [c] \<Rightarrow> Some (of_char c) | _ \<Rightarrow> None)"

fun Compress_loop :: "string \<Rightarrow> (string \<rightharpoonup> nat) \<Rightarrow> nat \<Rightarrow> string \<Rightarrow> nat list \<Rightarrow> nat list" where
  "Compress_loop [] dict nextCode w codes =
     (if w \<noteq> [] then (case dict w of Some k \<Rightarrow> codes @ [k] | None \<Rightarrow> codes) else codes) @ [EndCode]"
| "Compress_loop (c # rest) dict nextCode w codes =
     (if w = [] then Compress_loop rest dict nextCode [c] codes
      else if dict (w @ [c]) \<noteq> None then Compress_loop rest dict nextCode (w @ [c]) codes
      else (let codes' = (case dict w of Some k \<Rightarrow> codes @ [k] | None \<Rightarrow> codes) in
            if nextCode < EndCode
            then Compress_loop rest (dict(w @ [c] \<mapsto> nextCode)) (nextCode + 1) [c] codes'
            else Compress_loop rest dict nextCode [c] codes'))"

definition Compress :: "string \<Rightarrow> byte list" where
  "Compress input = PackCodes (Compress_loop input InitialDict FirstFreeCode [] [])"

definition InitialTable :: "string list" where
  "InitialTable = map (\<lambda>i. [char_of i]) [0 ..< 256]"

fun Decompress_loop :: "nat list \<Rightarrow> string list \<Rightarrow> nat \<Rightarrow> string \<Rightarrow> string \<Rightarrow> string" where
  "Decompress_loop [] dict nextCode w out = out"
| "Decompress_loop (k # ks) dict nextCode w out =
     (if k = EndCode then out
      else case (if k < length dict then Some (dict ! k)
                 else if k = nextCode \<and> w \<noteq> [] then Some (w @ [w ! 0])
                 else None) of
             None \<Rightarrow> []
           | Some entry \<Rightarrow>
               (if nextCode < EndCode \<and> w \<noteq> [] \<and> entry \<noteq> []
                then Decompress_loop ks (dict @ [w @ [entry ! 0]]) (nextCode + 1) entry (out @ entry)
                else Decompress_loop ks dict nextCode entry (out @ entry)))"

definition Decompress :: "byte list \<Rightarrow> string" where
  "Decompress data =
     (let codes = UnpackCodes data in
      if codes = [] then []
      else (let firstCode = hd codes in
            if firstCode = EndCode then []
            else if firstCode \<ge> length InitialTable then []
            else (let w = InitialTable ! firstCode
                  in Decompress_loop (tl codes) InitialTable FirstFreeCode w w)))"


subsection \<open>The decoder follows the encoder\<close>

lemma Compress_loop_acc:
  "Compress_loop xs d n w (cs1 @ cs2) = cs1 @ Compress_loop xs d n w cs2"
  by (induction xs arbitrary: d n w cs2) (auto simp: Let_def split: option.splits)

lemma Compress_loop_acc0:
  "Compress_loop xs d n w cs = cs @ Compress_loop xs d n w []"
  using Compress_loop_acc [of xs d n w cs "[]"] by simp

definition lzw_inv ::
  "(string \<rightharpoonup> nat) \<Rightarrow> nat \<Rightarrow> string list \<Rightarrow> nat \<Rightarrow> string \<Rightarrow> string \<Rightarrow> bool" where
  "lzw_inv E nextE D nextD wD w \<longleftrightarrow>
     length D = nextD \<and> nextD \<le> EndCode \<and> wD \<noteq> [] \<and> w \<noteq> [] \<and> E w \<noteq> None
     \<and> nextE = (if nextD < EndCode then nextD + 1 else nextD)
     \<and> (\<forall>c. E [c] \<noteq> None)
     \<and> (\<forall>s \<in> set D. s \<noteq> [])
     \<and> (\<forall>s k. E s = Some k \<longrightarrow>
           (k < length D \<and> D ! k = s) \<or> (nextD < EndCode \<and> k = nextD \<and> s = wD @ [hd w]))"

lemma lzw_inv_extend:
  assumes "lzw_inv E nextE D nextD wD w" "E (w @ [c]) \<noteq> None"
  shows "lzw_inv E nextE D nextD wD (w @ [c])"
  using assms by (auto simp: lzw_inv_def)

text \<open>The code the encoder emits for \<open>w\<close> is decoded to \<open>w\<close>.\<close>

lemma lzw_decode_entry:
  assumes inv: "lzw_inv E nextE D nextD wD w" and k: "E w = Some k"
  shows "k \<noteq> EndCode \<and>
         (if k < length D then Some (D ! k)
          else if k = nextD \<and> wD \<noteq> [] then Some (wD @ [wD ! 0]) else None) = Some w"
proof -
  from inv k have "(k < length D \<and> D ! k = w) \<or> (nextD < EndCode \<and> k = nextD \<and> w = wD @ [hd w])"
    by (auto simp: lzw_inv_def)
  then show ?thesis
  proof
    assume "k < length D \<and> D ! k = w"
    with inv show ?thesis by (auto simp: lzw_inv_def)
  next
    assume a: "nextD < EndCode \<and> k = nextD \<and> w = wD @ [hd w]"
    from inv have wD: "wD \<noteq> []" and len: "length D = nextD" by (auto simp: lzw_inv_def)
    from a wD have "hd w = hd wD" by (metis hd_append2)
    with wD have "hd w = wD ! 0" by (simp add: hd_conv_nth)
    with a have "w = wD @ [wD ! 0]" by simp
    with a wD len show ?thesis by auto
  qed
qed

lemma lzw_inv_emit:
  assumes inv: "lzw_inv E nextE D nextD wD w" and wc: "E (w @ [c]) = None"
  shows "lzw_inv (if nextE < EndCode then E(w @ [c] \<mapsto> nextE) else E)
                 (if nextE < EndCode then nextE + 1 else nextE)
                 (if nextD < EndCode then D @ [wD @ [w ! 0]] else D)
                 (if nextD < EndCode then nextD + 1 else nextD) w [c]"
proof -
  let ?E' = "if nextE < EndCode then E(w @ [c] \<mapsto> nextE) else E"
  let ?nE' = "if nextE < EndCode then nextE + 1 else nextE"
  let ?D' = "if nextD < EndCode then D @ [wD @ [w ! 0]] else D"
  let ?nD' = "if nextD < EndCode then nextD + 1 else nextD"
  from inv have w: "w \<noteq> []" and wD: "wD \<noteq> []" and len: "length D = nextD"
    and le: "nextD \<le> EndCode" and nE: "nextE = (if nextD < EndCode then nextD + 1 else nextD)"
    and single: "\<forall>c. E [c] \<noteq> None" and ne: "\<forall>s \<in> set D. s \<noteq> []"
    and m: "\<forall>s k. E s = Some k \<longrightarrow>
           (k < length D \<and> D ! k = s) \<or> (nextD < EndCode \<and> k = nextD \<and> s = wD @ [hd w])"
    by (auto simp: lzw_inv_def)
  from w have hd: "hd w = w ! 0" by (simp add: hd_conv_nth)
  have nE_nD': "nextE = ?nD'" using nE by simp
  have c1: "length ?D' = ?nD'" using len by simp
  have c2: "?nD' \<le> EndCode" using le by simp
  have c3: "?E' [c] \<noteq> None" using single w by auto
  have c4: "?nE' = (if ?nD' < EndCode then ?nD' + 1 else ?nD')"
    using nE_nD' by (simp only:)
  have c5: "\<forall>c. ?E' [c] \<noteq> None" using single w by auto
  have c6: "\<forall>s \<in> set ?D'. s \<noteq> []" using ne wD by auto
  have c7: "\<forall>s k. ?E' s = Some k \<longrightarrow>
           (k < length ?D' \<and> ?D' ! k = s) \<or> (?nD' < EndCode \<and> k = ?nD' \<and> s = w @ [hd [c]])"
  proof (intro allI impI)
    fix s k
    assume sk: "?E' s = Some k"
    show "(k < length ?D' \<and> ?D' ! k = s) \<or> (?nD' < EndCode \<and> k = ?nD' \<and> s = w @ [hd [c]])"
    proof (cases "nextE < EndCode \<and> s = w @ [c]")
      case True
      with sk have "k = nextE" by simp
      with True nE_nD' show ?thesis by simp
    next
      case False
      with sk have "E s = Some k" by (auto split: if_splits)
      with m have "(k < length D \<and> D ! k = s) \<or> (nextD < EndCode \<and> k = nextD \<and> s = wD @ [hd w])"
        by blast
      then show ?thesis
      proof
        assume "k < length D \<and> D ! k = s"
        then show ?thesis by (auto simp: nth_append)
      next
        assume "nextD < EndCode \<and> k = nextD \<and> s = wD @ [hd w]"
        with len hd show ?thesis by (auto simp: nth_append)
      qed
    qed
  qed
  show ?thesis
    unfolding lzw_inv_def using c1 c2 w c3 c4 c5 c6 c7 by blast
qed

lemma lzw_main:
  "lzw_inv E nextE D nextD wD w \<Longrightarrow>
   Decompress_loop (Compress_loop rest E nextE w []) D nextD wD out = out @ w @ rest"
proof (induction rest arbitrary: E nextE D nextD wD w out)
  case Nil
  from Nil have w: "w \<noteq> []" and "E w \<noteq> None" by (auto simp: lzw_inv_def)
  then obtain k where k: "E w = Some k" by auto
  from lzw_decode_entry [OF Nil k] w k show ?case by simp
next
  case (Cons c rest)
  from Cons.prems have w: "w \<noteq> []" and wD: "wD \<noteq> []" and "E w \<noteq> None"
    and nE: "nextE = (if nextD < EndCode then nextD + 1 else nextD)"
    by (auto simp: lzw_inv_def)
  then obtain k where k: "E w = Some k" by auto
  show ?case
  proof (cases "E (w @ [c]) \<noteq> None")
    case True
    with Cons.prems have "lzw_inv E nextE D nextD wD (w @ [c])" by (rule lzw_inv_extend)
    from Cons.IH [OF this] True w show ?thesis by simp
  next
    case False
    then have wc: "E (w @ [c]) = None" by simp
    let ?E' = "if nextE < EndCode then E(w @ [c] \<mapsto> nextE) else E"
    let ?nE' = "if nextE < EndCode then nextE + 1 else nextE"
    let ?D' = "if nextD < EndCode then D @ [wD @ [w ! 0]] else D"
    let ?nD' = "if nextD < EndCode then nextD + 1 else nextD"
    have inv': "lzw_inv ?E' ?nE' ?D' ?nD' w [c]" using Cons.prems wc by (rule lzw_inv_emit)
    have enc: "Compress_loop (c # rest) E nextE w [] = k # Compress_loop rest ?E' ?nE' [c] []"
      using w wc k Compress_loop_acc0 [of rest _ _ "[c]" "[k]"] by (simp add: Let_def)
    have dec: "Decompress_loop (k # ks) D nextD wD out = Decompress_loop ks ?D' ?nD' w (out @ w)" for ks
      using lzw_decode_entry [OF Cons.prems k] w wD by simp
    show ?thesis
      unfolding enc dec using Cons.IH [OF inv', of "out @ w"] by simp
  qed
qed


lemma Compress_loop_bounded:
  "(\<forall>s k. E s = Some k \<longrightarrow> k < 4096) \<Longrightarrow> (\<forall>k \<in> set cs. k < 4096) \<Longrightarrow>
   \<forall>k \<in> set (Compress_loop xs E n w cs). k < 4096"
proof (induction xs arbitrary: E n w cs)
  case Nil
  then show ?case by (auto simp: EndCode_def split: option.splits)
next
  case (Cons c xs)
  let ?cs' = "case E w of Some k \<Rightarrow> cs @ [k] | None \<Rightarrow> cs"
  have cs': "\<forall>k \<in> set ?cs'. k < 4096"
    using Cons.prems by (auto split: option.splits)
  show ?case
  proof (cases "w = []")
    case True
    then show ?thesis using Cons.IH [OF Cons.prems] by simp
  next
    case w: False
    show ?thesis
    proof (cases "E (w @ [c]) \<noteq> None")
      case True
      then show ?thesis using w Cons.IH [OF Cons.prems] by simp
    next
      case wc: False
      show ?thesis
      proof (cases "n < EndCode")
        case True
        then have "\<forall>s k. (E(w @ [c] \<mapsto> n)) s = Some k \<longrightarrow> k < 4096"
          using Cons.prems(1) by (auto simp: EndCode_def)
        from Cons.IH [OF this cs', where n = "n + 1" and w = "[c]"]
        show ?thesis using w wc True by (simp add: Let_def fun_upd_def)
      next
        case False
        from Cons.IH [OF Cons.prems(1) cs', where n = n and w = "[c]"]
        show ?thesis using w wc False by (simp add: Let_def)
      qed
    qed
  qed
qed

lemma InitialDict_bounded: "InitialDict s = Some k \<Longrightarrow> k < 256"
  by (auto simp: InitialDict_def split: list.splits)

lemma Unpack_Compress:
  "UnpackCodes (Compress x) = Compress_loop x InitialDict FirstFreeCode [] []"
proof -
  have "\<forall>k \<in> set (Compress_loop x InitialDict FirstFreeCode [] []). k < 4096"
    by (rule Compress_loop_bounded) (auto dest: InitialDict_bounded)
  then have "map (\<lambda>c. c AND 4095) (Compress_loop x InitialDict FirstFreeCode [] [])
             = Compress_loop x InitialDict FirstFreeCode [] []"
    by (intro map_idI) (simp add: and4095 take_bit_nat_eq_self)
  then show ?thesis by (simp add: Compress_def UnpackCodes_PackCodes)
qed

lemma of_char_bounds: "\<not> 256 \<le> (of_char c :: nat)" "(of_char c :: nat) \<noteq> 4095"
proof -
  have "(of_char c :: nat) < 256" by simp
  then show "\<not> 256 \<le> (of_char c :: nat)" "(of_char c :: nat) \<noteq> 4095" by linarith+
qed

lemma length_InitialTable: "length InitialTable = 256"
  by (simp add: InitialTable_def)

lemma nth_InitialTable: "InitialTable ! (of_char c) = [c]"
proof -
  have "(of_char c :: nat) < 256" by simp
  then show ?thesis by (simp add: InitialTable_def del: upt_Suc)
qed

lemma lzw_inv_initial:
  "lzw_inv (InitialDict([c0, c1] \<mapsto> 256)) 257 InitialTable 256 [c0] [c1]"
proof -
  have "\<forall>s \<in> set InitialTable. s \<noteq> []" by (auto simp: InitialTable_def)
  moreover have "\<forall>s k. (InitialDict([c0, c1] \<mapsto> 256)) s = Some k \<longrightarrow>
           (k < length InitialTable \<and> InitialTable ! k = s)
           \<or> (256 < EndCode \<and> k = 256 \<and> s = [c0] @ [hd [c1]])"
  proof (intro allI impI)
    fix s k
    assume a: "(InitialDict([c0, c1] \<mapsto> 256)) s = Some k"
    show "(k < length InitialTable \<and> InitialTable ! k = s)
           \<or> (256 < EndCode \<and> k = 256 \<and> s = [c0] @ [hd [c1]])"
    proof (cases "s = [c0, c1]")
      case True
      with a show ?thesis by (simp add: EndCode_def)
    next
      case False
      with a have "InitialDict s = Some k" by simp
      then obtain c where "s = [c]" "k = of_char c"
        by (auto simp: InitialDict_def split: list.splits)
      then show ?thesis by (simp add: length_InitialTable nth_InitialTable)
    qed
  qed
  ultimately show ?thesis
    by (simp add: lzw_inv_def length_InitialTable EndCode_def InitialDict_def)
qed

lemma Decompress_Compress_id: "Decompress (Compress x) = x"
proof (cases x)
  case Nil
  then show ?thesis
    by (simp add: Decompress_def Unpack_Compress EndCode_def)
next
  case (Cons c0 rest)
  note x = Cons
  show ?thesis
  proof (cases rest)
    case Nil
    have "Compress_loop x InitialDict FirstFreeCode [] [] = [of_char c0, EndCode]"
      using x Nil by (simp add: InitialDict_def)
    then show ?thesis
      using x Nil
      by (simp add: Decompress_def Unpack_Compress EndCode_def length_InitialTable
          nth_InitialTable Let_def of_char_bounds)
  next
    case (Cons c1 rest')
    have "Compress_loop x InitialDict FirstFreeCode [] []
          = of_char c0 # Compress_loop rest' (InitialDict([c0, c1] \<mapsto> 256)) 257 [c1] []"
      using x Cons Compress_loop_acc0 [of rest' _ _ "[c1]" "[of_char c0]"]
      by (simp add: InitialDict_def FirstFreeCode_def EndCode_def Let_def)
    moreover have "Decompress_loop (Compress_loop rest' (InitialDict([c0, c1] \<mapsto> 256)) 257 [c1] [])
            InitialTable 256 [c0] [c0] = [c0] @ [c1] @ rest'"
      using lzw_inv_initial by (rule lzw_main)
    ultimately show ?thesis
      using x Cons
      by (simp add: Decompress_def Unpack_Compress EndCode_def FirstFreeCode_def
          length_InitialTable nth_InitialTable Let_def of_char_bounds)
  qed
qed

text \<open>
  Claim C1. For every byte string \<open>x\<close> (of any length, so in particular of length at most
  \<open>2^31 - 1\<close>), decompressing the result of compressing \<open>x\<close> with the codec at its default
  options returns exactly \<open>x\<close>.
\<close>

theorem Decompress_Compress: "Decompress (Compress x) = x"
  by (rule Decompress_Compress_id)

section \<open>Search engine and database (\<open>TSearchEngine\<close>, \<open>TSearchDatabase\<close>)\<close>

record search_engine =
  EnginePipeline :: pipeline_options
  EngineIndex :: inverted_index
  EngineTitles :: "nat \<rightharpoonup> string"

record db_options =
  Pipeline :: pipeline_options
  StoreDocuments :: bool
  CompressDocuments :: bool
  StoreTitles :: bool

definition default_db_options :: db_options where
  "default_db_options =
     \<lparr>Pipeline = default_pipeline_options, StoreDocuments = True,
      CompressDocuments = True, StoreTitles = True\<rparr>"

record search_database =
  Options :: db_options
  Engine :: search_engine
  RawDocs :: "nat \<rightharpoonup> string"
  CompressedDocs :: "nat \<rightharpoonup> byte list"
  Titles :: "nat \<rightharpoonup> string"

text \<open>The constructor: the engine's pipeline gets the database's pipeline options.\<close>

definition new_database :: "db_options \<Rightarrow> search_database" where
  "new_database opts =
     \<lparr>Options = opts,
      Engine = \<lparr>EnginePipeline = Pipeline opts, EngineIndex = empty_index, EngineTitles = Map.empty\<rparr>,
      RawDocs = Map.empty, CompressedDocs = Map.empty, Titles = Map.empty\<rparr>"

definition Engine_AddDocumentTerms :: "search_engine \<Rightarrow> string list \<Rightarrow> nat \<times> search_engine" where
  "Engine_AddDocumentTerms e terms =
     (let (docId, idx') = AddDocument (EngineIndex e) terms in (docId, e\<lparr>EngineIndex := idx'\<rparr>))"

definition Engine_Clear :: "search_engine \<Rightarrow> search_engine" where
  "Engine_Clear e = e\<lparr>EngineIndex := ClearIndex (EngineIndex e), EngineTitles := Map.empty\<rparr>"

definition StoreDoc :: "search_database \<Rightarrow> nat \<Rightarrow> string \<Rightarrow> search_database" where
  "StoreDoc db docId content =
     (if CompressDocuments (Options db)
      then db\<lparr>CompressedDocs := (CompressedDocs db)(docId \<mapsto> Compress content)\<rparr>
      else db\<lparr>RawDocs := (RawDocs db)(docId \<mapsto> content)\<rparr>)"

definition Db_AddDocument :: "search_database \<Rightarrow> string \<Rightarrow> string \<Rightarrow> nat \<times> search_database" where
  "Db_AddDocument db content title =
     (let terms = Process (EnginePipeline (Engine db)) content;
          (docId, e') = Engine_AddDocumentTerms (Engine db) terms;
          db1 = db\<lparr>Engine := e'\<rparr>;
          db2 = (if StoreDocuments (Options db1) then StoreDoc db1 docId content else db1);
          db3 = (if StoreTitles (Options db2) \<and> title \<noteq> []
                 then db2\<lparr>Titles := (Titles db2)(docId \<mapsto> title)\<rparr> else db2)
      in (docId, db3))"

definition Db_AddDocumentTerms :: "search_database \<Rightarrow> string list \<Rightarrow> nat \<times> search_database" where
  "Db_AddDocumentTerms db terms =
     (let (docId, e') = Engine_AddDocumentTerms (Engine db) terms in (docId, db\<lparr>Engine := e'\<rparr>))"

definition Db_AddDocumentTermsContent ::
  "search_database \<Rightarrow> string list \<Rightarrow> string \<Rightarrow> nat \<times> search_database" where
  "Db_AddDocumentTermsContent db terms content =
     (let (docId, e') = Engine_AddDocumentTerms (Engine db) terms;
          db1 = db\<lparr>Engine := e'\<rparr>
      in (docId, if StoreDocuments (Options db1) then StoreDoc db1 docId content else db1))"

definition Db_GetDocument :: "search_database \<Rightarrow> nat \<Rightarrow> string" where
  "Db_GetDocument db docId =
     (if \<not> StoreDocuments (Options db) then []
      else if CompressDocuments (Options db) then
        (case CompressedDocs db docId of None \<Rightarrow> [] | Some data \<Rightarrow> Decompress data)
      else (case RawDocs db docId of None \<Rightarrow> [] | Some content \<Rightarrow> content))"

definition Db_GetTitle :: "search_database \<Rightarrow> nat \<Rightarrow> string" where
  "Db_GetTitle db docId =
     (if \<not> StoreTitles (Options db) then []
      else (case Titles db docId of None \<Rightarrow> [] | Some title \<Rightarrow> title))"

definition Db_GetDocumentCount :: "search_database \<Rightarrow> nat" where
  "Db_GetDocumentCount db = GetDocumentCount (EngineIndex (Engine db))"

definition Db_Clear :: "search_database \<Rightarrow> search_database" where
  "Db_Clear db =
     db\<lparr>Engine := Engine_Clear (Engine db), RawDocs := Map.empty,
        CompressedDocs := Map.empty, Titles := Map.empty\<rparr>"

text \<open>
  The calls that change a database, and the state they lead to from a newly constructed
  database. The one-argument \<open>AddDocument(content)\<close> is \<open>AddDocument(content, TString())\<close>.
\<close>

datatype db_call =
  CallAddDocument string string
| CallAddDocumentTerms "string list"
| CallAddDocumentTermsContent "string list" string
| CallClear

fun Db_call :: "search_database \<Rightarrow> db_call \<Rightarrow> search_database" where
  "Db_call db (CallAddDocument content title) = snd (Db_AddDocument db content title)"
| "Db_call db (CallAddDocumentTerms terms) = snd (Db_AddDocumentTerms db terms)"
| "Db_call db (CallAddDocumentTermsContent terms content) = snd (Db_AddDocumentTermsContent db terms content)"
| "Db_call db CallClear = Db_Clear db"

definition Db_calls :: "db_options \<Rightarrow> db_call list \<Rightarrow> search_database" where
  "Db_calls opts calls = foldl Db_call (new_database opts) calls"

text \<open>
  What the caller supplied at the ingest of each document, in the order of the ids handed
  out since the last \<open>Clear\<close>: the content and the title, each the empty string when
  none was supplied.
\<close>

fun supplied_step :: "(string \<times> string) list \<Rightarrow> db_call \<Rightarrow> (string \<times> string) list" where
  "supplied_step hist (CallAddDocument content title) = hist @ [(content, title)]"
| "supplied_step hist (CallAddDocumentTerms terms) = hist @ [([], [])]"
| "supplied_step hist (CallAddDocumentTermsContent terms content) = hist @ [(content, [])]"
| "supplied_step hist CallClear = []"

definition supplied :: "db_call list \<Rightarrow> (string \<times> string) list" where
  "supplied calls = foldl supplied_step [] calls"

subsection \<open>Boolean queries\<close>

definition IsWs :: "char \<Rightarrow> bool" where
  "IsWs c = (c = CHR '' '' \<or> c = CHR 0x09 \<or> c = CHR 0x0A \<or> c = CHR 0x0D)"

definition IsParen :: "char \<Rightarrow> bool" where
  "IsParen c = (c = CHR ''('' \<or> c = CHR '')'')"

fun TokenizeBooleanQuery_loop :: "string \<Rightarrow> string \<Rightarrow> string list \<Rightarrow> string list" where
  "TokenizeBooleanQuery_loop [] cur tokens = (if cur \<noteq> [] then tokens @ [cur] else tokens)"
| "TokenizeBooleanQuery_loop (c # rest) cur tokens =
     (if IsWs c then
        (if cur \<noteq> [] then TokenizeBooleanQuery_loop rest [] (tokens @ [cur])
         else TokenizeBooleanQuery_loop rest cur tokens)
      else if IsParen c then
        (if cur \<noteq> [] then TokenizeBooleanQuery_loop rest [] (tokens @ [cur] @ [[c]])
         else TokenizeBooleanQuery_loop rest cur (tokens @ [[c]]))
      else TokenizeBooleanQuery_loop rest (cur @ [c]) tokens)"

definition TokenizeBooleanQuery :: "string \<Rightarrow> string list" where
  "TokenizeBooleanQuery query = TokenizeBooleanQuery_loop query [] []"

definition IsOp :: "string \<Rightarrow> bool" where
  "IsOp t = (t = ''and'' \<or> t = ''or'' \<or> t = ''not'' \<or> t = ''AND'' \<or> t = ''OR'' \<or> t = ''NOT'')"

definition Prec :: "string \<Rightarrow> int" where
  "Prec t =
     (if t = ''not'' \<or> t = ''NOT'' then 3
      else if t = ''and'' \<or> t = ''AND'' then 2
      else if t = ''or'' \<or> t = ''OR'' then 1
      else 0)"

definition IsLeftAssoc :: "string \<Rightarrow> bool" where
  "IsLeftAssoc t = (\<not> (t = ''not'' \<or> t = ''NOT''))"

text \<open>
  The operator stack \<open>ops\<close> of \<open>ToRpn\<close> and the operand stack \<open>st\<close> of \<open>EvalRpn\<close> are
  vectors used through \<open>PushBack\<close>, \<open>Back\<close> and \<open>PopBack\<close> only; each is a list whose
  head is \<open>Back()\<close>. The output \<open>out\<close> is a list in the order of the vector.
\<close>

fun pop_to_paren :: "string list \<Rightarrow> string list \<Rightarrow> string list \<times> string list" where
  "pop_to_paren [] out = ([], out)"
| "pop_to_paren (back # ops) out =
     (if back \<noteq> ''('' then pop_to_paren ops (out @ [back]) else (back # ops, out))"

fun pop_ops :: "string \<Rightarrow> string list \<Rightarrow> string list \<Rightarrow> string list \<times> string list" where
  "pop_ops tok [] out = ([], out)"
| "pop_ops tok (back # ops) out =
     (if IsOp back then
        (if Prec back > Prec tok \<or> (Prec back = Prec tok \<and> IsLeftAssoc tok)
         then pop_ops tok ops (out @ [back])
         else (back # ops, out))
      else (back # ops, out))"

fun ToRpn_finish :: "string list \<Rightarrow> string list \<Rightarrow> string list" where
  "ToRpn_finish [] out = out"
| "ToRpn_finish (back # ops) out =
     (if back \<noteq> ''('' \<and> back \<noteq> '')'' then ToRpn_finish ops (out @ [back]) else ToRpn_finish ops out)"

fun ToRpn_loop :: "pipeline_options \<Rightarrow> string list \<Rightarrow> string list \<Rightarrow> string list \<Rightarrow> string list" where
  "ToRpn_loop opts [] out ops = ToRpn_finish ops out"
| "ToRpn_loop opts (tok # rest) out ops =
     (if tok = ''('' then ToRpn_loop opts rest out (tok # ops)
      else if tok = '')'' then
        (let (ops1, out1) = pop_to_paren ops out;
             ops2 = (if ops1 \<noteq> [] \<and> hd ops1 = ''('' then tl ops1 else ops1)
         in ToRpn_loop opts rest out1 ops2)
      else if IsOp tok then
        (let (ops1, out1) = pop_ops tok ops out in ToRpn_loop opts rest out1 (tok # ops1))
      else ToRpn_loop opts rest (out @ [NormalizeTerm opts tok]) ops)"

definition ToRpn :: "pipeline_options \<Rightarrow> string list \<Rightarrow> string list" where
  "ToRpn opts tokens = ToRpn_loop opts tokens [] []"

text \<open>The two-pointer merges over posting lists, as recursion on the unread parts.\<close>

fun Intersect :: "nat list \<Rightarrow> nat list \<Rightarrow> nat list" where
  "Intersect (a # as) (b # bs) =
     (if a = b then a # Intersect as bs
      else if a < b then Intersect as (b # bs)
      else Intersect (a # as) bs)"
| "Intersect as bs = []"

fun Union :: "nat list \<Rightarrow> nat list \<Rightarrow> nat list" where
  "Union (a # as) (b # bs) =
     (if a = b then a # Union as bs
      else if a < b then a # Union as (b # bs)
      else b # Union (a # as) bs)"
| "Union [] bs = bs"
| "Union as [] = as"

function NotList_loop :: "nat \<Rightarrow> nat \<Rightarrow> nat list \<Rightarrow> nat list" where
  "NotList_loop doc n a =
     (if doc < n then
        (case a of
           x # xs \<Rightarrow> (if x = doc then NotList_loop (doc + 1) n xs else doc # NotList_loop (doc + 1) n a)
         | [] \<Rightarrow> doc # NotList_loop (doc + 1) n [])
      else [])"
  by pat_completeness auto
termination
  by (relation "measure (\<lambda>(doc, n, a). n - doc)") auto

declare NotList_loop.simps [simp del]

definition NotList :: "search_database \<Rightarrow> nat list \<Rightarrow> nat list" where
  "NotList db a = NotList_loop 0 (Db_GetDocumentCount db) a"

text \<open>
  The loop of \<open>EvalRpn\<close>. \<open>None\<close> stands for the early \<open>return TPostingList()\<close> taken
  when the stack holds too few entries for an operator; otherwise the result is the stack
  after the last token.
\<close>

fun EvalRpn_loop :: "search_database \<Rightarrow> string list \<Rightarrow> nat list list \<Rightarrow> nat list list option" where
  "EvalRpn_loop db [] st = Some st"
| "EvalRpn_loop db (tok # rest) st =
     (if IsOp tok then
        (if tok = ''not'' \<or> tok = ''NOT'' then
           (case st of
              [] \<Rightarrow> None
            | a # st' \<Rightarrow> EvalRpn_loop db rest (NotList db a # st'))
         else
           (case st of
              b # a # st' \<Rightarrow>
                EvalRpn_loop db rest
                  ((if tok = ''and'' \<or> tok = ''AND'' then Intersect a b else Union a b) # st')
            | _ \<Rightarrow> None))
      else EvalRpn_loop db rest (GetPostingList (EngineIndex (Engine db)) tok # st))"

definition EvalRpn :: "search_database \<Rightarrow> string list \<Rightarrow> nat list" where
  "EvalRpn db rpn =
     (case EvalRpn_loop db rpn [] of
        None \<Rightarrow> []
      | Some st \<Rightarrow> (case st of [] \<Rightarrow> [] | back # _ \<Rightarrow> back))"

definition BooleanQuery :: "search_database \<Rightarrow> string \<Rightarrow> nat list" where
  "BooleanQuery db query =
     EvalRpn db (ToRpn (EnginePipeline (Engine db)) (TokenizeBooleanQuery query))"

subsection \<open>Operators and operands of a Boolean query\<close>

lemma ToRpn_loop_operands:
  "list_all (\<lambda>t. \<not> IsOp t \<and> t \<noteq> ''('' \<and> t \<noteq> '')'') tokens \<Longrightarrow>
   ToRpn_loop opts tokens out ops = ToRpn_finish ops (out @ map (NormalizeTerm opts) tokens)"
  by (induction tokens arbitrary: out) simp_all

lemma ToRpn_operands:
  "list_all (\<lambda>t. \<not> IsOp t \<and> t \<noteq> ''('' \<and> t \<noteq> '')'') tokens \<Longrightarrow>
   ToRpn opts tokens = map (NormalizeTerm opts) tokens"
  by (simp add: ToRpn_def ToRpn_loop_operands)

lemma EvalRpn_loop_operands:
  "list_all (\<lambda>t. \<not> IsOp t) rpn \<Longrightarrow>
   EvalRpn_loop db rpn st = Some (rev (map (GetPostingList (EngineIndex (Engine db))) rpn) @ st)"
  by (induction rpn arbitrary: st) simp_all

lemma EvalRpn_loop_append:
  "EvalRpn_loop db (xs @ ys) st =
     (case EvalRpn_loop db xs st of None \<Rightarrow> None | Some st' \<Rightarrow> EvalRpn_loop db ys st')"
  by (induction xs arbitrary: st) (auto split: list.splits)

lemma EvalRpn_last:
  assumes "EvalRpn_loop db pre [] = Some st0"
  shows "EvalRpn db (pre @ [e]) =
     (if \<not> IsOp e then GetPostingList (EngineIndex (Engine db)) e
      else if e = ''not'' \<or> e = ''NOT'' then (case st0 of [] \<Rightarrow> [] | a # st' \<Rightarrow> NotList db a)
      else (case st0 of
              b # a # st' \<Rightarrow> (if e = ''and'' \<or> e = ''AND'' then Intersect a b else Union a b)
            | _ \<Rightarrow> []))"
  using assms by (auto simp: EvalRpn_def EvalRpn_loop_append split: list.splits)

text \<open>The operator stack of \<open>ToRpn\<close> holds operators and opening parentheses only.\<close>

definition ops_ok :: "string list \<Rightarrow> bool" where
  "ops_ok ops = list_all (\<lambda>t. IsOp t \<or> t = ''('') ops"

lemma IsOp_paren: "\<not> IsOp ''(''" "\<not> IsOp '')''"
  by (simp_all add: IsOp_def)

lemma pop_to_paren_filter:
  "ops_ok ops \<Longrightarrow>
   ops_ok (fst (pop_to_paren ops out))
   \<and> filter (\<lambda>e. \<not> IsOp e) (snd (pop_to_paren ops out)) = filter (\<lambda>e. \<not> IsOp e) out
   \<and> length (snd (pop_to_paren ops out)) + length (filter IsOp (fst (pop_to_paren ops out)))
       = length out + length (filter IsOp ops)"
  by (induction ops arbitrary: out) (auto simp: ops_ok_def IsOp_paren)

lemma pop_ops_filter:
  "ops_ok ops \<Longrightarrow>
   ops_ok (fst (pop_ops tok ops out))
   \<and> filter (\<lambda>e. \<not> IsOp e) (snd (pop_ops tok ops out)) = filter (\<lambda>e. \<not> IsOp e) out
   \<and> length (snd (pop_ops tok ops out)) + length (filter IsOp (fst (pop_ops tok ops out)))
       = length out + length (filter IsOp ops)"
  by (induction ops arbitrary: out) (auto simp: ops_ok_def)

lemma ToRpn_finish_filter:
  "ops_ok ops \<Longrightarrow>
   filter (\<lambda>e. \<not> IsOp e) (ToRpn_finish ops out) = filter (\<lambda>e. \<not> IsOp e) out
   \<and> length (ToRpn_finish ops out) = length out + length (filter IsOp ops)"
  by (induction ops arbitrary: out) (auto simp: ops_ok_def IsOp_paren)

lemma ops_ok_tl: "ops_ok ops \<Longrightarrow> ops_ok (tl ops)"
  by (cases ops) (simp_all add: ops_ok_def)

lemma filter_IsOp_tl_paren: "ops \<noteq> [] \<Longrightarrow> hd ops = ''('' \<Longrightarrow> filter IsOp (tl ops) = filter IsOp ops"
  by (cases ops) (simp_all add: IsOp_paren)

lemma ToRpn_loop_filter:
  "ops_ok ops \<Longrightarrow>
   list_all (\<lambda>t. \<not> IsOp t \<and> t \<noteq> ''('' \<and> t \<noteq> '')'' \<longrightarrow> \<not> IsOp (NormalizeTerm opts t)) tokens \<Longrightarrow>
   filter (\<lambda>e. \<not> IsOp e) (ToRpn_loop opts tokens out ops)
     = filter (\<lambda>e. \<not> IsOp e) out
       @ map (NormalizeTerm opts) (filter (\<lambda>t. \<not> IsOp t \<and> t \<noteq> ''('' \<and> t \<noteq> '')'') tokens)"
proof (induction tokens arbitrary: out ops)
  case Nil
  then show ?case by (simp add: ToRpn_finish_filter)
next
  case (Cons tok rest)
  from Cons.prems(2) have rest:
    "list_all (\<lambda>t. \<not> IsOp t \<and> t \<noteq> ''('' \<and> t \<noteq> '')'' \<longrightarrow> \<not> IsOp (NormalizeTerm opts t)) rest"
    by simp
  consider (lparen) "tok = ''(''" | (rparen) "tok = '')''" | (oper) "IsOp tok"
    | (operand) "\<not> IsOp tok" "tok \<noteq> ''(''" "tok \<noteq> '')''"
    by blast
  then show ?case
  proof cases
    case lparen
    have "ops_ok (tok # ops)" using Cons.prems(1) lparen by (simp add: ops_ok_def)
    from Cons.IH [OF this rest, of out] lparen show ?thesis by (simp add: IsOp_paren)
  next
    case rparen
    let ?p = "pop_to_paren ops out"
    let ?ops2 = "if fst ?p \<noteq> [] \<and> hd (fst ?p) = ''('' then tl (fst ?p) else fst ?p"
    from pop_to_paren_filter [OF Cons.prems(1), of out]
    have ok: "ops_ok (fst ?p)"
      and f: "filter (\<lambda>e. \<not> IsOp e) (snd ?p) = filter (\<lambda>e. \<not> IsOp e) out" by simp_all
    have "ops_ok ?ops2" using ok by (simp add: ops_ok_tl)
    from Cons.IH [OF this rest, of "snd ?p"] rparen f show ?thesis
      by (simp add: case_prod_beta Let_def IsOp_paren)
  next
    case oper
    let ?p = "pop_ops tok ops out"
    from pop_ops_filter [OF Cons.prems(1), of tok out]
    have ok: "ops_ok (fst ?p)"
      and f: "filter (\<lambda>e. \<not> IsOp e) (snd ?p) = filter (\<lambda>e. \<not> IsOp e) out" by simp_all
    have "ops_ok (tok # fst ?p)" using ok oper by (simp add: ops_ok_def)
    moreover from oper have "tok \<noteq> ''(''" "tok \<noteq> '')''" by (auto simp: IsOp_def)
    ultimately show ?thesis using Cons.IH [OF _ rest, of "tok # fst ?p" "snd ?p"] oper f
      by (simp add: case_prod_beta)
  next
    case operand
    with Cons.prems(2) have "\<not> IsOp (NormalizeTerm opts tok)" by simp
    with Cons.IH [OF Cons.prems(1) rest, of "out @ [NormalizeTerm opts tok]"] operand
    show ?thesis by simp
  qed
qed

lemma ToRpn_loop_length:
  "ops_ok ops \<Longrightarrow>
   length (ToRpn_loop opts tokens out ops)
     = length out + length (filter IsOp ops)
       + length (filter (\<lambda>t. t \<noteq> ''('' \<and> t \<noteq> '')'') tokens)"
proof (induction tokens arbitrary: out ops)
  case Nil
  then show ?case by (simp add: ToRpn_finish_filter)
next
  case (Cons tok rest)
  consider (lparen) "tok = ''(''" | (rparen) "tok = '')''" | (oper) "IsOp tok"
    | (operand) "\<not> IsOp tok" "tok \<noteq> ''(''" "tok \<noteq> '')''"
    by blast
  then show ?case
  proof cases
    case lparen
    have "ops_ok (tok # ops)" using Cons.prems(1) lparen by (simp add: ops_ok_def)
    from Cons.IH [OF this, of out] lparen show ?thesis by (simp add: IsOp_paren)
  next
    case rparen
    let ?p = "pop_to_paren ops out"
    let ?ops2 = "if fst ?p \<noteq> [] \<and> hd (fst ?p) = ''('' then tl (fst ?p) else fst ?p"
    from pop_to_paren_filter [OF Cons.prems(1), of out]
    have ok: "ops_ok (fst ?p)"
      and l: "length (snd ?p) + length (filter IsOp (fst ?p)) = length out + length (filter IsOp ops)"
      by simp_all
    have "ops_ok ?ops2" using ok by (simp add: ops_ok_tl)
    moreover have "filter IsOp ?ops2 = filter IsOp (fst ?p)"
      by (simp add: filter_IsOp_tl_paren)
    ultimately show ?thesis using Cons.IH [of ?ops2 "snd ?p"] rparen l
      by (simp add: case_prod_beta Let_def IsOp_paren)
  next
    case oper
    let ?p = "pop_ops tok ops out"
    from pop_ops_filter [OF Cons.prems(1), of tok out]
    have ok: "ops_ok (fst ?p)"
      and l: "length (snd ?p) + length (filter IsOp (fst ?p)) = length out + length (filter IsOp ops)"
      by simp_all
    have "ops_ok (tok # fst ?p)" using ok oper by (simp add: ops_ok_def)
    moreover from oper have "tok \<noteq> ''(''" "tok \<noteq> '')''" by (auto simp: IsOp_def)
    ultimately show ?thesis using Cons.IH [of "tok # fst ?p" "snd ?p"] oper l
      by (simp add: case_prod_beta)
  next
    case operand
    with Cons.IH [OF Cons.prems(1), of "out @ [NormalizeTerm opts tok]"]
    show ?thesis by simp
  qed
qed

lemma ToRpn_filter:
  "list_all (\<lambda>t. \<not> IsOp t \<and> t \<noteq> ''('' \<and> t \<noteq> '')'' \<longrightarrow> \<not> IsOp (NormalizeTerm opts t)) tokens \<Longrightarrow>
   filter (\<lambda>e. \<not> IsOp e) (ToRpn opts tokens)
     = map (NormalizeTerm opts) (filter (\<lambda>t. \<not> IsOp t \<and> t \<noteq> ''('' \<and> t \<noteq> '')'') tokens)"
  using ToRpn_loop_filter [of "[]" opts tokens "[]"] by (simp add: ToRpn_def ops_ok_def)

lemma ToRpn_length:
  "length (ToRpn opts tokens) = length (filter (\<lambda>t. t \<noteq> ''('' \<and> t \<noteq> '')'') tokens)"
  using ToRpn_loop_length [of "[]" opts tokens "[]"] by (simp add: ToRpn_def ops_ok_def)

lemma InitDictionary_foldl_ran:
  "foldl (\<lambda>dict (word, lemma). AddWord dict word lemma) d ws k = Some l \<Longrightarrow>
   d k = Some l \<or> l \<in> snd ` set ws"
proof (induction ws arbitrary: d)
  case Nil
  then show ?case by simp
next
  case (Cons p ws)
  obtain a b where p: "p = (a, b)" by (cases p)
  from Cons.prems have "foldl (\<lambda>dict (word, lemma). AddWord dict word lemma) (AddWord d a b) ws k = Some l"
    by (simp add: p)
  from Cons.IH [OF this] show ?case
    by (auto simp: p AddWord_def split: if_splits)
qed

lemma Lemmatize_range:
  "Lemmatize InitDictionary w = Stem (ToLower w) \<or> Lemmatize InitDictionary w \<in> snd ` set InitDictionary_words"
proof (cases "InitDictionary (Hash (ToLower w))")
  case None
  then show ?thesis by (simp add: Lemmatize_def)
next
  case (Some l)
  with InitDictionary_foldl_ran [of Map.empty InitDictionary_words "Hash (ToLower w)" l]
  show ?thesis by (simp add: Lemmatize_def GetLemma_def InitDictionary_def)
qed

lemmas dict_table_defs = BE_FORMS_def HAVE_FORMS_def DO_FORMS_def GO_FORMS_def RUN_FORMS_def
  TAKE_FORMS_def GIVE_FORMS_def SEE_FORMS_def COME_FORMS_def KNOW_FORMS_def MAKE_FORMS_def
  SAY_FORMS_def TELL_FORMS_def THINK_FORMS_def FIND_FORMS_def GET_FORMS_def LEAVE_FORMS_def
  FEEL_FORMS_def BRING_FORMS_def BUY_FORMS_def CATCH_FORMS_def TEACH_FORMS_def
  SEEK_FORMS_def WRITE_FORMS_def SPEAK_FORMS_def BREAK_FORMS_def CHOOSE_FORMS_def
  DRIVE_FORMS_def RIDE_FORMS_def RISE_FORMS_def FLY_FORMS_def GROW_FORMS_def THROW_FORMS_def
  DRAW_FORMS_def SING_FORMS_def SWIM_FORMS_def BEGIN_FORMS_def DRINK_FORMS_def
  RING_FORMS_def SIT_FORMS_def STAND_FORMS_def HOLD_FORMS_def READ_FORMS_def LEAD_FORMS_def
  MEET_FORMS_def PAY_FORMS_def SEND_FORMS_def SPEND_FORMS_def BUILD_FORMS_def LOSE_FORMS_def
  KEEP_FORMS_def SLEEP_FORMS_def WIN_FORMS_def WEAR_FORMS_def BEAT_FORMS_def BITE_FORMS_def
  BIND_FORMS_def BLEED_FORMS_def BLOW_FORMS_def BEAR_FORMS_def EAT_FORMS_def FALL_FORMS_def
  HIDE_FORMS_def SHAKE_FORMS_def FREEZE_FORMS_def STEAL_FORMS_def TEAR_FORMS_def
  WEAVE_FORMS_def FORBID_FORMS_def FORGIVE_FORMS_def LIE_FORMS_def LAY_FORMS_def
  SHINE_FORMS_def SHOOT_FORMS_def SHOW_FORMS_def SHRINK_FORMS_def SHUT_FORMS_def
  SLAY_FORMS_def SLIDE_FORMS_def SLING_FORMS_def SLIT_FORMS_def SMITE_FORMS_def
  SOW_FORMS_def SPIN_FORMS_def SPIT_FORMS_def SPLIT_FORMS_def SPREAD_FORMS_def
  SPRING_FORMS_def STICK_FORMS_def STING_FORMS_def STINK_FORMS_def STRIDE_FORMS_def
  STRIKE_FORMS_def STRING_FORMS_def STRIVE_FORMS_def SWEAR_FORMS_def SWEEP_FORMS_def
  SWELL_FORMS_def SWING_FORMS_def TREAD_FORMS_def WAKE_FORMS_def WIND_FORMS_def
  WRING_FORMS_def LIGHT_FORMS_def QUIT_FORMS_def SET_FORMS_def CUT_FORMS_def HIT_FORMS_def
  PUT_FORMS_def LET_FORMS_def COST_FORMS_def CAST_FORMS_def BURST_FORMS_def HURT_FORMS_def
  BET_FORMS_def BEND_FORMS_def LEND_FORMS_def FEED_FORMS_def BREED_FORMS_def SPEED_FORMS_def
  FLEE_FORMS_def DEAL_FORMS_def MEAN_FORMS_def LEAN_FORMS_def LEAP_FORMS_def LEARN_FORMS_def
  BURN_FORMS_def SMELL_FORMS_def SPELL_FORMS_def SPILL_FORMS_def SPOIL_FORMS_def
  DREAM_FORMS_def DWELL_FORMS_def HANG_FORMS_def DIG_FORMS_def CLING_FORMS_def
  FLING_FORMS_def ADVERBS_def NOUNS_def ADJECTIVES_def

lemma dictionary_lemmas_not_operators:
  "list_all (\<lambda>p. \<not> IsOp (snd p)) InitDictionary_words"
  unfolding InitDictionary_words_def list_all_append
  by (intro conjI) (simp_all add: dict_table_defs IsOp_def)

lemma NormalizeTerm_cat_dog:
  "\<not> IsOp (NormalizeTerm opts ''cat'')" "\<not> IsOp (NormalizeTerm opts ''dog'')"
proof -
  have low: "ToLower ''cat'' = ''cat''" "ToLower ''dog'' = ''dog''" by code_simp+
  have stem: "Stem ''cat'' = ''cat''" "Stem ''dog'' = ''dog''" by code_simp+
  have ops: "\<not> IsOp ''cat''" "\<not> IsOp ''dog''" by (simp_all add: IsOp_def)
  have vals: "\<not> IsOp l" if "l \<in> snd ` set InitDictionary_words" for l
    using that dictionary_lemmas_not_operators by (auto simp: list_all_iff)
  have lem: "\<not> IsOp (Lemmatize InitDictionary w)" if "\<not> IsOp (Stem (ToLower w))" for w
    using Lemmatize_range [of w] that vals by auto
  show "\<not> IsOp (NormalizeTerm opts ''cat'')"
    using lem [of "''cat''"] by (simp add: NormalizeTerm_def Let_def low stem ops)
  show "\<not> IsOp (NormalizeTerm opts ''dog'')"
    using lem [of "''dog''"] by (simp add: NormalizeTerm_def Let_def low stem ops)
qed

lemma BooleanQuery_operands:
  assumes all: "list_all (\<lambda>t. \<not> IsOp t \<and> t \<noteq> ''('' \<and> t \<noteq> '')''
                    \<and> \<not> IsOp (NormalizeTerm (EnginePipeline (Engine db)) t))
                  (TokenizeBooleanQuery q)"
    and ne: "TokenizeBooleanQuery q \<noteq> []"
  shows "EvalRpn_loop db (ToRpn (EnginePipeline (Engine db)) (TokenizeBooleanQuery q)) []
           = Some (rev (map (\<lambda>t. GetPostingList (EngineIndex (Engine db))
                                (NormalizeTerm (EnginePipeline (Engine db)) t))
                         (TokenizeBooleanQuery q)))"
    and "BooleanQuery db q
           = GetPostingList (EngineIndex (Engine db))
               (NormalizeTerm (EnginePipeline (Engine db)) (last (TokenizeBooleanQuery q)))"
proof -
  let ?opts = "EnginePipeline (Engine db)"
  let ?G = "GetPostingList (EngineIndex (Engine db))"
  let ?toks = "TokenizeBooleanQuery q"
  from all have a1: "list_all (\<lambda>t. \<not> IsOp t \<and> t \<noteq> ''('' \<and> t \<noteq> '')'') ?toks"
    and a2: "list_all (\<lambda>t. \<not> IsOp t) (map (NormalizeTerm ?opts) ?toks)"
    by (simp_all add: list_all_iff)
  show st: "EvalRpn_loop db (ToRpn ?opts ?toks) [] = Some (rev (map (\<lambda>t. ?G (NormalizeTerm ?opts t)) ?toks))"
    using EvalRpn_loop_operands [OF a2, of db "[]"] by (simp add: ToRpn_operands [OF a1] comp_def)
  have "rev (map (\<lambda>t. ?G (NormalizeTerm ?opts t)) ?toks)
        = ?G (NormalizeTerm ?opts (last ?toks)) # rev (map (\<lambda>t. ?G (NormalizeTerm ?opts t)) (butlast ?toks))"
    using ne by (subst (1) append_butlast_last_id [symmetric]) (simp_all del: append_butlast_last_id)
  with st show "BooleanQuery db q = ?G (NormalizeTerm ?opts (last ?toks))"
    by (simp add: BooleanQuery_def EvalRpn_def)
qed

text \<open>
  The operand stack underflows on an RPN sequence, started with \<open>n\<close> entries on the
  stack: some \<open>not\<close> finds no entry, or some binary operator finds fewer than two.
\<close>

fun rpn_underflows :: "string list \<Rightarrow> nat \<Rightarrow> bool" where
  "rpn_underflows [] n = False"
| "rpn_underflows (tok # rest) n =
     (if tok = ''not'' \<or> tok = ''NOT'' then (n = 0 \<or> rpn_underflows rest n)
      else if IsOp tok then (n < 2 \<or> rpn_underflows rest (n - 1))
      else rpn_underflows rest (n + 1))"

lemma EvalRpn_loop_None_iff:
  "EvalRpn_loop db rpn st = None \<longleftrightarrow> rpn_underflows rpn (length st)"
proof (induction rpn arbitrary: st)
  case Nil
  then show ?case by simp
next
  case (Cons tok rest)
  show ?case
  proof (cases "tok = ''not'' \<or> tok = ''NOT''")
    case True
    then have "IsOp tok" by (auto simp: IsOp_def)
    with True Cons show ?thesis by (cases st) auto
  next
    case notop: False
    show ?thesis
    proof (cases "IsOp tok")
      case True
      show ?thesis
      proof (cases st)
        case Nil
        with True notop show ?thesis by simp
      next
        case (Cons b st1)
        note st = Cons
        show ?thesis
        proof (cases st1)
          case Nil
          with True notop st show ?thesis by simp
        next
          case (Cons a st2)
          with True notop st Cons.IH show ?thesis by simp
        qed
      qed
    next
      case False
      with notop Cons show ?thesis by simp
    qed
  qed
qed

text \<open>
  A code stream refers to a code that is neither in the decoder's dictionary (which holds
  the codes below \<open>n\<close>) nor the next code to be assigned (\<open>n\<close> itself), before the
  \<open>END\<close> marker; the dictionary grows by one entry per code read while \<open>n < END\<close>.
\<close>

fun lzw_bad_reference :: "nat list \<Rightarrow> nat \<Rightarrow> bool" where
  "lzw_bad_reference [] n = False"
| "lzw_bad_reference (k # ks) n =
     (k \<noteq> EndCode \<and> (n < k \<or> lzw_bad_reference ks (if n < EndCode then n + 1 else n)))"

definition lzw_malformed :: "nat list \<Rightarrow> bool" where
  "lzw_malformed codes =
     (case codes of [] \<Rightarrow> False | first # ks \<Rightarrow> 255 < first \<or> lzw_bad_reference ks FirstFreeCode)"

lemma Decompress_loop_bad_reference:
  "lzw_bad_reference ks n \<Longrightarrow> length D = n \<Longrightarrow> n \<le> EndCode \<Longrightarrow> w \<noteq> [] \<Longrightarrow>
   \<forall>s \<in> set D. s \<noteq> [] \<Longrightarrow> Decompress_loop ks D n w out = []"
proof (induction ks arbitrary: D n w out)
  case Nil
  then show ?case by simp
next
  case (Cons k ks)
  from Cons.prems(1) have kE: "k \<noteq> EndCode"
    and bad: "n < k \<or> lzw_bad_reference ks (if n < EndCode then n + 1 else n)" by auto
  show ?case
  proof (cases "n < k")
    case True
    with kE Cons.prems(2) show ?thesis by simp
  next
    case False
    with bad have bad': "lzw_bad_reference ks (if n < EndCode then n + 1 else n)" by simp
    let ?entry = "if k < length D then D ! k else w @ [w ! 0]"
    have entry: "(if k < length D then Some (D ! k)
                 else if k = n \<and> w \<noteq> [] then Some (w @ [w ! 0]) else None) = Some ?entry"
      using False Cons.prems(2,4) by auto
    have ne: "?entry \<noteq> []" using Cons.prems(5) by auto
    show ?thesis
    proof (cases "n < EndCode")
      case True
      have "Decompress_loop ks (D @ [w @ [?entry ! 0]]) (n + 1) ?entry (out @ ?entry) = []"
        using bad' True Cons.prems(2,5) ne by (intro Cons.IH) auto
      with kE entry ne True Cons.prems(4) show ?thesis by (simp del: Decompress_loop.simps(2) add: Decompress_loop.simps(2) [of k])
    next
      case nE: False
      have "Decompress_loop ks D n ?entry (out @ ?entry) = []"
        using bad' nE Cons.prems(2,3,5) ne by (intro Cons.IH) auto
      with kE entry ne nE show ?thesis by (simp del: Decompress_loop.simps(2) add: Decompress_loop.simps(2) [of k])
    qed
  qed
qed

lemma Decompress_malformed:
  assumes "lzw_malformed (UnpackCodes data)"
  shows "Decompress data = []"
proof (cases "UnpackCodes data")
  case Nil
  then show ?thesis by (simp add: Decompress_def)
next
  case (Cons first ks)
  show ?thesis
  proof (cases "255 < first")
    case True
    with Cons show ?thesis by (simp add: Decompress_def Let_def length_InitialTable)
  next
    case False
    with assms Cons have bad: "lzw_bad_reference ks FirstFreeCode" by (simp add: lzw_malformed_def)
    have "Decompress_loop ks InitialTable FirstFreeCode (InitialTable ! first) (InitialTable ! first) = []"
      using bad
    proof (rule Decompress_loop_bad_reference)
      show "length InitialTable = FirstFreeCode" by (simp add: length_InitialTable FirstFreeCode_def)
      show "FirstFreeCode \<le> EndCode" by (simp add: FirstFreeCode_def EndCode_def)
      show "\<forall>s \<in> set InitialTable. s \<noteq> []" by (auto simp: InitialTable_def)
      then show "InitialTable ! first \<noteq> []" using False by (simp add: length_InitialTable)
    qed
    with Cons show ?thesis by (simp add: Decompress_def Let_def)
  qed
qed


subsection \<open>Stored documents and titles\<close>

lemma AddDocument_loop_NextDocId:
  "NextDocId (fst (AddDocument_loop idx docId terms c)) = NextDocId idx"
  by (induction terms arbitrary: idx c)
     (simp_all add: add_term_step_def [symmetric] step_next)

lemma fst_AddDocument: "fst (AddDocument idx terms) = NextDocId idx"
  by (simp add: AddDocument_def Let_def case_prod_beta)

lemma NextDocId_AddDocument: "NextDocId (snd (AddDocument idx terms)) = NextDocId idx + 1"
proof -
  have "NextDocId (fst (AddDocument_loop (idx\<lparr>NextDocId := NextDocId idx + 1\<rparr>) (NextDocId idx) terms 0))
        = NextDocId idx + 1"
    by (simp only: AddDocument_loop_NextDocId) simp
  then show ?thesis by (simp add: AddDocument_def Let_def case_prod_beta)
qed

lemma Engine_AddDocumentTerms_count:
  "fst (Engine_AddDocumentTerms e terms) = NextDocId (EngineIndex e)"
  "NextDocId (EngineIndex (snd (Engine_AddDocumentTerms e terms))) = NextDocId (EngineIndex e) + 1"
  using fst_AddDocument [of "EngineIndex e" terms] NextDocId_AddDocument [of "EngineIndex e" terms]
  by (simp_all add: Engine_AddDocumentTerms_def case_prod_beta)

lemma Db_AddDocument_fields:
  "fst (Db_AddDocument db content title) = Db_GetDocumentCount db"
  "Db_GetDocumentCount (snd (Db_AddDocument db content title)) = Db_GetDocumentCount db + 1"
  "Options (snd (Db_AddDocument db content title)) = Options db"
  "Titles (snd (Db_AddDocument db content title)) =
     (if StoreTitles (Options db) \<and> title \<noteq> []
      then (Titles db)(Db_GetDocumentCount db \<mapsto> title) else Titles db)"
  "RawDocs (snd (Db_AddDocument db content title)) =
     (if StoreDocuments (Options db) \<and> \<not> CompressDocuments (Options db)
      then (RawDocs db)(Db_GetDocumentCount db \<mapsto> content) else RawDocs db)"
  "CompressedDocs (snd (Db_AddDocument db content title)) =
     (if StoreDocuments (Options db) \<and> CompressDocuments (Options db)
      then (CompressedDocs db)(Db_GetDocumentCount db \<mapsto> Compress content) else CompressedDocs db)"
  using Engine_AddDocumentTerms_count [of "Engine db" "Process (EnginePipeline (Engine db)) content"]
  by (auto simp: Db_AddDocument_def Let_def StoreDoc_def Db_GetDocumentCount_def GetDocumentCount_def
      case_prod_beta)

lemma Db_AddDocumentTerms_fields:
  "Db_GetDocumentCount (snd (Db_AddDocumentTerms db terms)) = Db_GetDocumentCount db + 1"
  "Options (snd (Db_AddDocumentTerms db terms)) = Options db"
  "Titles (snd (Db_AddDocumentTerms db terms)) = Titles db"
  "RawDocs (snd (Db_AddDocumentTerms db terms)) = RawDocs db"
  "CompressedDocs (snd (Db_AddDocumentTerms db terms)) = CompressedDocs db"
  using Engine_AddDocumentTerms_count [of "Engine db" terms]
  by (auto simp: Db_AddDocumentTerms_def Db_GetDocumentCount_def GetDocumentCount_def case_prod_beta)

lemma Db_AddDocumentTermsContent_fields:
  "Db_GetDocumentCount (snd (Db_AddDocumentTermsContent db terms content)) = Db_GetDocumentCount db + 1"
  "Options (snd (Db_AddDocumentTermsContent db terms content)) = Options db"
  "Titles (snd (Db_AddDocumentTermsContent db terms content)) = Titles db"
  "RawDocs (snd (Db_AddDocumentTermsContent db terms content)) =
     (if StoreDocuments (Options db) \<and> \<not> CompressDocuments (Options db)
      then (RawDocs db)(Db_GetDocumentCount db \<mapsto> content) else RawDocs db)"
  "CompressedDocs (snd (Db_AddDocumentTermsContent db terms content)) =
     (if StoreDocuments (Options db) \<and> CompressDocuments (Options db)
      then (CompressedDocs db)(Db_GetDocumentCount db \<mapsto> Compress content) else CompressedDocs db)"
  using Engine_AddDocumentTerms_count [of "Engine db" terms]
  by (auto simp: Db_AddDocumentTermsContent_def Let_def StoreDoc_def Db_GetDocumentCount_def
      GetDocumentCount_def case_prod_beta)

lemma Db_Clear_fields:
  "Db_GetDocumentCount (Db_Clear db) = 0"
  "Options (Db_Clear db) = Options db"
  "Titles (Db_Clear db) = Map.empty"
  "RawDocs (Db_Clear db) = Map.empty"
  "CompressedDocs (Db_Clear db) = Map.empty"
  by (simp_all add: Db_Clear_def Db_GetDocumentCount_def GetDocumentCount_def Engine_Clear_def
      ClearIndex_def empty_index_def)

lemma new_database_fields:
  "Db_GetDocumentCount (new_database opts) = 0"
  "Options (new_database opts) = opts"
  "Titles (new_database opts) = Map.empty"
  "RawDocs (new_database opts) = Map.empty"
  "CompressedDocs (new_database opts) = Map.empty"
  by (simp_all add: new_database_def Db_GetDocumentCount_def GetDocumentCount_def empty_index_def)

text \<open>
  The stores of a database agree with the record \<open>hist\<close> of what was supplied: a title is
  stored exactly for the ids that were given a non-empty one, a text exactly for the ids
  ingested with a content (be it empty), and nothing at ids not handed out.
\<close>

definition stores_agree :: "search_database \<Rightarrow> db_options \<Rightarrow> (string \<times> string) list \<Rightarrow> bool" where
  "stores_agree db opts hist \<longleftrightarrow>
     Options db = opts \<and> Db_GetDocumentCount db = length hist
     \<and> (\<forall>d. Titles db d =
           (if StoreTitles opts \<and> d < length hist \<and> snd (hist ! d) \<noteq> [] then Some (snd (hist ! d)) else None))
     \<and> (\<forall>d. Db_GetDocument db d = (if StoreDocuments opts \<and> d < length hist then fst (hist ! d) else []))
     \<and> (\<forall>d. length hist \<le> d \<longrightarrow> RawDocs db d = None \<and> CompressedDocs db d = None)"

lemma stores_agree_new: "stores_agree (new_database opts) opts []"
  by (simp add: stores_agree_def new_database_fields Db_GetDocument_def)

lemma GetDocument_AddDocument:
  assumes "RawDocs db (Db_GetDocumentCount db) = None"
    and "CompressedDocs db (Db_GetDocumentCount db) = None"
  shows "Db_GetDocument (snd (Db_AddDocument db content title)) d =
     (if StoreDocuments (Options db) \<and> d = Db_GetDocumentCount db then content
      else Db_GetDocument db d)"
  using assms by (simp add: Db_GetDocument_def Db_AddDocument_fields Decompress_Compress_id)

lemma GetDocument_AddDocumentTerms:
  "Db_GetDocument (snd (Db_AddDocumentTerms db terms)) d = Db_GetDocument db d"
  by (simp add: Db_GetDocument_def Db_AddDocumentTerms_fields)

lemma GetDocument_AddDocumentTermsContent:
  assumes "RawDocs db (Db_GetDocumentCount db) = None"
    and "CompressedDocs db (Db_GetDocumentCount db) = None"
  shows "Db_GetDocument (snd (Db_AddDocumentTermsContent db terms content)) d =
     (if StoreDocuments (Options db) \<and> d = Db_GetDocumentCount db then content
      else Db_GetDocument db d)"
  using assms
  by (simp add: Db_GetDocument_def Db_AddDocumentTermsContent_fields Decompress_Compress_id)

lemma GetDocument_Clear: "Db_GetDocument (Db_Clear db) d = []"
  by (simp add: Db_GetDocument_def Db_Clear_fields)

lemma stores_agree_step:
  assumes "stores_agree db opts hist"
  shows "stores_agree (Db_call db call) opts (supplied_step hist call)"
proof -
  from assms have o: "Options db = opts" and c: "Db_GetDocumentCount db = length hist"
    and t: "\<And>d. Titles db d =
           (if StoreTitles opts \<and> d < length hist \<and> snd (hist ! d) \<noteq> [] then Some (snd (hist ! d)) else None)"
    and g: "\<And>d. Db_GetDocument db d = (if StoreDocuments opts \<and> d < length hist then fst (hist ! d) else [])"
    and n: "\<And>d. length hist \<le> d \<Longrightarrow> RawDocs db d = None \<and> CompressedDocs db d = None"
    by (simp_all add: stores_agree_def)
  from n [of "length hist"] c have n0: "RawDocs db (Db_GetDocumentCount db) = None"
    "CompressedDocs db (Db_GetDocumentCount db) = None" by simp_all
  show ?thesis
  proof (cases call)
    case (CallAddDocument content title)
    show ?thesis
      unfolding CallAddDocument stores_agree_def Db_call.simps supplied_step.simps
      by (intro conjI allI impI)
         (auto simp: Db_AddDocument_fields GetDocument_AddDocument [OF n0] o c t g n nth_append)
  next
    case (CallAddDocumentTerms terms)
    show ?thesis
      unfolding CallAddDocumentTerms stores_agree_def Db_call.simps supplied_step.simps
      by (intro conjI allI impI)
         (auto simp: Db_AddDocumentTerms_fields GetDocument_AddDocumentTerms o c t g n nth_append)
  next
    case (CallAddDocumentTermsContent terms content)
    show ?thesis
      unfolding CallAddDocumentTermsContent stores_agree_def Db_call.simps supplied_step.simps
      by (intro conjI allI impI)
         (auto simp: Db_AddDocumentTermsContent_fields GetDocument_AddDocumentTermsContent [OF n0]
            o c t g n nth_append)
  next
    case CallClear
    show ?thesis
      unfolding CallClear stores_agree_def Db_call.simps supplied_step.simps
      by (simp add: Db_Clear_fields GetDocument_Clear o)
  qed
qed

lemma stores_agree_foldl:
  "stores_agree db opts hist \<Longrightarrow>
   stores_agree (foldl Db_call db calls) opts (foldl supplied_step hist calls)"
  by (induction calls arbitrary: db hist) (simp_all add: stores_agree_step)

lemma stores_agree_calls: "stores_agree (Db_calls opts calls) opts (supplied calls)"
  unfolding Db_calls_def supplied_def by (rule stores_agree_foldl [OF stores_agree_new])

lemma Db_calls_GetDocument:
  "Db_GetDocument (Db_calls opts calls) d =
     (if StoreDocuments opts \<and> d < length (supplied calls) then fst (supplied calls ! d) else [])"
  using stores_agree_calls [of opts calls] by (simp add: stores_agree_def)

lemma Db_calls_GetTitle:
  "Db_GetTitle (Db_calls opts calls) d =
     (if StoreTitles opts \<and> d < length (supplied calls) then snd (supplied calls ! d) else [])"
  using stores_agree_calls [of opts calls] by (auto simp: stores_agree_def Db_GetTitle_def)

lemma Db_calls_GetDocumentCount:
  "Db_GetDocumentCount (Db_calls opts calls) = length (supplied calls)"
  using stores_agree_calls [of opts calls] by (simp add: stores_agree_def)

section \<open>Claims about Boolean queries and stored text\<close>

text \<open>
  Example states: a database at default options holding document 0 with the terms
  \<open>cat dog\<close> and document 1 with the term \<open>dog\<close>; a database with document and
  title storage switched off after \<open>AddDocument("hello", "title")\<close>; and a sequence of
  calls that ingests five documents through the three ingest paths.
\<close>

definition example_db :: search_database where
  "example_db =
     snd (Db_AddDocumentTerms
            (snd (Db_AddDocumentTerms (new_database default_db_options) [''cat'', ''dog'']))
            [''dog''])"

definition example_db_off :: search_database where
  "example_db_off =
     snd (Db_AddDocument
            (new_database (default_db_options\<lparr>StoreDocuments := False, StoreTitles := False\<rparr>))
            ''hello'' ''title'')"

definition example_calls :: "db_call list" where
  "example_calls =
     [CallAddDocument ''hello'' ''title'', CallAddDocumentTerms [''cat''],
      CallAddDocument ''world'' [], CallAddDocumentTermsContent [''dog''] ''dogs'',
      CallAddDocument [] ''empty'']"

text \<open>
  Claim C4 says that operator keywords are recognised case-insensitively. \<open>IsOp\<close> accepts
  only the all-lowercase and the all-uppercase spellings. On a database whose document 0
  contains \<open>cat\<close> and \<open>dog\<close>, the query \<open>cat AND dog\<close> returns \<open>[0]\<close>, while in
  \<open>cat And dog\<close> the token \<open>And\<close> is not an operator for \<open>ToRpn\<close>: it goes through
  \<open>NormalizeTerm\<close> into the output at its infix position, and the query returns the empty
  list.
\<close>

theorem operator_keywords_counterexample:
  "\<not> IsOp ''And''
   \<and> ToRpn default_pipeline_options (TokenizeBooleanQuery ''cat AND dog'') = [''cat'', ''dog'', ''AND'']
   \<and> ToRpn default_pipeline_options (TokenizeBooleanQuery ''cat And dog'') = [''cat'', ''and'', ''dog'']
   \<and> BooleanQuery example_db ''cat AND dog'' = [0]
   \<and> BooleanQuery example_db ''cat And dog'' = []"
  by code_simp

text \<open>
  Claim C4, amended. The operator keywords are recognised in exactly six spellings:
  \<open>and\<close>, \<open>or\<close>, \<open>not\<close>, \<open>AND\<close>, \<open>OR\<close>, \<open>NOT\<close>. Every other token that is not a
  parenthesis, mixed-case spellings such as \<open>And\<close>, \<open>Not\<close> or \<open>oR\<close> included, is an
  operand for \<open>ToRpn\<close> at every position of the query and whatever the output and the
  operator stack hold: its \<open>NormalizeTerm\<close> image is appended to the output and the
  operator stack stays as it is. Hence every token other than a parenthesis yields exactly
  one RPN element; when no operand normalizes to one of the six spellings, the RPN elements
  that are not operators are the normalized operands in their order; and a token list
  without operators and parentheses is converted to the list of its normalized tokens.
  \<open>EvalRpn\<close> applies the same six-spelling test to the RPN elements, that is to the
  operands after normalization: a query made of operand tokens only is evaluated as the
  postfix sequence of its normalized tokens, where an operand that normalizes to one of
  the six spellings (as \<open>And\<close> does when lower-casing is on) acts as that operator on the
  operand stack; for the last token of such a query this is spelled out: the query
  returns the posting list of the normalized token when that is not an operator spelling,
  and otherwise the complement of the entry on top of the stack, or the intersection or
  union of the two entries on top, that the tokens before it have left.
\<close>

theorem operator_keywords_exact:
  "(IsOp t \<longleftrightarrow> t \<in> set [''and'', ''or'', ''not'', ''AND'', ''OR'', ''NOT''])
   \<and> (\<not> IsOp tok \<and> tok \<noteq> ''('' \<and> tok \<noteq> '')''
        \<longrightarrow> ToRpn_loop opts (tok # rest) out ops
            = ToRpn_loop opts rest (out @ [NormalizeTerm opts tok]) ops)
   \<and> length (ToRpn opts tokens) = length (filter (\<lambda>t. t \<noteq> ''('' \<and> t \<noteq> '')'') tokens)
   \<and> (list_all (\<lambda>t. \<not> IsOp t \<and> t \<noteq> ''('' \<and> t \<noteq> '')'' \<longrightarrow> \<not> IsOp (NormalizeTerm opts t)) tokens
        \<longrightarrow> filter (\<lambda>e. \<not> IsOp e) (ToRpn opts tokens)
            = map (NormalizeTerm opts) (filter (\<lambda>t. \<not> IsOp t \<and> t \<noteq> ''('' \<and> t \<noteq> '')'') tokens))
   \<and> (list_all (\<lambda>t. \<not> IsOp t \<and> t \<noteq> ''('' \<and> t \<noteq> '')'') tokens
        \<longrightarrow> ToRpn opts tokens = map (NormalizeTerm opts) tokens)
   \<and> (list_all (\<lambda>t. \<not> IsOp t \<and> t \<noteq> ''('' \<and> t \<noteq> '')'') (TokenizeBooleanQuery query)
        \<longrightarrow> BooleanQuery db query
            = EvalRpn db (map (NormalizeTerm (EnginePipeline (Engine db))) (TokenizeBooleanQuery query)))
   \<and> (TokenizeBooleanQuery query = toks @ [last_tok]
        \<and> list_all (\<lambda>t. \<not> IsOp t \<and> t \<noteq> ''('' \<and> t \<noteq> '')'') (toks @ [last_tok])
        \<and> EvalRpn_loop db (map (NormalizeTerm (EnginePipeline (Engine db))) toks) [] = Some st0
        \<longrightarrow> BooleanQuery db query =
            (if \<not> IsOp (NormalizeTerm (EnginePipeline (Engine db)) last_tok)
               then GetPostingList (EngineIndex (Engine db))
                      (NormalizeTerm (EnginePipeline (Engine db)) last_tok)
             else if NormalizeTerm (EnginePipeline (Engine db)) last_tok = ''not''
                     \<or> NormalizeTerm (EnginePipeline (Engine db)) last_tok = ''NOT''
               then (case st0 of [] \<Rightarrow> [] | a # st' \<Rightarrow> NotList db a)
             else (case st0 of
                     b # a # st' \<Rightarrow>
                       (if NormalizeTerm (EnginePipeline (Engine db)) last_tok = ''and''
                           \<or> NormalizeTerm (EnginePipeline (Engine db)) last_tok = ''AND''
                        then Intersect a b else Union a b)
                   | _ \<Rightarrow> [])))"
proof (intro conjI impI)
  show "IsOp t \<longleftrightarrow> t \<in> set [''and'', ''or'', ''not'', ''AND'', ''OR'', ''NOT'']"
    by (auto simp: IsOp_def)
next
  assume "\<not> IsOp tok \<and> tok \<noteq> ''('' \<and> tok \<noteq> '')''"
  then show "ToRpn_loop opts (tok # rest) out ops
            = ToRpn_loop opts rest (out @ [NormalizeTerm opts tok]) ops"
    by simp
next
  show "length (ToRpn opts tokens) = length (filter (\<lambda>t. t \<noteq> ''('' \<and> t \<noteq> '')'') tokens)"
    by (rule ToRpn_length)
next
  assume "list_all (\<lambda>t. \<not> IsOp t \<and> t \<noteq> ''('' \<and> t \<noteq> '')'' \<longrightarrow> \<not> IsOp (NormalizeTerm opts t)) tokens"
  then show "filter (\<lambda>e. \<not> IsOp e) (ToRpn opts tokens)
            = map (NormalizeTerm opts) (filter (\<lambda>t. \<not> IsOp t \<and> t \<noteq> ''('' \<and> t \<noteq> '')'') tokens)"
    by (rule ToRpn_filter)
next
  assume "list_all (\<lambda>t. \<not> IsOp t \<and> t \<noteq> ''('' \<and> t \<noteq> '')'') tokens"
  then show "ToRpn opts tokens = map (NormalizeTerm opts) tokens"
    by (rule ToRpn_operands)
next
  assume "list_all (\<lambda>t. \<not> IsOp t \<and> t \<noteq> ''('' \<and> t \<noteq> '')'') (TokenizeBooleanQuery query)"
  then show "BooleanQuery db query
            = EvalRpn db (map (NormalizeTerm (EnginePipeline (Engine db))) (TokenizeBooleanQuery query))"
    by (simp add: BooleanQuery_def ToRpn_operands)
next
  assume a: "TokenizeBooleanQuery query = toks @ [last_tok]
        \<and> list_all (\<lambda>t. \<not> IsOp t \<and> t \<noteq> ''('' \<and> t \<noteq> '')'') (toks @ [last_tok])
        \<and> EvalRpn_loop db (map (NormalizeTerm (EnginePipeline (Engine db))) toks) [] = Some st0"
  then have "ToRpn (EnginePipeline (Engine db)) (TokenizeBooleanQuery query)
      = map (NormalizeTerm (EnginePipeline (Engine db))) toks
        @ [NormalizeTerm (EnginePipeline (Engine db)) last_tok]"
    using ToRpn_operands [of "toks @ [last_tok]" "EnginePipeline (Engine db)"] by simp
  with a show "BooleanQuery db query =
            (if \<not> IsOp (NormalizeTerm (EnginePipeline (Engine db)) last_tok)
               then GetPostingList (EngineIndex (Engine db))
                      (NormalizeTerm (EnginePipeline (Engine db)) last_tok)
             else if NormalizeTerm (EnginePipeline (Engine db)) last_tok = ''not''
                     \<or> NormalizeTerm (EnginePipeline (Engine db)) last_tok = ''NOT''
               then (case st0 of [] \<Rightarrow> [] | a # st' \<Rightarrow> NotList db a)
             else (case st0 of
                     b # a # st' \<Rightarrow>
                       (if NormalizeTerm (EnginePipeline (Engine db)) last_tok = ''and''
                           \<or> NormalizeTerm (EnginePipeline (Engine db)) last_tok = ''AND''
                        then Intersect a b else Union a b)
                   | _ \<Rightarrow> []))"
    using EvalRpn_last [of db "map (NormalizeTerm (EnginePipeline (Engine db))) toks" st0
        "NormalizeTerm (EnginePipeline (Engine db)) last_tok"]
    by (simp add: BooleanQuery_def)
qed

text \<open>
  At the default options, inside parentheses and with \<open>cat\<close> in the output, \<open>And\<close> is
  appended as the operand \<open>and\<close>; \<open>(cat And dog)\<close> converts to \<open>cat and dog\<close> where
  \<open>(cat AND dog)\<close> converts to \<open>cat dog AND\<close>; and on the example database
  \<open>cat dog And\<close> is evaluated as the postfix sequence \<open>cat dog and\<close>, which gives \<open>[0]\<close>.
\<close>

theorem operator_keywords_exact_witness:
  "\<not> IsOp ''And'' \<and> ''And'' \<noteq> ''('' \<and> ''And'' \<noteq> '')''
   \<and> ToRpn_loop default_pipeline_options [''And'', ''dog'', '')''] [''cat''] [''('']
       = ToRpn_loop default_pipeline_options [''dog'', '')'']
           ([''cat''] @ [NormalizeTerm default_pipeline_options ''And'']) [''('']
   \<and> ToRpn default_pipeline_options (TokenizeBooleanQuery ''(cat And dog)'') = [''cat'', ''and'', ''dog'']
   \<and> ToRpn default_pipeline_options (TokenizeBooleanQuery ''(cat AND dog)'') = [''cat'', ''dog'', ''AND'']
   \<and> filter (\<lambda>e. \<not> IsOp e) (ToRpn default_pipeline_options (TokenizeBooleanQuery ''(cat AND Dogs)''))
       = map (NormalizeTerm default_pipeline_options) [''cat'', ''Dogs'']
   \<and> list_all (\<lambda>t. \<not> IsOp t \<and> t \<noteq> ''('' \<and> t \<noteq> '')'') (TokenizeBooleanQuery ''cat dog And'')
   \<and> ToRpn default_pipeline_options (TokenizeBooleanQuery ''cat dog And'')
       = map (NormalizeTerm default_pipeline_options) (TokenizeBooleanQuery ''cat dog And'')
   \<and> BooleanQuery example_db ''cat dog And'' = EvalRpn example_db [''cat'', ''dog'', ''and'']
   \<and> TokenizeBooleanQuery ''cat dog And'' = [''cat'', ''dog''] @ [''And'']
   \<and> EvalRpn_loop example_db (map (NormalizeTerm (EnginePipeline (Engine example_db))) [''cat'', ''dog'']) []
       = Some [[0, 1], [0]]
   \<and> NormalizeTerm (EnginePipeline (Engine example_db)) ''And'' = ''and''
   \<and> BooleanQuery example_db ''cat dog And'' = Intersect [0] [0, 1]
   \<and> BooleanQuery example_db ''cat dog And'' = [0]"
proof -
  have t1: "TokenizeBooleanQuery ''cat dog And'' = [''cat'', ''dog'', ''And'']"
    and t2: "TokenizeBooleanQuery ''(cat AND Dogs)'' = [''('', ''cat'', ''AND'', ''Dogs'', '')'']"
    by code_simp+
  have n: "map (NormalizeTerm default_pipeline_options) [''cat'', ''dog'', ''And''] = [''cat'', ''dog'', ''and'']"
    "NormalizeTerm default_pipeline_options ''Dogs'' = ''dog''"
    by code_simp+
  have p: "EnginePipeline (Engine example_db) = default_pipeline_options" by code_simp
  have i: "\<not> IsOp ''And''" "\<not> IsOp ''cat''" "\<not> IsOp ''dog''" "\<not> IsOp ''Dogs''" "IsOp ''AND''"
    by (simp_all add: IsOp_def)
  have r: "ToRpn default_pipeline_options (TokenizeBooleanQuery ''(cat And dog)'') = [''cat'', ''and'', ''dog'']"
    "ToRpn default_pipeline_options (TokenizeBooleanQuery ''(cat AND dog)'') = [''cat'', ''dog'', ''AND'']"
    by code_simp+
  have e: "EvalRpn example_db [''cat'', ''dog'', ''and''] = [0]" by code_simp
  have s: "EvalRpn_loop example_db (map (NormalizeTerm default_pipeline_options) [''cat'', ''dog'']) []
       = Some [[0, 1], [0]]" by code_simp
  have x: "Intersect [0] [0, 1 :: nat] = [0]" by simp
  from operator_keywords_exact [of "''And''" "''And''" default_pipeline_options "[''dog'', '')'']" "[''cat'']"
      "[''('']" "TokenizeBooleanQuery ''(cat AND Dogs)''" "''cat dog And''" example_db
      "[''cat'', ''dog'']" "''And''" "[[0, 1], [0]]"]
    operator_keywords_exact [of "''And''" "''And''" default_pipeline_options "[''dog'', '')'']" "[''cat'']"
      "[''('']" "TokenizeBooleanQuery ''cat dog And''" "''cat dog And''" example_db
      "[''cat'', ''dog'']" "''And''" "[[0, 1], [0]]"]
    i n p r e s x
  show ?thesis by (simp add: t1 t2)
qed

text \<open>
  Claim C7. For every database state, a Boolean expression whose RPN form underflows the
  operand stack (a \<open>not\<close> that finds no entry, a binary operator that finds fewer than
  two) makes \<open>BooleanQuery\<close> return the empty list; and a byte stream whose first code is
  not one of the initial codes 0 to 255, or which before its end marker refers to a code
  that is neither in the dictionary nor the next code to be assigned, makes \<open>Decompress\<close>
  return the empty string. Both are \<open>const\<close> member functions: here they are functions
  of the database value and of the bytes that return a result only, so there is no
  successor state that could differ from the given one.
\<close>

theorem malformed_input_yields_empty:
  "(rpn_underflows (ToRpn (EnginePipeline (Engine db)) (TokenizeBooleanQuery query)) 0
      \<longrightarrow> BooleanQuery db query = [])
   \<and> (lzw_malformed (UnpackCodes data) \<longrightarrow> Decompress data = [])"
proof -
  have "BooleanQuery db query = []"
    if "rpn_underflows (ToRpn (EnginePipeline (Engine db)) (TokenizeBooleanQuery query)) 0"
  proof -
    from that have "EvalRpn_loop db (ToRpn (EnginePipeline (Engine db)) (TokenizeBooleanQuery query)) [] = None"
      by (simp add: EvalRpn_loop_None_iff)
    then show ?thesis by (simp add: BooleanQuery_def EvalRpn_def)
  qed
  then show ?thesis by (simp add: Decompress_malformed)
qed

theorem malformed_input_yields_empty_witness:
  "rpn_underflows (ToRpn (EnginePipeline (Engine example_db)) (TokenizeBooleanQuery ''cat AND'')) 0
   \<and> BooleanQuery example_db ''cat AND'' = []
   \<and> BooleanQuery example_db ''cat'' = [0]
   \<and> UnpackCodes [97, 192, 18, 255, 15] = [97, 300, 4095]
   \<and> lzw_malformed (UnpackCodes [97, 192, 18, 255, 15])
   \<and> Decompress [97, 192, 18, 255, 15] = []"
proof -
  have h1: "rpn_underflows (ToRpn (EnginePipeline (Engine example_db)) (TokenizeBooleanQuery ''cat AND'')) 0
            \<and> BooleanQuery example_db ''cat'' = [0]"
    by code_simp
  have h2: "UnpackCodes [97, 192, 18, 255, 15] = [97, 300, 4095]"
    by (simp add: UnpackCodes_def CodeBits_def Let_def unpack_drain_8 unpack_drain_16
        unpack_drain_12 unpack_drain_4)
  have h3: "lzw_malformed (UnpackCodes [97, 192, 18, 255, 15])"
    by (simp add: h2 lzw_malformed_def FirstFreeCode_def EndCode_def)
  from malformed_input_yields_empty [of example_db "''cat AND''" "[97, 192, 18, 255, 15]"] h1 h2 h3
  show ?thesis by blast
qed

text \<open>
  Claim C10 says that a query whose evaluation ends with more than one posting list on
  the stack returns the posting list of the last operand. On the example database the
  query \<open>dog cat NOT\<close> ends with two entries on the stack, the complement of the posting
  list of \<open>cat\<close> on top of the posting list of \<open>dog\<close>, and returns the complement
  \<open>[1]\<close>, while the posting list of the last operand \<open>cat\<close> is \<open>[0]\<close>.
\<close>

theorem leftover_stack_last_operand_counterexample:
  "EvalRpn_loop example_db
     (ToRpn (EnginePipeline (Engine example_db)) (TokenizeBooleanQuery ''dog cat NOT'')) []
     = Some [[1], [0, 1]]
   \<and> BooleanQuery example_db ''dog cat NOT'' = [1]
   \<and> GetPostingList (EngineIndex (Engine example_db)) ''cat'' = [0]
   \<and> GetPostingList (EngineIndex (Engine example_db)) ''dog'' = [0, 1]"
  by code_simp

text \<open>
  Claim C10, amended. For every database state, a Boolean query whose RPN evaluation ends
  without underflow and with more than one posting list on the operand stack returns the
  entry on top of the stack and drops every other entry; it neither returns an empty list
  for that reason nor reports an error. The entry on top is the value of the last RPN element, whatever lies below it: the
  posting list of that element when it is an operand, the complement of the entry then on
  top when it is \<open>not\<close>, the intersection or union of the two entries then on top when it
  is \<open>and\<close> or \<open>or\<close>. In particular a query of two or more operand tokens, none of which
  is or normalizes to an operator spelling, leaves the posting lists of all its operands on
  the stack and returns the posting list of its last operand; and in every database state
  \<open>cat dog\<close> returns the posting list of the normalized \<open>dog\<close>.
\<close>

theorem leftover_stack_entries_discarded:
  "(EvalRpn_loop db (ToRpn (EnginePipeline (Engine db)) (TokenizeBooleanQuery query)) [] = Some st
      \<and> 1 < length st \<longrightarrow> BooleanQuery db query = hd st)
   \<and> (ToRpn (EnginePipeline (Engine db)) (TokenizeBooleanQuery query) = pre @ [e]
      \<and> EvalRpn_loop db pre [] = Some st0
      \<longrightarrow> BooleanQuery db query =
          (if \<not> IsOp e then GetPostingList (EngineIndex (Engine db)) e
           else if e = ''not'' \<or> e = ''NOT''
             then (case st0 of [] \<Rightarrow> [] | a # st' \<Rightarrow> NotList db a)
           else (case st0 of
                   b # a # st' \<Rightarrow> (if e = ''and'' \<or> e = ''AND'' then Intersect a b else Union a b)
                 | _ \<Rightarrow> [])))
   \<and> (1 < length (TokenizeBooleanQuery query)
      \<and> list_all (\<lambda>t. \<not> IsOp t \<and> t \<noteq> ''('' \<and> t \<noteq> '')''
                       \<and> \<not> IsOp (NormalizeTerm (EnginePipeline (Engine db)) t))
           (TokenizeBooleanQuery query)
      \<longrightarrow> EvalRpn_loop db (ToRpn (EnginePipeline (Engine db)) (TokenizeBooleanQuery query)) []
            = Some (rev (map (\<lambda>t. GetPostingList (EngineIndex (Engine db))
                                 (NormalizeTerm (EnginePipeline (Engine db)) t))
                          (TokenizeBooleanQuery query)))
          \<and> BooleanQuery db query
            = GetPostingList (EngineIndex (Engine db))
                (NormalizeTerm (EnginePipeline (Engine db)) (last (TokenizeBooleanQuery query))))
   \<and> BooleanQuery db ''cat dog''
       = GetPostingList (EngineIndex (Engine db)) (NormalizeTerm (EnginePipeline (Engine db)) ''dog'')"
proof (intro conjI impI)
  assume "EvalRpn_loop db (ToRpn (EnginePipeline (Engine db)) (TokenizeBooleanQuery query)) [] = Some st
      \<and> 1 < length st"
  then show "BooleanQuery db query = hd st"
    by (cases st) (simp_all add: BooleanQuery_def EvalRpn_def)
next
  assume "ToRpn (EnginePipeline (Engine db)) (TokenizeBooleanQuery query) = pre @ [e]
      \<and> EvalRpn_loop db pre [] = Some st0"
  then show "BooleanQuery db query =
          (if \<not> IsOp e then GetPostingList (EngineIndex (Engine db)) e
           else if e = ''not'' \<or> e = ''NOT''
             then (case st0 of [] \<Rightarrow> [] | a # st' \<Rightarrow> NotList db a)
           else (case st0 of
                   b # a # st' \<Rightarrow> (if e = ''and'' \<or> e = ''AND'' then Intersect a b else Union a b)
                 | _ \<Rightarrow> []))"
    using EvalRpn_last [of db pre st0 e] by (simp add: BooleanQuery_def)
next
  assume a: "1 < length (TokenizeBooleanQuery query)
      \<and> list_all (\<lambda>t. \<not> IsOp t \<and> t \<noteq> ''('' \<and> t \<noteq> '')''
                       \<and> \<not> IsOp (NormalizeTerm (EnginePipeline (Engine db)) t))
           (TokenizeBooleanQuery query)"
  then have ne: "TokenizeBooleanQuery query \<noteq> []" by auto
  from a show "EvalRpn_loop db (ToRpn (EnginePipeline (Engine db)) (TokenizeBooleanQuery query)) []
            = Some (rev (map (\<lambda>t. GetPostingList (EngineIndex (Engine db))
                                 (NormalizeTerm (EnginePipeline (Engine db)) t))
                          (TokenizeBooleanQuery query)))"
    by (intro BooleanQuery_operands(1) ne) simp
  from a show "BooleanQuery db query
            = GetPostingList (EngineIndex (Engine db))
                (NormalizeTerm (EnginePipeline (Engine db)) (last (TokenizeBooleanQuery query)))"
    by (intro BooleanQuery_operands(2) ne) simp
next
  have toks: "TokenizeBooleanQuery ''cat dog'' = [''cat'', ''dog'']" by code_simp
  have ops: "\<not> IsOp ''cat''" "\<not> IsOp ''dog''" by (simp_all add: IsOp_def)
  show "BooleanQuery db ''cat dog''
       = GetPostingList (EngineIndex (Engine db)) (NormalizeTerm (EnginePipeline (Engine db)) ''dog'')"
    using BooleanQuery_operands(2) [of db "''cat dog''"]
    by (simp add: toks ops NormalizeTerm_cat_dog)
qed

theorem leftover_stack_entries_discarded_witness:
  "EvalRpn_loop example_db (ToRpn (EnginePipeline (Engine example_db)) (TokenizeBooleanQuery ''cat dog'')) []
     = Some [[0, 1], [0]]
   \<and> 1 < length [[0, 1], [0 :: nat]]
   \<and> BooleanQuery example_db ''cat dog'' = hd [[0, 1], [0]]
   \<and> GetPostingList (EngineIndex (Engine example_db)) ''dog'' = [0, 1]
   \<and> ToRpn (EnginePipeline (Engine example_db)) (TokenizeBooleanQuery ''dog cat NOT'')
       = [''dog'', ''cat''] @ [''NOT'']
   \<and> EvalRpn_loop example_db [''dog'', ''cat''] [] = Some [[0], [0, 1]]
   \<and> BooleanQuery example_db ''dog cat NOT'' = NotList example_db [0]
   \<and> NotList example_db [0] = [1]
   \<and> 1 < length (TokenizeBooleanQuery ''cat dog'')
   \<and> BooleanQuery example_db ''cat dog''
       = GetPostingList (EngineIndex (Engine example_db))
           (NormalizeTerm (EnginePipeline (Engine example_db)) (last (TokenizeBooleanQuery ''cat dog'')))"
proof -
  have h1: "EvalRpn_loop example_db (ToRpn (EnginePipeline (Engine example_db)) (TokenizeBooleanQuery ''cat dog'')) []
     = Some [[0, 1], [0]]" by code_simp
  have h2: "GetPostingList (EngineIndex (Engine example_db)) ''dog'' = [0, 1]" by code_simp
  have h3: "ToRpn (EnginePipeline (Engine example_db)) (TokenizeBooleanQuery ''dog cat NOT'')
       = [''dog'', ''cat''] @ [''NOT'']" by code_simp
  have h4: "EvalRpn_loop example_db [''dog'', ''cat''] [] = Some [[0], [0, 1]]" by code_simp
  have h5: "NotList example_db [0] = [1]" by code_simp
  have h6: "TokenizeBooleanQuery ''cat dog'' = [''cat'', ''dog'']" by code_simp
  have h7: "IsOp ''NOT''" "\<not> IsOp ''cat''" "\<not> IsOp ''dog''" by (simp_all add: IsOp_def)
  from leftover_stack_entries_discarded [of example_db "''cat dog''" "[[0, 1], [0]]" "[''cat'']" "''dog''" "[[0]]"]
    leftover_stack_entries_discarded [of example_db "''dog cat NOT''" "[]" "[''dog'', ''cat'']" "''NOT''" "[[0], [0, 1]]"]
    h1 h2 h3 h4 h5 h7
  show ?thesis by (simp add: h6 NormalizeTerm_cat_dog)
qed

text \<open>
  Claim C9. Every state of a database is the result \<open>Db_calls opts calls\<close> of a sequence
  of calls on a database constructed with options \<open>opts\<close>, and \<open>supplied calls\<close> lists,
  by document id, the content and the title given at the ingest of each document of that
  state (the empty string where none was given). In every such state and for every id,
  \<open>GetDocument\<close> returns the content supplied for that id when document storage is on and
  the id has been handed out, and the empty string otherwise; \<open>GetTitle\<close> returns the
  title supplied for that id when title storage is on and the id has been handed out, and
  the empty string otherwise. So both return the empty string for an unknown id and when
  the storage option is off (this in any database value whatever), \<open>GetTitle\<close> returns
  it for every document ingested without a title, through whichever ingest path and however
  many calls later, and \<open>GetDocument\<close> returns it for a document ingested without content
  as for one whose content is the empty string.
\<close>

theorem GetDocument_GetTitle_empty_when_absent:
  "Db_GetDocumentCount (Db_calls opts calls) = length (supplied calls)
   \<and> Db_GetDocument (Db_calls opts calls) d =
       (if StoreDocuments opts \<and> d < length (supplied calls) then fst (supplied calls ! d) else [])
   \<and> Db_GetTitle (Db_calls opts calls) d =
       (if StoreTitles opts \<and> d < length (supplied calls) then snd (supplied calls ! d) else [])
   \<and> (Db_GetDocumentCount (Db_calls opts calls) \<le> d
        \<longrightarrow> Db_GetDocument (Db_calls opts calls) d = [] \<and> Db_GetTitle (Db_calls opts calls) d = [])
   \<and> (\<not> StoreDocuments (Options db) \<longrightarrow> Db_GetDocument db d = [])
   \<and> (\<not> StoreTitles (Options db) \<longrightarrow> Db_GetTitle db d = [])
   \<and> (d < length (supplied calls) \<and> snd (supplied calls ! d) = []
        \<longrightarrow> Db_GetTitle (Db_calls opts calls) d = [])
   \<and> (d < length (supplied calls) \<and> fst (supplied calls ! d) = []
        \<longrightarrow> Db_GetDocument (Db_calls opts calls) d = [])"
  by (simp add: Db_calls_GetDocument Db_calls_GetTitle Db_calls_GetDocumentCount
      Db_GetDocument_def [of db] Db_GetTitle_def [of db])

text \<open>
  Five documents: with content and title, as terms only, with content and no title, as
  terms with content, and with empty content and a title; id 5 has not been handed out.
\<close>

theorem GetDocument_GetTitle_empty_when_absent_witness:
  "supplied example_calls
     = [(''hello'', ''title''), ([], []), (''world'', []), (''dogs'', []), ([], ''empty'')]
   \<and> Db_GetDocumentCount (Db_calls default_db_options example_calls) = 5
   \<and> map (Db_GetDocument (Db_calls default_db_options example_calls)) [0, 1, 2, 3, 4, 5]
       = [''hello'', [], ''world'', ''dogs'', [], []]
   \<and> map (Db_GetTitle (Db_calls default_db_options example_calls)) [0, 1, 2, 3, 4, 5]
       = [''title'', [], [], [], ''empty'', []]
   \<and> \<not> StoreDocuments (Options example_db_off) \<and> \<not> StoreTitles (Options example_db_off)
   \<and> Db_GetDocument example_db_off 0 = [] \<and> Db_GetTitle example_db_off 0 = []"
proof -
  have s: "supplied example_calls
     = [(''hello'', ''title''), ([], []), (''world'', []), (''dogs'', []), ([], ''empty'')]"
    by (simp add: supplied_def example_calls_def)
  have o: "StoreDocuments default_db_options" "StoreTitles default_db_options"
    by (simp_all add: default_db_options_def)
  have off: "\<not> StoreDocuments (Options example_db_off)" "\<not> StoreTitles (Options example_db_off)"
    by (simp_all add: example_db_off_def Db_AddDocument_fields new_database_def)
  from GetDocument_GetTitle_empty_when_absent [of default_db_options example_calls 0 example_db_off]
    GetDocument_GetTitle_empty_when_absent [of default_db_options example_calls 1 example_db_off]
    GetDocument_GetTitle_empty_when_absent [of default_db_options example_calls 2 example_db_off]
    GetDocument_GetTitle_empty_when_absent [of default_db_options example_calls 3 example_db_off]
    GetDocument_GetTitle_empty_when_absent [of default_db_options example_calls 4 example_db_off]
    GetDocument_GetTitle_empty_when_absent [of default_db_options example_calls 5 example_db_off]
    off o
  show ?thesis by (simp add: s)
qed

section \<open>Idempotence of term normalization\<close>

lemma ToLowerChar_idem: "ToLowerChar (ToLowerChar c) = ToLowerChar c"
proof (cases "65 \<le> (of_char c :: nat) \<and> (of_char c :: nat) \<le> 90")
  case True
  then have "(of_char (char_of ((of_char c :: nat) + 32)) :: nat) = of_char c + 32"
    by simp
  with True show ?thesis by (simp add: ToLowerChar_def)
next
  case False
  then have "ToLowerChar c = c" by (auto simp: ToLowerChar_def)
  then show ?thesis by simp
qed

lemma ToLower_idem: "ToLower (ToLower s) = ToLower s"
  by (simp add: ToLower_def ToLowerChar_idem)

lemma ToLowerChar_not_alpha: "\<not> IsAlpha c \<Longrightarrow> ToLowerChar c = c"
  by (auto simp: ToLowerChar_def IsAlpha_def)

lemma ToLowerChar_number: "IsNumberChar c \<Longrightarrow> ToLowerChar c = c"
  by (auto simp: ToLowerChar_def IsNumberChar_def IsDigit_def)

lemma scan_all: "start \<le> i \<Longrightarrow> i < scan P text start \<Longrightarrow> P (text ! i)"
proof (induction P "text" start rule: scan.induct)
  case (1 P t pos)
  show ?case
  proof (cases "pos < length t \<and> P (t ! pos)")
    case True
    then have eq: "scan P t pos = scan P t (pos + 1)" by (subst scan.simps) simp
    show ?thesis
    proof (cases "i = pos")
      case True
      with \<open>pos < length t \<and> P (t ! pos)\<close> show ?thesis by simp
    next
      case False
      with 1(2) have "pos + 1 \<le> i" by simp
      with 1(1) [OF True] 1(3) eq show ?thesis by simp
    qed
  next
    case False
    then have "scan P t pos = pos" by (subst scan.simps) auto
    with 1(2,3) show ?thesis by simp
  qed
qed

lemma SubStr_scan_all:
  assumes "c \<in> set (SubStr text start (scan P text start - start))"
  shows "P c"
proof -
  from assms have lt: "start < length text" and
    c: "c \<in> set (take (scan P text start - start) (drop start text))"
    by (auto simp: SubStr_def split: if_splits)
  from c obtain j where j: "j < length (take (scan P text start - start) (drop start text))"
    and cj: "c = take (scan P text start - start) (drop start text) ! j"
    by (auto simp: in_set_conv_nth)
  from j have j1: "j < scan P text start - start" and j2: "start + j < length text" by auto
  from cj j1 j2 have "c = text ! (start + j)" by simp
  moreover have "P (text ! (start + j))"
    by (rule scan_all [of start]) (use j1 in auto)
  ultimately show ?thesis by simp
qed

lemma ToLower_fixed: "(\<And>c. c \<in> set s \<Longrightarrow> ToLowerChar c = c) \<Longrightarrow> ToLower s = s"
  by (simp add: ToLower_def map_idI)

lemma Tokenize_span_lower:
  assumes low: "tokLowerCase opts" and lt: "start < length text"
    and tok: "tok \<in> set (fst (Tokenize_span opts text start))"
  shows "ToLower (Text tok) = Text tok"
proof (cases "GetCharType (text ! start)")
  case Word
  with tok low show ?thesis
    by (auto simp: Tokenize_span_def Let_def ToLower_idem split: if_splits)
next
  case Number
  with tok have "Text tok = SubStr text start (scan IsNumberChar text start - start)"
    by (auto simp: Tokenize_span_def Let_def split: if_splits)
  moreover have "ToLower (SubStr text start (scan IsNumberChar text start - start))
      = SubStr text start (scan IsNumberChar text start - start)"
    by (rule ToLower_fixed) (auto dest: SubStr_scan_all intro: ToLowerChar_number)
  ultimately show ?thesis by simp
next
  case Punctuation
  then have na: "\<not> IsAlpha (text ! start)"
    by (auto simp: GetCharType_def split: if_splits)
  from lt have "SubStr text start 1 = [text ! start]"
    by (simp add: SubStr_def take_Suc_conv_app_nth hd_drop_conv_nth take_Suc)
  with Punctuation tok na show ?thesis
    by (auto simp: Tokenize_span_def ToLower_def ToLowerChar_not_alpha split: if_splits)
next
  case Whitespace
  with tok show ?thesis by (simp add: Tokenize_span_def)
qed

lemma Tokenize_loop_lower:
  "tokLowerCase opts \<Longrightarrow> tokSkipWhitespace opts \<Longrightarrow> tok \<in> set (Tokenize_loop opts text pos)
   \<Longrightarrow> ToLower (Text tok) = Text tok"
proof (induction opts "text" pos rule: Tokenize_loop.induct)
  case (1 opts t pos)
  show ?case
  proof (cases "pos < length t \<and> scan IsWhitespace t pos < length t")
    case False
    with 1(2,3,4) show ?thesis
      by (subst (asm) Tokenize_loop.simps) (auto simp: Let_def split: if_splits)
  next
    case True
    let ?p1 = "scan IsWhitespace t pos"
    from True 1(3) have eq: "Tokenize_loop opts t pos
        = fst (Tokenize_span opts t ?p1) @ Tokenize_loop opts t (snd (Tokenize_span opts t ?p1))"
      by (subst Tokenize_loop.simps) (simp add: Let_def)
    with 1(4) consider "tok \<in> set (fst (Tokenize_span opts t ?p1))"
      | "tok \<in> set (Tokenize_loop opts t (snd (Tokenize_span opts t ?p1)))" by auto
    then show ?thesis
    proof cases
      case 1
      with \<open>tokLowerCase opts\<close> True show ?thesis by (auto intro: Tokenize_span_lower)
    next
      case 2
      from True have "pos < length t" "\<not> length t \<le> ?p1" by auto
      from 1(1) [OF this(1) refl refl this(2) 1(2,3) 2] show ?thesis .
    qed
  qed
qed

lemma NormalizeTerm_plain:
  "\<not> UseStemming opts \<Longrightarrow> \<not> UseLemmatization opts
   \<Longrightarrow> NormalizeTerm opts t = (if LowerCase opts then ToLower t else t)"
  by (simp add: NormalizeTerm_def)

lemma Process_plain:
  "\<not> UseStemming opts \<Longrightarrow> \<not> UseLemmatization opts
   \<Longrightarrow> Process opts t = map Text (Tokenize_loop (pipeline_tokOpts opts) t 0)"
  by (simp add: Process_def TokenizeToStrings_def Tokenize_def)

text \<open>
  Claim C5, as stated, fails on the code. With the default options (stemming on) the
  Porter stemmer maps \<open>houses\<close> to \<open>hous\<close> and \<open>hous\<close> to \<open>hou\<close>, so a second
  \<open>NormalizeTerm\<close> changes the result of the first, and normalizing the output of
  \<open>Process\<close> elementwise changes that output.
\<close>

theorem NormalizeTerm_not_idempotent:
  "NormalizeTerm default_pipeline_options ''houses'' = ''hous''
   \<and> NormalizeTerm default_pipeline_options (NormalizeTerm default_pipeline_options ''houses'') = ''hou''
   \<and> Process default_pipeline_options ''two houses'' = [''two'', ''hous'']
   \<and> map (NormalizeTerm default_pipeline_options) (Process default_pipeline_options ''two houses'')
       = [''two'', ''hou'']"
  by code_simp

text \<open>
  Claim C5, amended: for pipeline options with stemming and lemmatization both switched
  off (and every setting of the other options), \<open>NormalizeTerm\<close> is idempotent on
  every input string, and applying it elementwise to the output of \<open>Process\<close> on
  any text leaves that output unchanged.
\<close>

theorem NormalizeTerm_idempotent_without_stemming:
  assumes "\<not> UseStemming opts" and "\<not> UseLemmatization opts"
  shows "NormalizeTerm opts (NormalizeTerm opts t) = NormalizeTerm opts t
         \<and> map (NormalizeTerm opts) (Process opts doc) = Process opts doc"
proof
  from assms show "NormalizeTerm opts (NormalizeTerm opts t) = NormalizeTerm opts t"
    by (simp add: NormalizeTerm_plain ToLower_idem)
next
  have N: "NormalizeTerm opts = (\<lambda>t. if LowerCase opts then ToLower t else t)"
    by (rule ext) (simp add: NormalizeTerm_plain assms)
  show "map (NormalizeTerm opts) (Process opts doc) = Process opts doc"
  proof (cases "LowerCase opts")
    case False
    then show ?thesis by (simp add: N)
  next
    case True
    have "map ToLower (map Text (Tokenize_loop (pipeline_tokOpts opts) doc 0))
        = map Text (Tokenize_loop (pipeline_tokOpts opts) doc 0)"
      unfolding map_map
      by (rule map_cong [OF refl])
         (use True in \<open>auto intro!: Tokenize_loop_lower simp: pipeline_tokOpts_def\<close>)
    with assms True show ?thesis
      by (simp add: N Process_plain)
  qed
qed

text \<open>The amended statement of C5 at the default options with stemming switched off.\<close>

theorem NormalizeTerm_idempotent_without_stemming_witness:
  "NormalizeTerm (default_pipeline_options\<lparr>UseStemming := False\<rparr>)
       (NormalizeTerm (default_pipeline_options\<lparr>UseStemming := False\<rparr>) ''Houses'') = ''houses''
   \<and> Process (default_pipeline_options\<lparr>UseStemming := False\<rparr>) ''Two Houses, 42'' = [''two'', ''houses'']
   \<and> map (NormalizeTerm (default_pipeline_options\<lparr>UseStemming := False\<rparr>))
         (Process (default_pipeline_options\<lparr>UseStemming := False\<rparr>) ''Two Houses, 42'')
       = [''two'', ''houses'']"
proof -
  have a: "\<not> UseStemming (default_pipeline_options\<lparr>UseStemming := False\<rparr>)"
    "\<not> UseLemmatization (default_pipeline_options\<lparr>UseStemming := False\<rparr>)"
    by (simp_all add: default_pipeline_options_def)
  have n: "NormalizeTerm (default_pipeline_options\<lparr>UseStemming := False\<rparr>) ''Houses'' = ''houses''"
    by code_simp
  have p: "Process (default_pipeline_options\<lparr>UseStemming := False\<rparr>) ''Two Houses, 42'' = [''two'', ''houses'']"
    by code_simp
  from NormalizeTerm_idempotent_without_stemming [OF a, of "''Houses''" "''Two Houses, 42''"] n p
  show ?thesis by simp
qed

section \<open>Dictionary lookups of the lemmatizer\<close>




























end
